theory Spec2Isabelle
  imports Main "HOL-Library.Word"
begin

section \<open>Data model (models.go)\<close>

text \<open>
  A Go \<^verbatim>\<open>float64\<close> is a sign, a mantissa and a binary exponent (value
  \<open>\<plusminus> m * 2^e\<close>), an infinity or a NaN. Only its rendering by the \<^verbatim>\<open>%f\<close> verb
  is used by the code, and that rendering is decided by the exact value.
\<close>

datatype float64 = Finite bool nat int | Infinity bool | NaN

text \<open>
  A Go \<^verbatim>\<open>time.Time\<close> is kept as the civil fields that \<^verbatim>\<open>Format\<close> reads from it.
  \<open>zone = None\<close> is the UTC location (a nil location pointer), \<open>Some off\<close> any
  other location, \<open>off\<close> seconds east of UTC at that instant.
\<close>

record time =
  year :: int
  month :: nat
  day :: nat
  hour :: nat
  minute :: nat
  second :: nat
  nsec :: nat
  zone :: "int option"

text \<open>The zero value of \<^verbatim>\<open>time.Time\<close>: January 1, year 1, 00:00:00 UTC.\<close>

definition zero_time :: time where
  "zero_time = \<lparr>year = 1, month = 1, day = 1, hour = 0, minute = 0, second = 0,
                 nsec = 0, zone = None\<rparr>"

text \<open>
  A Go \<^verbatim>\<open>map[string]bool\<close> is nil (\<open>None\<close>) or holds entries. The code reads it only
  through \<^verbatim>\<open>range\<close>: the list holds the entries in the order that this iteration
  visits them (an order Go leaves unspecified). A nil map and a map without entries are
  told apart by the record store only, which keeps the one as a null value and the
  other as an empty map.
\<close>

type_synonym gomap = "(string \<times> bool) list option"

definition entries :: "gomap \<Rightarrow> (string \<times> bool) list" where
  "entries m = (case m of None \<Rightarrow> [] | Some es \<Rightarrow> es)"

record Location =
  Latitude :: float64
  Longitude :: float64

record PlantConditions =
  Healthy :: bool
  Unhealthy :: bool
  SignsOfPestInfestation :: bool
  PestDetails :: gomap
  OtherPest :: string
  SignsOfNutrientDeficiency :: bool
  NutrientDeficiencyDetails :: gomap
  OtherNutrient :: string
  WaterStress :: bool
  WaterStressLevel :: string
  Lodging :: bool
  LodgingLevel :: string
  WeedInfestation :: bool
  WeedInfestationLevel :: string
  DiseaseSymptoms :: bool
  DiseaseDetails :: gomap
  OtherDisease :: string
  Other :: bool
  OtherConditionText :: string

record TraitMeasurements =
  CulmLength :: float64
  PanicleLength :: float64
  PaniclesPerHill :: "64 word"
  HillsObserved :: "64 word"

record Submission =
  ID :: string
  UserID :: string
  FieldID :: string
  OtherFieldName :: string
  Coordinates :: Location
  Date :: time
  GrowthStage :: string
  PlantConditions :: PlantConditions
  TraitMeasurements :: TraitMeasurements
  Notes :: string
  ObserverName :: string
  Images :: "string list"
  Videos :: "string list"
  Audio :: "string list"
  Status :: string
  CreatedAt :: time
  UpdatedAt :: time

record Sheet =
  SpreadsheetID :: string
  SpreadsheetName :: string

section \<open>Rendering of values (fmt, strconv, strings, time)\<close>

definition digit :: "nat \<Rightarrow> char" where
  "digit n = ''0123456789'' ! (n mod 10)"

text \<open>Decimal digits of a natural number, most significant first, no leading zero.\<close>

fun dec :: "nat \<Rightarrow> string" where
  "dec n = (if n < 10 then [digit n] else dec (n div 10) @ [digit n])"

declare dec.simps [simp del]

text \<open>Zero padding on the left up to a width, as \<^verbatim>\<open>appendInt\<close> of package time does.\<close>

definition pad :: "nat \<Rightarrow> string \<Rightarrow> string" where
  "pad w ds = replicate (w - length ds) (CHR ''0'') @ ds"

text \<open>\<^verbatim>\<open>fmt.Sprintf("%d", x)\<close> for a Go \<^verbatim>\<open>int\<close> (64 bits, two's complement).\<close>

definition itoa :: "int \<Rightarrow> string" where
  "itoa i = (if i < 0 then CHR ''-'' # dec (nat (- i)) else dec (nat i))"

definition fmt_d :: "64 word \<Rightarrow> string" where
  "fmt_d x = itoa (sint x)"

text \<open>\<^verbatim>\<open>fmt.Sprintf("%t", b)\<close>.\<close>

definition fmt_t :: "bool \<Rightarrow> string" where
  "fmt_t b = (if b then ''true'' else ''false'')"

text \<open>
  \<^verbatim>\<open>fmt.Sprintf("%f", x)\<close>: the default precision of the verb is six digits after the
  point. The exact value is rounded to a multiple of \<open>10^-6\<close>, to the nearest one and to
  the even one on a tie; the sign is kept also when the digits are all zero.
\<close>

definition round_half_even :: "nat \<Rightarrow> nat \<Rightarrow> nat" where
  "round_half_even num den =
     (let q = num div den; r = num mod den
      in if 2 * r < den then q
         else if den < 2 * r then q + 1
         else if even q then q else q + 1)"

definition micros :: "nat \<Rightarrow> int \<Rightarrow> nat" where
  "micros m e =
     (if 0 \<le> e then m * 2 ^ nat e * 1000000
      else round_half_even (m * 1000000) (2 ^ nat (- e)))"

fun fmt_f :: "float64 \<Rightarrow> string" where
  "fmt_f (Finite s m e) =
     (let n = micros m e
      in (if s then ''-'' else '''') @ dec (n div 1000000) @ ''.'' @ pad 6 (dec (n mod 1000000)))"
| "fmt_f (Infinity s) = (if s then ''-Inf'' else ''+Inf'')"
| "fmt_f NaN = ''NaN''"

text \<open>\<^verbatim>\<open>appendInt(b, x, width)\<close> of package time: a sign, then the digits zero padded.\<close>

definition appendInt :: "int \<Rightarrow> nat \<Rightarrow> string" where
  "appendInt x width =
     (if x < 0 then CHR ''-'' # pad width (dec (nat (- x))) else pad width (dec (nat x)))"

text \<open>
  \<^verbatim>\<open>t.Format(time.RFC3339)\<close>, layout \<^verbatim>\<open>2006-01-02T15:04:05Z07:00\<close>: the zone is
  \<^verbatim>\<open>Z\<close> at offset zero and a signed \<^verbatim>\<open>hh:mm\<close> otherwise.
\<close>

definition zone_offset :: "time \<Rightarrow> int" where
  "zone_offset t = (case zone t of None \<Rightarrow> 0 | Some off \<Rightarrow> off)"

text \<open>Go's integer division truncates toward zero.\<close>

definition go_quot :: "int \<Rightarrow> int \<Rightarrow> int" where
  "go_quot a b = sgn a * sgn b * (\<bar>a\<bar> div \<bar>b\<bar>)"

definition format_zone :: "int \<Rightarrow> string" where
  "format_zone offset =
     (if offset = 0 then ''Z''
      else let z = go_quot offset 60
           in (if z < 0 then ''-'' else ''+'')
              @ appendInt (\<bar>z\<bar> div 60) 2 @ '':'' @ appendInt (\<bar>z\<bar> mod 60) 2)"

definition Format_RFC3339 :: "time \<Rightarrow> string" where
  "Format_RFC3339 t =
     appendInt (year t) 4 @ ''-'' @ appendInt (int (month t)) 2 @ ''-''
       @ appendInt (int (day t)) 2 @ ''T'' @ appendInt (int (hour t)) 2 @ '':''
       @ appendInt (int (minute t)) 2 @ '':'' @ appendInt (int (second t)) 2
       @ format_zone (zone_offset t)"

text \<open>\<^verbatim>\<open>strings.Join(elems, sep)\<close>.\<close>

fun Join :: "string list \<Rightarrow> string \<Rightarrow> string" where
  "Join [] sep = []"
| "Join [x] sep = x"
| "Join (x # y # zs) sep = x @ sep @ Join (y # zs) sep"

section \<open>Spreadsheet row codec (GoogleSheetsService)\<close>

text \<open>
  \<^verbatim>\<open>mapToString\<close>: the loop appends every key whose value is true to \<^verbatim>\<open>parts\<close>,
  in iteration order; the parts are joined with a comma and a space.
\<close>

fun mapToString_range :: "(string \<times> bool) list \<Rightarrow> string list \<Rightarrow> string list" where
  "mapToString_range [] parts = parts"
| "mapToString_range ((key, val) # m) parts =
     mapToString_range m (if val then parts @ [key] else parts)"

definition mapToString :: "gomap \<Rightarrow> string" where
  "mapToString m = Join (mapToString_range (entries m) []) '', ''"

definition gs_submissionToRow :: "Submission \<Rightarrow> string \<Rightarrow> string list" where
  "gs_submissionToRow submission fieldName =
    [ ID submission,
      UserID submission,
      FieldID submission,
      fieldName,
      Format_RFC3339 (Date submission),
      GrowthStage submission,
      Notes submission,
      ObserverName submission,
      Status submission,
      Format_RFC3339 (CreatedAt submission),
      Format_RFC3339 (UpdatedAt submission),
      fmt_f (Latitude (Coordinates submission)),
      fmt_f (Longitude (Coordinates submission)),
      fmt_f (CulmLength (TraitMeasurements submission)),
      fmt_f (PanicleLength (TraitMeasurements submission)),
      fmt_d (PaniclesPerHill (TraitMeasurements submission)),
      fmt_d (HillsObserved (TraitMeasurements submission)),
      fmt_t (Healthy (PlantConditions submission)),
      fmt_t (Unhealthy (PlantConditions submission)),
      fmt_t (SignsOfPestInfestation (PlantConditions submission)),
      mapToString (PestDetails (PlantConditions submission)),
      OtherPest (PlantConditions submission),
      fmt_t (SignsOfNutrientDeficiency (PlantConditions submission)),
      mapToString (NutrientDeficiencyDetails (PlantConditions submission)),
      OtherNutrient (PlantConditions submission),
      fmt_t (WaterStress (PlantConditions submission)),
      WaterStressLevel (PlantConditions submission),
      fmt_t (Lodging (PlantConditions submission)),
      LodgingLevel (PlantConditions submission),
      fmt_t (WeedInfestation (PlantConditions submission)),
      WeedInfestationLevel (PlantConditions submission),
      fmt_t (DiseaseSymptoms (PlantConditions submission)),
      mapToString (DiseaseDetails (PlantConditions submission)),
      OtherDisease (PlantConditions submission),
      fmt_t (Other (PlantConditions submission)),
      OtherConditionText (PlantConditions submission),
      Join (Images submission) '','',
      Join (Videos submission) '','',
      Join (Audio submission) '','' ]"

text \<open>The header row that \<^verbatim>\<open>ensureHeaders\<close> writes.\<close>

definition headers :: "string list" where
  "headers =
    [ ''ID'', ''UserID'', ''FieldID'', ''FieldName'', ''Date'', ''GrowthStage'',
      ''Notes'', ''ObserverName'', ''Status'', ''CreatedAt'', ''UpdatedAt'',
      ''Latitude'', ''Longitude'',
      ''CulmLength'', ''PanicleLength'', ''PaniclesPerHill'', ''HillsObserved'',
      ''Healthy'', ''Unhealthy'', ''SignsOfPestInfestation'', ''PestDetails'', ''OtherPest'',
      ''SignsOfNutrientDeficiency'', ''NutrientDeficiencyDetails'', ''OtherNutrient'',
      ''WaterStress'', ''WaterStressLevel'', ''Lodging'', ''LodgingLevel'',
      ''WeedInfestation'', ''WeedInfestationLevel'', ''DiseaseSymptoms'', ''DiseaseDetails'',
      ''OtherDisease'',
      ''Other'', ''OtherConditionText'',
      ''Images'', ''Videos'', ''Audio'' ]"

text \<open>The header row that \<^verbatim>\<open>ExportSubmissions\<close> writes to the CSV stream.\<close>

definition export_header :: "string list" where
  "export_header =
    [ ''ID'', ''UserID'', ''FieldID'', ''FieldName'', ''Date'', ''GrowthStage'',
      ''Notes'', ''ObserverName'', ''Status'', ''CreatedAt'', ''UpdatedAt'',
      ''Latitude'', ''Longitude'',
      ''CulmLength'', ''PanicleLength'', ''PaniclesPerHill'', ''HillsObserved'',
      ''Healthy'', ''Unhealthy'', ''SignsOfPestInfestation'', ''PestDetails'', ''OtherPest'',
      ''SignsOfNutrientDeficiency'', ''NutrientDeficiencyDetails'', ''OtherNutrient'',
      ''WaterStress'', ''WaterStressLevel'', ''Lodging'', ''LodgingLevel'',
      ''WeedInfestation'', ''WeedInfestationLevel'', ''DiseaseSymptoms'', ''DiseaseDetails'',
      ''OtherDisease'',
      ''Other'', ''OtherConditionText'',
      ''Images'', ''Videos'', ''Audio'' ]"

text \<open>
  The zero value of \<^verbatim>\<open>PlantConditions\<close>, and a submission with every optional field
  left at its zero value, dated 1 March 2024, used as a test input.
\<close>

definition no_conditions :: PlantConditions where
  "no_conditions =
     \<lparr>Healthy = False, Unhealthy = False, SignsOfPestInfestation = False, PestDetails = None,
      OtherPest = [], SignsOfNutrientDeficiency = False, NutrientDeficiencyDetails = None,
      OtherNutrient = [], WaterStress = False, WaterStressLevel = [], Lodging = False,
      LodgingLevel = [], WeedInfestation = False, WeedInfestationLevel = [],
      DiseaseSymptoms = False, DiseaseDetails = None, OtherDisease = [], Other = False,
      OtherConditionText = []\<rparr>"

definition march_first :: time where
  "march_first = \<lparr>year = 2024, month = 3, day = 1, hour = 0, minute = 0, second = 0,
                   nsec = 0, zone = None\<rparr>"

definition bare_submission :: Submission where
  "bare_submission =
     \<lparr>ID = ''s-1'', UserID = ''u-1'', FieldID = [], OtherFieldName = [],
      Coordinates = \<lparr>Latitude = Finite False 0 0, Longitude = Finite False 0 0\<rparr>,
      Date = march_first, GrowthStage = ''Tillering'', PlantConditions = no_conditions,
      TraitMeasurements = \<lparr>CulmLength = Finite False 0 0, PanicleLength = Finite False 0 0,
                            PaniclesPerHill = 0, HillsObserved = 0\<rparr>,
      Notes = [], ObserverName = ''Alice'', Images = [], Videos = [], Audio = [],
      Status = ''submitted'', CreatedAt = march_first, UpdatedAt = march_first\<rparr>"

section \<open>Reading rendered cells back\<close>

text \<open>
  The reader of a spreadsheet cell: decimal digits back to a number
  (\<^verbatim>\<open>strconv.Atoi\<close> on the strings that \<open>itoa\<close> writes), and the shape of an
  RFC 3339 timestamp with a four digit year.
\<close>

definition is_digit :: "char \<Rightarrow> bool" where
  "is_digit c = (c \<in> set ''0123456789'')"

definition digit_val :: "char \<Rightarrow> nat" where
  "digit_val c = of_char c - 48"

definition undec :: "string \<Rightarrow> nat" where
  "undec cs = foldl (\<lambda>a c. 10 * a + digit_val c) 0 cs"

definition atoi :: "string \<Rightarrow> int" where
  "atoi s = (case s of [] \<Rightarrow> 0
             | c # cs \<Rightarrow> if c = CHR ''-'' then - int (undec cs) else int (undec (c # cs)))"

text \<open>A pattern matches a string of the same length; \<^verbatim>\<open>d\<close> stands for any digit.\<close>

fun matches :: "string \<Rightarrow> string \<Rightarrow> bool" where
  "matches [] [] = True"
| "matches (p # ps) (c # cs) = ((if p = CHR ''d'' then is_digit c else c = p) \<and> matches ps cs)"
| "matches _ _ = False"

definition rfc3339_shape :: "string \<Rightarrow> bool" where
  "rfc3339_shape s =
     (matches ''dddd-dd-ddTdd:dd:ddZ'' s \<or> matches ''dddd-dd-ddTdd:dd:dd+dd:dd'' s
      \<or> matches ''dddd-dd-ddTdd:dd:dd-dd:dd'' s)"

text \<open>
  A number in full decimal: digits only, at least one, and no leading zero but for the
  number zero itself.
\<close>

definition decimal :: "string \<Rightarrow> bool" where
  "decimal ds =
     (ds \<noteq> [] \<and> list_all is_digit ds \<and> (length ds = 1 \<or> hd ds \<in> set ''123456789''))"

text \<open>
  The reader of a timestamp of the fixed shape: year, month, day, hour, minute and
  second from their positions, and the zone as minutes east of UTC.
\<close>

definition read_rfc3339 :: "string \<Rightarrow> int \<times> nat \<times> nat \<times> nat \<times> nat \<times> nat \<times> int" where
  "read_rfc3339 s =
     (int (undec (take 4 s)), undec (take 2 (drop 5 s)), undec (take 2 (drop 8 s)),
      undec (take 2 (drop 11 s)), undec (take 2 (drop 14 s)), undec (take 2 (drop 17 s)),
      (if drop 19 s = ''Z'' then 0
       else (if take 1 (drop 19 s) = ''-'' then - 1 else 1)
            * (int (undec (take 2 (drop 20 s))) * 60 + int (undec (take 2 (drop 23 s))))))"

text \<open>
  Calendar fields in range, a year of at most four digits and a zone offset below one
  hundred hours: the times whose rendering has the fixed width.
\<close>

definition civil :: "time \<Rightarrow> bool" where
  "civil t = (1 \<le> month t \<and> month t \<le> 12 \<and> 1 \<le> day t \<and> day t \<le> 31 \<and>
              hour t < 24 \<and> minute t < 60 \<and> second t < 60 \<and>
              0 \<le> year t \<and> year t \<le> 9999 \<and> \<bar>zone_offset t\<bar> < 360000)"

text \<open>A latitude of \<open>2^-30\<close>, about \<open>9.3 * 10^-10\<close>, on the test submission.\<close>

definition tiny_latitude_submission :: Submission where
  "tiny_latitude_submission =
     bare_submission\<lparr>Coordinates :=
       \<lparr>Latitude = Finite False 1 (- 30), Longitude = Finite False 0 0\<rparr>\<rparr>"

text \<open>
  The test submission dated in the year 10000, dated in a zone 100 hours east of UTC,
  and with a latitude that is not a number.
\<close>

definition year_10000_submission :: Submission where
  "year_10000_submission = bare_submission\<lparr>Date := march_first\<lparr>year := 10000\<rparr>\<rparr>"

definition wide_zone_submission :: Submission where
  "wide_zone_submission = bare_submission\<lparr>Date := march_first\<lparr>zone := Some 360000\<rparr>\<rparr>"

definition nan_latitude_submission :: Submission where
  "nan_latitude_submission =
     bare_submission\<lparr>Coordinates := \<lparr>Latitude = NaN, Longitude = Finite False 0 0\<rparr>\<rparr>"

section \<open>Spreadsheet backend\<close>

text \<open>
  The spreadsheet service is outside the program. A tab of a spreadsheet is the list of
  its rows, from row 1 down to the last row that holds data; a row is the list of its
  cells from column A on, and an empty cell is the empty string. The code addresses a
  tab by the pair of \<^verbatim>\<open>SpreadsheetID\<close> and \<^verbatim>\<open>SpreadsheetName\<close> of a registration
  (the range \<^verbatim>\<open>'name'!A:A\<close> of spreadsheet \<^verbatim>\<open>id\<close>).

  Every call to the service can fail. \<open>faults\<close> is the script of the calls to come:
  the next call fails when the head of the script is \<open>True\<close>, and calls succeed once the
  script is used up. A call to a tab that does not exist fails too.
\<close>

type_synonym row = "string list"
type_synonym target = "string \<times> string"

record backend =
  tabs :: "target \<Rightarrow> row list option"
  faults :: "bool list"

definition target :: "Sheet \<Rightarrow> target" where
  "target sheet = (SpreadsheetID sheet, SpreadsheetName sheet)"

definition api_call :: "backend \<Rightarrow> target \<Rightarrow> row list option \<times> backend" where
  "api_call be t =
     (case faults be of
        [] \<Rightarrow> (tabs be t, be)
      | f # fs \<Rightarrow> (if f then None else tabs be t, be\<lparr>faults := fs\<rparr>))"

definition cell_A :: "row \<Rightarrow> string" where
  "cell_A r = (case r of [] \<Rightarrow> [] | c # _ \<Rightarrow> c)"

text \<open>
  \<^verbatim>\<open>Values.Get\<close> leaves out empty trailing rows and columns: an empty cell of
  column A is an empty row of the response, and the response ends at the last row whose
  cell is not empty.
\<close>

definition drop_trailing :: "row list \<Rightarrow> row list" where
  "drop_trailing vs = rev (dropWhile (\<lambda>v. v = []) (rev vs))"

definition column_A :: "row list \<Rightarrow> row list" where
  "column_A rows = drop_trailing (map (\<lambda>r. if cell_A r = [] then [] else [cell_A r]) rows)"

definition values_get_A1 :: "backend \<Rightarrow> target \<Rightarrow> row list option \<times> backend" where
  "values_get_A1 be t =
     (case api_call be t of
        (None, be') \<Rightarrow> (None, be')
      | (Some rows, be') \<Rightarrow> (Some (column_A (take 1 rows)), be'))"

definition values_get_A :: "backend \<Rightarrow> target \<Rightarrow> row list option \<times> backend" where
  "values_get_A be t =
     (case api_call be t of
        (None, be') \<Rightarrow> (None, be')
      | (Some rows, be') \<Rightarrow> (Some (column_A rows), be'))"

text \<open>
  \<^verbatim>\<open>Values.Update\<close> at cell A of row \<open>n\<close> (rows are numbered from 1) with one row of
  values: the cells of that row are overwritten from column A on, a cell beyond the
  written ones keeps its content, and the tab grows when the row is below its last row.
\<close>

definition write_row :: "nat \<Rightarrow> row \<Rightarrow> row list \<Rightarrow> row list" where
  "write_row i cells rows =
     (let rows' = rows @ replicate (Suc i - length rows) []
      in rows'[i := cells @ drop (length cells) (rows' ! i)])"

definition values_update :: "backend \<Rightarrow> target \<Rightarrow> int \<Rightarrow> row \<Rightarrow> bool \<times> backend" where
  "values_update be t n cells =
     (case api_call be t of
        (None, be') \<Rightarrow> (False, be')
      | (Some rows, be') \<Rightarrow>
          if n < 1 then (False, be')
          else (True, be'\<lparr>tabs := (tabs be')(t \<mapsto> write_row (nat (n - 1)) cells rows)\<rparr>))"

text \<open>\<^verbatim>\<open>Values.Append\<close> to column A: the values become a new row below the last one.\<close>

definition values_append :: "backend \<Rightarrow> target \<Rightarrow> row \<Rightarrow> bool \<times> backend" where
  "values_append be t cells =
     (case api_call be t of
        (None, be') \<Rightarrow> (False, be')
      | (Some rows, be') \<Rightarrow> (True, be'\<lparr>tabs := (tabs be')(t \<mapsto> rows @ [cells])\<rparr>))"

section \<open>Spreadsheet sync engine (GoogleSheetsService)\<close>

text \<open>
  \<^verbatim>\<open>fetchSheets\<close> walks the documents of the registrations collection: the iterator
  ends, fails, or yields a document that decodes to a registration or does not decode.
  Log lines are not part of the model.
\<close>

datatype sheet_doc = Doc Sheet | Undecodable | IterError

datatype error = FailedToIterateSheets | UnableToRetrieve | UnableToWriteHeaders

fun fetchSheets_loop :: "sheet_doc list \<Rightarrow> Sheet list \<Rightarrow> error + Sheet list" where
  "fetchSheets_loop [] sheets = Inr sheets"
| "fetchSheets_loop (IterError # docs) sheets = Inl FailedToIterateSheets"
| "fetchSheets_loop (Undecodable # docs) sheets = fetchSheets_loop docs sheets"
| "fetchSheets_loop (Doc sheet # docs) sheets = fetchSheets_loop docs (sheets @ [sheet])"

definition gs_fetchSheets :: "sheet_doc list \<Rightarrow> error + Sheet list" where
  "gs_fetchSheets docs = fetchSheets_loop docs []"

definition gs_ensureHeaders :: "target \<Rightarrow> backend \<Rightarrow> error option \<times> backend" where
  "gs_ensureHeaders t be =
     (case values_get_A1 be t of
        (None, be1) \<Rightarrow> (Some UnableToRetrieve, be1)
      | (Some resp, be1) \<Rightarrow>
          if length resp = 0 \<or> length (resp ! 0) = 0 \<or> resp ! 0 ! 0 = []
          then (case values_update be1 t 1 headers of
                  (False, be2) \<Rightarrow> (Some UnableToWriteHeaders, be2)
                | (True, be2) \<Rightarrow> (None, be2))
          else (None, be1))"

text \<open>\<^verbatim>\<open>ensureAllHeaders\<close>: a failure on one sheet is logged and the loop goes on.\<close>

definition gs_ensureAllHeaders :: "sheet_doc list \<Rightarrow> backend \<Rightarrow> error option \<times> backend" where
  "gs_ensureAllHeaders docs be =
     (case gs_fetchSheets docs of
        Inl e \<Rightarrow> (Some e, be)
      | Inr sheets \<Rightarrow>
          (None, foldl (\<lambda>b sheet. snd (gs_ensureHeaders (target sheet) b)) be sheets))"

definition gs_AppendSubmission ::
  "sheet_doc list \<Rightarrow> Submission \<Rightarrow> string \<Rightarrow> backend \<Rightarrow> error option \<times> backend" where
  "gs_AppendSubmission docs submission fieldName be =
     (case gs_fetchSheets docs of
        Inl e \<Rightarrow> (Some e, be)
      | Inr sh \<Rightarrow>
          let row = gs_submissionToRow submission fieldName
          in (None, foldl (\<lambda>b sheet. snd (values_append b (target sheet) row)) be sh))"

definition gs_appendRow :: "target \<Rightarrow> row \<Rightarrow> backend \<Rightarrow> backend" where
  "gs_appendRow t row be = snd (values_append be t row)"

text \<open>
  The scan of \<^verbatim>\<open>UpdateSubmission\<close>: \<^verbatim>\<open>rowIndex\<close> starts at -1 and becomes the index
  of the first row of the response whose first cell is the identifier.
\<close>

fun scan_rows :: "row list \<Rightarrow> string \<Rightarrow> int \<Rightarrow> int" where
  "scan_rows [] sid i = - 1"
| "scan_rows (row # rest) sid i =
     (if 0 < length row \<and> row ! 0 = sid then i else scan_rows rest sid (i + 1))"

text \<open>The body of the loop of \<^verbatim>\<open>UpdateSubmission\<close>, for one registered sheet.\<close>

definition UpdateSubmission_sheet ::
  "Submission \<Rightarrow> string \<Rightarrow> backend \<Rightarrow> Sheet \<Rightarrow> backend" where
  "UpdateSubmission_sheet submission fieldName be sheet =
     (case values_get_A be (target sheet) of
        (None, be1) \<Rightarrow> be1
      | (Some resp, be1) \<Rightarrow>
          let rowIndex = scan_rows resp (ID submission) 0
          in if rowIndex = - 1
             then gs_appendRow (target sheet) (gs_submissionToRow submission fieldName) be1
             else snd (values_update be1 (target sheet) (rowIndex + 1)
                         (gs_submissionToRow submission fieldName)))"

definition gs_UpdateSubmission ::
  "sheet_doc list \<Rightarrow> Submission \<Rightarrow> string \<Rightarrow> backend \<Rightarrow> error option \<times> backend" where
  "gs_UpdateSubmission docs submission fieldName be =
     (case gs_fetchSheets docs of
        Inl e \<Rightarrow> (Some e, be)
      | Inr sh \<Rightarrow> (None, foldl (UpdateSubmission_sheet submission fieldName) be sh))"

section \<open>Sheet-level reading of the sync engine\<close>

text \<open>
  The content of cell A1 of a tab; the first row of a tab whose cell in column A is not
  empty and equals an identifier; what the update of one registered sheet is said to do
  to the rows of its tab: overwrite that row in place, or add a last row.
\<close>

definition a1 :: "backend \<Rightarrow> target \<Rightarrow> string" where
  "a1 be t = (case tabs be t of None \<Rightarrow> [] | Some rows \<Rightarrow> (case rows of [] \<Rightarrow> [] | r # _ \<Rightarrow> cell_A r))"

fun first_match :: "row list \<Rightarrow> string \<Rightarrow> nat option" where
  "first_match [] sid = None"
| "first_match (r # rs) sid =
     (if cell_A r \<noteq> [] \<and> cell_A r = sid then Some 0 else map_option Suc (first_match rs sid))"

definition overwrite_or_append :: "row \<Rightarrow> string \<Rightarrow> row list \<Rightarrow> row list" where
  "overwrite_or_append new sid rows =
     (case first_match rows sid of
        None \<Rightarrow> rows @ [new]
      | Some i \<Rightarrow> rows[i := new @ drop (length new) (rows ! i)])"

text \<open>
  The two sync calls in sequence, and the number of rows of a tab whose cell in column A
  is an identifier.
\<close>

definition append_then_update ::
  "sheet_doc list \<Rightarrow> Submission \<Rightarrow> string \<Rightarrow> backend \<Rightarrow> backend" where
  "append_then_update docs sub fn be =
     snd (gs_UpdateSubmission docs sub fn (snd (gs_AppendSubmission docs sub fn be)))"

definition rows_with_id :: "backend \<Rightarrow> target \<Rightarrow> string \<Rightarrow> nat" where
  "rows_with_id be t sid =
     (case tabs be t of None \<Rightarrow> 0 | Some rows \<Rightarrow> length (filter (\<lambda>r. cell_A r = sid) rows))"

text \<open>
  Test inputs: one registered sheet and its tab, which is empty, holds the header row,
  holds the header row and a stale row of the test submission, or holds a title in A1;
  and backends whose next calls fail.
\<close>

definition data_tab :: target where
  "data_tab = (''sheet-1'', ''Data'')"

definition data_sheet :: Sheet where
  "data_sheet = \<lparr>SpreadsheetID = ''sheet-1'', SpreadsheetName = ''Data''\<rparr>"

definition fresh_backend :: backend where
  "fresh_backend = \<lparr>tabs = (\<lambda>t. if t = data_tab then Some [] else None), faults = []\<rparr>"

definition header_backend :: backend where
  "header_backend = \<lparr>tabs = (\<lambda>t. if t = data_tab then Some [headers] else None), faults = []\<rparr>"

definition stale_backend :: backend where
  "stale_backend =
     \<lparr>tabs = (\<lambda>t. if t = data_tab then Some [headers, [''s-1'', ''stale'']] else None),
      faults = []\<rparr>"

definition titled_backend :: backend where
  "titled_backend =
     \<lparr>tabs = (\<lambda>t. if t = data_tab then Some [[''Season 2024'']] else None), faults = []\<rparr>"

definition unreachable_backend :: backend where
  "unreachable_backend = header_backend\<lparr>faults := [True, True]\<rparr>"

definition unread_backend :: backend where
  "unread_backend = fresh_backend\<lparr>faults := [True]\<rparr>"

section \<open>Request and response types (models.go)\<close>

record User =
  User_ID :: string
  User_Email :: string
  User_Name :: string
  User_Picture :: string
  User_Role :: string
  User_CreatedAt :: time
  User_UpdatedAt :: time
  User_LastLoginAt :: time

record Field =
  Field_ID :: string
  Field_Name :: string
  Field_Location :: string
  Field_Coordinates :: Location
  Field_Area :: float64
  Field_RiceVariety :: string
  Field_TentativeDate :: string
  Field_OwnerID :: string
  Field_CreatedAt :: time
  Field_UpdatedAt :: time

record CreateSubmissionRequest =
  req_FieldID :: string
  req_OtherFieldName :: string
  req_Date :: time
  req_GrowthStage :: string
  req_PlantConditions :: PlantConditions
  req_TraitMeasurements :: TraitMeasurements
  req_Coordinates :: Location
  req_Notes :: string
  req_ObserverName :: string
  req_Images :: "string list"
  req_Videos :: "string list"
  req_Audio :: "string list"

text \<open>A pointer field of the update payload is \<open>None\<close> when nil, and so is a nil slice.\<close>

record UpdateSubmissionRequest =
  upd_FieldID :: "string option"
  upd_OtherFieldName :: "string option"
  upd_Date :: "time option"
  upd_GrowthStage :: "string option"
  upd_PlantConditions :: "PlantConditions option"
  upd_TraitMeasurements :: "TraitMeasurements option"
  upd_Coordinates :: "Location option"
  upd_Notes :: "string option"
  upd_Images :: "string list option"
  upd_Videos :: "string list option"
  upd_Audio :: "string list option"
  upd_Status :: "string option"

record SubmissionResponse =
  resp_ID :: string
  resp_UserID :: string
  resp_FieldID :: string
  resp_Field :: "Field option"
  resp_OtherFieldName :: string
  resp_Date :: time
  resp_GrowthStage :: string
  resp_PlantConditions :: PlantConditions
  resp_TraitMeasurements :: TraitMeasurements
  resp_Notes :: string
  resp_ObserverName :: string
  resp_Images :: "string list"
  resp_Videos :: "string list"
  resp_Audio :: "string list"
  resp_Status :: string
  resp_Coordinates :: Location
  resp_CreatedAt :: time
  resp_UpdatedAt :: time

text \<open>
  The JSON body of a response: an \<^verbatim>\<open>ErrorResponse\<close> with its error code and message
  (\<open>BinderText\<close> is the text of the error that the JSON binder returned), or a
  \<^verbatim>\<open>SuccessResponse\<close> with its data and message.
\<close>

datatype message = Text string | BinderText

datatype data =
    NoData
  | SubmissionData Submission
  | SubmissionResponseData SubmissionResponse
  | UploadData string string string

datatype body = ErrorResponse string message | SuccessResponse data string

record response =
  status :: nat
  body :: body

text \<open>
  The outcome of \<^verbatim>\<open>c.ShouldBindJSON\<close>: the body does not decode into the request
  struct, or it decodes (a key that is absent leaves the zero value of its field) and
  the \<^verbatim>\<open>binding:"required"\<close> tags are checked: a required field must differ from
  its zero value.
\<close>

datatype 'a json_body = Malformed | Parsed 'a

definition bind_create :: "CreateSubmissionRequest json_body \<Rightarrow> CreateSubmissionRequest option" where
  "bind_create b =
     (case b of
        Malformed \<Rightarrow> None
      | Parsed req \<Rightarrow>
          if req_Date req = zero_time \<or> req_GrowthStage req = [] \<or> req_ObserverName req = []
          then None else Some req)"

definition bind_update :: "UpdateSubmissionRequest json_body \<Rightarrow> UpdateSubmissionRequest option" where
  "bind_update b = (case b of Malformed \<Rightarrow> None | Parsed req \<Rightarrow> Some req)"

section \<open>Timestamps and maps in the record store (cloud.google.com/go/firestore)\<close>

text \<open>
  The record store keeps a timestamp as an instant, at microsecond precision, and the
  client decodes it as a time in UTC: a time that is written and read again comes back
  as the same instant, moved to UTC, with its nanoseconds rounded down to a multiple of
  1000.

  \<open>days_from_civil\<close> counts the days from 1 January 1970 to a date of the proleptic
  Gregorian calendar (the calendar of package time), in eras of 400 years that begin on
  1 March; \<open>civil_from_days\<close> gives the year, month and day of a day. \<^verbatim>\<open>t.Unix()\<close>
  is the second of the instant, \<^verbatim>\<open>t.UTC()\<close> the same instant in UTC.
\<close>

definition days_from_civil :: "int \<Rightarrow> int \<Rightarrow> int \<Rightarrow> int" where
  "days_from_civil y m d =
     (let y' = (if m \<le> 2 then y - 1 else y);
          era = y' div 400;
          yoe = y' mod 400;
          doy = (153 * (if 2 < m then m - 3 else m + 9) + 2) div 5 + d - 1;
          doe = yoe * 365 + yoe div 4 - yoe div 100 + doy
      in era * 146097 + doe - 719468)"

definition era :: "int \<Rightarrow> int" where
  "era z = (z + 719468) div 146097"

definition day_of_era :: "int \<Rightarrow> int" where
  "day_of_era z = (z + 719468) mod 146097"

definition year_of_era :: "int \<Rightarrow> int" where
  "year_of_era doe = (doe - doe div 1460 + doe div 36524 - doe div 146096) div 365"

definition day_of_year :: "int \<Rightarrow> int" where
  "day_of_year doe = doe - (365 * year_of_era doe + year_of_era doe div 4 - year_of_era doe div 100)"

definition month_point :: "int \<Rightarrow> int" where
  "month_point doy = (5 * doy + 2) div 153"

definition civil_month :: "int \<Rightarrow> int" where
  "civil_month mp = (if mp < 10 then mp + 3 else mp - 9)"

definition civil_from_days :: "int \<Rightarrow> int \<times> int \<times> int" where
  "civil_from_days z =
     (year_of_era (day_of_era z) + era z * 400
        + (if civil_month (month_point (day_of_year (day_of_era z))) \<le> 2 then 1 else 0),
      civil_month (month_point (day_of_year (day_of_era z))),
      day_of_year (day_of_era z)
        - (153 * month_point (day_of_year (day_of_era z)) + 2) div 5 + 1)"

definition Unix :: "time \<Rightarrow> int" where
  "Unix t =
     days_from_civil (year t) (int (month t)) (int (day t)) * 86400
       + int (hour t) * 3600 + int (minute t) * 60 + int (second t) - zone_offset t"

definition UTC :: "time \<Rightarrow> time" where
  "UTC t =
     (case zone t of
        None \<Rightarrow> t
      | Some off \<Rightarrow>
          (case civil_from_days (Unix t div 86400) of
             (y, m, d) \<Rightarrow>
               \<lparr>year = y, month = nat m, day = nat d,
                hour = nat (Unix t mod 86400 div 3600),
                minute = nat (Unix t mod 3600 div 60),
                second = nat (Unix t mod 60),
                nsec = nsec t, zone = None\<rparr>))"

definition fs_time :: "time \<Rightarrow> time" where
  "fs_time t = UTC (t\<lparr>nsec := nsec t - nsec t mod 1000\<rparr>)"

text \<open>
  \<^verbatim>\<open>populateMap\<close> of the client decodes a stored value into a map variable: a null
  value makes the variable nil; a map value makes a nil variable an empty map and then
  sets every stored key, so that the keys which the variable held before and the stored
  map does not hold are kept. (The list has the kept entries first; the order in which
  Go visits the decoded map is unspecified.)
\<close>

definition populateMap :: "gomap \<Rightarrow> gomap \<Rightarrow> gomap" where
  "populateMap pm mv =
     (case pm of
        None \<Rightarrow> None
      | Some es \<Rightarrow> Some (filter (\<lambda>e. fst e \<notin> set (map fst es)) (entries mv) @ es))"

section \<open>Requests, responses and the record store (models.go, FirestoreService)\<close>

text \<open>
  The record store holds the submission and field documents by identifier; the
  documents are those that decode into the structs of the program. As for the
  spreadsheet, \<open>db_faults\<close> scripts the calls to come: the next call fails when the head
  is \<open>True\<close>, and \<open>succeed n\<close> says that none of the next \<open>n\<close> calls fails. Reading a
  document that does not exist is an error, and so is updating one; deleting one is not.
\<close>

record store =
  Submissions :: "string \<Rightarrow> Submission option"
  Fields :: "string \<Rightarrow> Field option"
  db_faults :: "bool list"

definition db_call :: "store \<Rightarrow> bool \<times> store" where
  "db_call st =
     (case db_faults st of [] \<Rightarrow> (False, st) | f # fs \<Rightarrow> (f, st\<lparr>db_faults := fs\<rparr>))"

definition succeed :: "nat \<Rightarrow> store \<Rightarrow> bool" where
  "succeed n st = (True \<notin> set (take n (db_faults st)))"

text \<open>
  A document holds every timestamp as the store keeps it: \<open>stored\<close> is the document
  that the client writes for a struct.
\<close>

definition stored :: "Submission \<Rightarrow> Submission" where
  "stored s =
     s\<lparr>Date := fs_time (Date s), CreatedAt := fs_time (CreatedAt s),
       UpdatedAt := fs_time (UpdatedAt s)\<rparr>"

text \<open>
  \<^verbatim>\<open>doc.DataTo(&v)\<close> decodes a document into a variable: every field of the document
  is set in the variable, a timestamp as a time in UTC (at microsecond precision, which
  changes nothing in a time that was written by the program) and a map by
  \<^verbatim>\<open>populateMap\<close>. A variable that is declared and not assigned holds the zero value
  of its struct. The error that \<^verbatim>\<open>DataTo\<close> returns is not looked at by the handlers.
\<close>

definition zero_Submission :: Submission where
  "zero_Submission =
     \<lparr>ID = [], UserID = [], FieldID = [], OtherFieldName = [],
      Coordinates = \<lparr>Latitude = Finite False 0 0, Longitude = Finite False 0 0\<rparr>,
      Date = zero_time, GrowthStage = [], PlantConditions = no_conditions,
      TraitMeasurements = \<lparr>CulmLength = Finite False 0 0, PanicleLength = Finite False 0 0,
                            PaniclesPerHill = 0, HillsObserved = 0\<rparr>,
      Notes = [], ObserverName = [], Images = [], Videos = [], Audio = [],
      Status = [], CreatedAt = zero_time, UpdatedAt = zero_time\<rparr>"

definition DataTo :: "Submission \<Rightarrow> Submission \<Rightarrow> Submission" where
  "DataTo doc v =
     doc\<lparr>Date := fs_time (Date doc), CreatedAt := fs_time (CreatedAt doc),
         UpdatedAt := fs_time (UpdatedAt doc),
         PlantConditions :=
           (PlantConditions doc)
             \<lparr>PestDetails :=
                populateMap (PestDetails (PlantConditions doc)) (PestDetails (PlantConditions v)),
              NutrientDeficiencyDetails :=
                populateMap (NutrientDeficiencyDetails (PlantConditions doc))
                  (NutrientDeficiencyDetails (PlantConditions v)),
              DiseaseDetails :=
                populateMap (DiseaseDetails (PlantConditions doc))
                  (DiseaseDetails (PlantConditions v))\<rparr>\<rparr>"

definition DataTo_Field :: "Field \<Rightarrow> Field" where
  "DataTo_Field doc =
     doc\<lparr>Field_CreatedAt := fs_time (Field_CreatedAt doc),
         Field_UpdatedAt := fs_time (Field_UpdatedAt doc)\<rparr>"

text \<open>
  \<^verbatim>\<open>Doc(id).Get\<close> returns the document as the store keeps it: every time that the
  program has written is in it at microsecond precision, and the caller gets it in UTC
  when it decodes the document with \<^verbatim>\<open>DataTo\<close>. \<^verbatim>\<open>Doc(id).Set\<close> replaces the
  document by that of a struct, \<^verbatim>\<open>Doc(id).Delete\<close> removes it.
\<close>

definition get_submission :: "store \<Rightarrow> string \<Rightarrow> Submission option \<times> store" where
  "get_submission st sid =
     (case db_call st of (failed, st') \<Rightarrow> (if failed then None else Submissions st' sid, st'))"

definition get_field :: "store \<Rightarrow> string \<Rightarrow> Field option \<times> store" where
  "get_field st fid =
     (case db_call st of (failed, st') \<Rightarrow> (if failed then None else Fields st' fid, st'))"

definition set_submission :: "store \<Rightarrow> string \<Rightarrow> Submission \<Rightarrow> bool \<times> store" where
  "set_submission st sid s =
     (case db_call st of
        (failed, st') \<Rightarrow>
          if failed then (False, st')
          else (True, st'\<lparr>Submissions := (Submissions st')(sid \<mapsto> stored s)\<rparr>))"

definition delete_submission :: "store \<Rightarrow> string \<Rightarrow> bool \<times> store" where
  "delete_submission st sid =
     (case db_call st of
        (failed, st') \<Rightarrow>
          if failed then (False, st')
          else (True, st'\<lparr>Submissions := (Submissions st')(sid := None)\<rparr>))"

text \<open>
  A \<^verbatim>\<open>firestore.Update\<close> is a field path and a value; \<^verbatim>\<open>Update\<close> sets the fields of
  the stored document in the order of the list, each to the stored form of its value.
\<close>

datatype fs_value =
    VTime time
  | VString string
  | VStrings "string list"
  | VPlantConditions PlantConditions
  | VTraitMeasurements TraitMeasurements
  | VLocation Location

type_synonym fs_update = "string \<times> fs_value"

fun apply_update :: "Submission \<Rightarrow> fs_update \<Rightarrow> Submission" where
  "apply_update s (path, VTime t) =
     (if path = ''date'' then s\<lparr>Date := fs_time t\<rparr>
      else if path = ''updated_at'' then s\<lparr>UpdatedAt := fs_time t\<rparr>
      else if path = ''created_at'' then s\<lparr>CreatedAt := fs_time t\<rparr>
      else s)"
| "apply_update s (path, VString v) =
     (if path = ''growth_stage'' then s\<lparr>GrowthStage := v\<rparr>
      else if path = ''notes'' then s\<lparr>Notes := v\<rparr>
      else if path = ''status'' then s\<lparr>Status := v\<rparr>
      else if path = ''other_field_name'' then s\<lparr>OtherFieldName := v\<rparr>
      else if path = ''field_id'' then s\<lparr>FieldID := v\<rparr>
      else if path = ''observer_name'' then s\<lparr>ObserverName := v\<rparr>
      else if path = ''id'' then s\<lparr>ID := v\<rparr>
      else if path = ''user_id'' then s\<lparr>UserID := v\<rparr>
      else s)"
| "apply_update s (path, VStrings v) =
     (if path = ''images'' then s\<lparr>Images := v\<rparr>
      else if path = ''videos'' then s\<lparr>Videos := v\<rparr>
      else if path = ''audio'' then s\<lparr>Audio := v\<rparr>
      else s)"
| "apply_update s (path, VPlantConditions v) =
     (if path = ''plant_conditions'' then s\<lparr>PlantConditions := v\<rparr> else s)"
| "apply_update s (path, VTraitMeasurements v) =
     (if path = ''trait_measurements'' then s\<lparr>TraitMeasurements := v\<rparr> else s)"
| "apply_update s (path, VLocation v) =
     (if path = ''coordinates'' then s\<lparr>Coordinates := v\<rparr> else s)"

definition update_submission :: "store \<Rightarrow> string \<Rightarrow> fs_update list \<Rightarrow> bool \<times> store" where
  "update_submission st sid updates =
     (case db_call st of
        (failed, st') \<Rightarrow>
          if failed then (False, st')
          else (case Submissions st' sid of
                  None \<Rightarrow> (False, st')
                | Some s \<Rightarrow>
                    (True, st'\<lparr>Submissions :=
                                 (Submissions st')(sid \<mapsto> foldl apply_update s updates)\<rparr>)))"

section \<open>Submission handlers (SubmissionHandler)\<close>

text \<open>
  \<^verbatim>\<open>utils.GenerateID\<close> renders a new UUID, 128 bits, as 32 lower case hexadecimal
  digits in groups of 8, 4, 4, 4 and 12.
\<close>

definition hex_digit :: "nat \<Rightarrow> char" where
  "hex_digit n = ''0123456789abcdef'' ! (n mod 16)"

definition hex_digits :: "128 word \<Rightarrow> string" where
  "hex_digits u = map (\<lambda>i. hex_digit (unat (drop_bit (4 * (31 - i)) u) mod 16)) [0..<32]"

definition GenerateID :: "128 word \<Rightarrow> string" where
  "GenerateID u =
     (let h = hex_digits u
      in take 8 h @ ''-'' @ take 4 (drop 8 h) @ ''-'' @ take 4 (drop 12 h) @ ''-''
         @ take 4 (drop 16 h) @ ''-'' @ drop 20 h)"

text \<open>
  What a handler hands to a goroutine before it answers: the call of the sync engine,
  which runs after the handler and is not awaited.
\<close>

datatype task = AppendTask Submission string | UpdateTask Submission string

definition error_response :: "nat \<Rightarrow> string \<Rightarrow> message \<Rightarrow> response" where
  "error_response code err msg = \<lparr>status = code, body = ErrorResponse err msg\<rparr>"

text \<open>
  The field name for the sheet: the name of the field document when the submission
  names a field (empty when the document cannot be read), the free-text name otherwise.
\<close>

definition resolve_fieldName :: "store \<Rightarrow> Submission \<Rightarrow> string \<times> store" where
  "resolve_fieldName st submission =
     (if FieldID submission \<noteq> [] \<and> FieldID submission \<noteq> ''others''
      then (case get_field st (FieldID submission) of
              (None, st') \<Rightarrow> ([], st')
            | (Some fieldDoc, st') \<Rightarrow> (Field_Name (DataTo_Field fieldDoc), st'))
      else (OtherFieldName submission, st))"

text \<open>
  \<^verbatim>\<open>CreateSubmission\<close>. \<open>u\<close> is the UUID that \<^verbatim>\<open>GenerateID\<close> draws, \<open>now1\<close> and
  \<open>now2\<close> are the two readings of the clock.
\<close>

definition sh_CreateSubmission ::
  "CreateSubmissionRequest json_body \<Rightarrow> User \<Rightarrow> 128 word \<Rightarrow> time \<Rightarrow> time \<Rightarrow> store
     \<Rightarrow> response \<times> store \<times> task option" where
  "sh_CreateSubmission b user u now1 now2 st =
     (case bind_create b of
        None \<Rightarrow> (error_response 400 ''invalid_request'' BinderText, st, None)
      | Some req \<Rightarrow>
          let submission =
                \<lparr>ID = GenerateID u,
                 UserID = User_ID user,
                 FieldID = req_FieldID req,
                 OtherFieldName = req_OtherFieldName req,
                 Coordinates = req_Coordinates req,
                 Date = req_Date req,
                 GrowthStage = req_GrowthStage req,
                 PlantConditions = req_PlantConditions req,
                 TraitMeasurements = req_TraitMeasurements req,
                 Notes = req_Notes req,
                 ObserverName = req_ObserverName req,
                 Images = req_Images req,
                 Videos = req_Videos req,
                 Audio = req_Audio req,
                 Status = ''submitted'',
                 CreatedAt = now1,
                 UpdatedAt = now2\<rparr>
          in (case set_submission st (ID submission) submission of
                (False, st1) \<Rightarrow>
                  (error_response 500 ''internal_error'' (Text ''Failed to create submission''),
                   st1, None)
              | (True, st1) \<Rightarrow>
                  (case resolve_fieldName st1 submission of
                     (fieldName, st2) \<Rightarrow>
                       (\<lparr>status = 201,
                         body = SuccessResponse (SubmissionData submission)
                                  ''Submission created successfully''\<rparr>,
                        st2, Some (AppendTask submission fieldName)))))"

definition forbidden :: response where
  "forbidden = error_response 403 ''forbidden'' (Text ''Access denied'')"

definition not_found :: response where
  "not_found = error_response 404 ''not_found'' (Text ''Submission not found'')"

definition to_response :: "Submission \<Rightarrow> Field option \<Rightarrow> SubmissionResponse" where
  "to_response submission field =
     \<lparr>resp_ID = ID submission,
      resp_UserID = UserID submission,
      resp_FieldID = FieldID submission,
      resp_Field = field,
      resp_OtherFieldName = OtherFieldName submission,
      resp_Date = Date submission,
      resp_GrowthStage = GrowthStage submission,
      resp_PlantConditions = PlantConditions submission,
      resp_TraitMeasurements = TraitMeasurements submission,
      resp_Notes = Notes submission,
      resp_ObserverName = ObserverName submission,
      resp_Images = Images submission,
      resp_Videos = Videos submission,
      resp_Audio = Audio submission,
      resp_Status = Status submission,
      resp_Coordinates = Coordinates submission,
      resp_CreatedAt = CreatedAt submission,
      resp_UpdatedAt = UpdatedAt submission\<rparr>"

definition others_field :: "string \<Rightarrow> Field" where
  "others_field name =
     \<lparr>Field_ID = ''others'', Field_Name = name, Field_Location = [],
      Field_Coordinates = \<lparr>Latitude = Finite False 0 0, Longitude = Finite False 0 0\<rparr>,
      Field_Area = Finite False 0 0, Field_RiceVariety = [], Field_TentativeDate = [],
      Field_OwnerID = [], Field_CreatedAt = zero_time, Field_UpdatedAt = zero_time\<rparr>"

definition sh_GetSubmission :: "string \<Rightarrow> User \<Rightarrow> store \<Rightarrow> response \<times> store" where
  "sh_GetSubmission submissionID user st =
     (case get_submission st submissionID of
        (None, st1) \<Rightarrow> (not_found, st1)
      | (Some doc, st1) \<Rightarrow>
          let submission = DataTo doc zero_Submission
          in if User_Role user \<noteq> ''admin'' \<and> UserID submission \<noteq> User_ID user
             then (forbidden, st1)
             else if FieldID submission \<noteq> ''others'' \<and> FieldID submission \<noteq> []
             then (case get_field st1 (FieldID submission) of
                     (None, st2) \<Rightarrow>
                       (error_response 500 ''internal_error''
                          (Text ''Failed to retrieve associated field data''), st2)
                   | (Some field_doc, st2) \<Rightarrow>
                       (\<lparr>status = 200,
                         body = SuccessResponse
                                  (SubmissionResponseData
                                     (to_response submission (Some (DataTo_Field field_doc)))) []\<rparr>,
                        st2))
             else (\<lparr>status = 200,
                    body = SuccessResponse
                             (SubmissionResponseData
                                (to_response submission
                                   (if OtherFieldName submission \<noteq> []
                                    then Some (others_field (OtherFieldName submission))
                                    else None))) []\<rparr>,
                   st1))"

text \<open>The list of updates that \<^verbatim>\<open>UpdateSubmission\<close> builds from the payload.\<close>

definition build_updates :: "UpdateSubmissionRequest \<Rightarrow> time \<Rightarrow> fs_update list" where
  "build_updates req now =
     (case upd_Date req of None \<Rightarrow> [] | Some v \<Rightarrow> [(''date'', VTime v)])
     @ (case upd_GrowthStage req of None \<Rightarrow> [] | Some v \<Rightarrow> [(''growth_stage'', VString v)])
     @ (case upd_PlantConditions req of None \<Rightarrow> []
        | Some v \<Rightarrow> [(''plant_conditions'', VPlantConditions v)])
     @ (case upd_TraitMeasurements req of None \<Rightarrow> []
        | Some v \<Rightarrow> [(''trait_measurements'', VTraitMeasurements v)])
     @ (case upd_Coordinates req of None \<Rightarrow> [] | Some v \<Rightarrow> [(''coordinates'', VLocation v)])
     @ (case upd_Notes req of None \<Rightarrow> [] | Some v \<Rightarrow> [(''notes'', VString v)])
     @ (case upd_Images req of None \<Rightarrow> [] | Some v \<Rightarrow> [(''images'', VStrings v)])
     @ (case upd_Videos req of None \<Rightarrow> [] | Some v \<Rightarrow> [(''videos'', VStrings v)])
     @ (case upd_Audio req of None \<Rightarrow> [] | Some v \<Rightarrow> [(''audio'', VStrings v)])
     @ (case upd_Status req of None \<Rightarrow> [] | Some v \<Rightarrow> [(''status'', VString v)])
     @ (case upd_OtherFieldName req of
          Some v \<Rightarrow> [(''other_field_name'', VString v), (''field_id'', VString ''others'')]
        | None \<Rightarrow> (case upd_FieldID req of None \<Rightarrow> [] | Some v \<Rightarrow> [(''field_id'', VString v)]))
     @ [(''updated_at'', VTime now)]"

text \<open>
  \<^verbatim>\<open>UpdateSubmission\<close>. The document that is read after the update is decoded into the
  variable that holds the submission read before it.
\<close>

definition sh_UpdateSubmission ::
  "string \<Rightarrow> User \<Rightarrow> UpdateSubmissionRequest json_body \<Rightarrow> time \<Rightarrow> store
     \<Rightarrow> response \<times> store \<times> task option" where
  "sh_UpdateSubmission submissionID user b now st =
     (case bind_update b of
        None \<Rightarrow> (error_response 400 ''invalid_request'' BinderText, st, None)
      | Some req \<Rightarrow>
          (case get_submission st submissionID of
             (None, st1) \<Rightarrow> (not_found, st1, None)
           | (Some doc, st1) \<Rightarrow>
               let submission = DataTo doc zero_Submission
               in if User_Role user \<noteq> ''admin'' \<and> UserID submission \<noteq> User_ID user
                  then (forbidden, st1, None)
                  else
                    (case update_submission st1 submissionID (build_updates req now) of
                       (False, st2) \<Rightarrow>
                         (error_response 500 ''internal_error''
                            (Text ''Failed to update submission''), st2, None)
                     | (True, st2) \<Rightarrow>
                         (case get_submission st2 submissionID of
                            (None, st3) \<Rightarrow>
                              (error_response 500 ''internal_error''
                                 (Text ''Failed to retrieve updated submission''), st3, None)
                          | (Some doc2, st3) \<Rightarrow>
                              let submission2 = DataTo doc2 submission
                              in (case resolve_fieldName st3 submission2 of
                                    (fieldName, st4) \<Rightarrow>
                                      (\<lparr>status = 200,
                                        body = SuccessResponse (SubmissionData submission2)
                                                 ''Submission updated successfully''\<rparr>,
                                       st4, Some (UpdateTask submission2 fieldName)))))))"

definition sh_DeleteSubmission :: "string \<Rightarrow> User \<Rightarrow> store \<Rightarrow> response \<times> store" where
  "sh_DeleteSubmission submissionID user st =
     (case get_submission st submissionID of
        (None, st1) \<Rightarrow> (not_found, st1)
      | (Some doc, st1) \<Rightarrow>
          let submission = DataTo doc zero_Submission
          in if User_Role user \<noteq> ''admin'' \<and> UserID submission \<noteq> User_ID user
             then (forbidden, st1)
             else (case delete_submission st1 submissionID of
                     (False, st2) \<Rightarrow>
                       (error_response 500 ''internal_error''
                          (Text ''Failed to delete submission''), st2)
                   | (True, st2) \<Rightarrow>
                       (\<lparr>status = 200,
                         body = SuccessResponse NoData ''Submission deleted successfully''\<rparr>,
                        st2)))"

section \<open>Handler-level reading of create and update\<close>

text \<open>
  The document that an update is said to store: each field of the payload replaces the
  stored one when present (a time as the store keeps it), \<^verbatim>\<open>field_id\<close> follows
  \<^verbatim>\<open>other_field_name\<close>, and the update time is the current time. The submission that a
  create is said to answer with.
\<close>

definition updated :: "Submission \<Rightarrow> UpdateSubmissionRequest \<Rightarrow> time \<Rightarrow> Submission" where
  "updated s req now =
     s\<lparr>Date := (case upd_Date req of None \<Rightarrow> Date s | Some v \<Rightarrow> fs_time v),
       GrowthStage := (case upd_GrowthStage req of None \<Rightarrow> GrowthStage s | Some v \<Rightarrow> v),
       PlantConditions := (case upd_PlantConditions req of None \<Rightarrow> PlantConditions s | Some v \<Rightarrow> v),
       TraitMeasurements :=
         (case upd_TraitMeasurements req of None \<Rightarrow> TraitMeasurements s | Some v \<Rightarrow> v),
       Coordinates := (case upd_Coordinates req of None \<Rightarrow> Coordinates s | Some v \<Rightarrow> v),
       Notes := (case upd_Notes req of None \<Rightarrow> Notes s | Some v \<Rightarrow> v),
       Images := (case upd_Images req of None \<Rightarrow> Images s | Some v \<Rightarrow> v),
       Videos := (case upd_Videos req of None \<Rightarrow> Videos s | Some v \<Rightarrow> v),
       Audio := (case upd_Audio req of None \<Rightarrow> Audio s | Some v \<Rightarrow> v),
       Status := (case upd_Status req of None \<Rightarrow> Status s | Some v \<Rightarrow> v),
       OtherFieldName := (case upd_OtherFieldName req of None \<Rightarrow> OtherFieldName s | Some v \<Rightarrow> v),
       FieldID := (case upd_OtherFieldName req of
                     Some v \<Rightarrow> ''others''
                   | None \<Rightarrow> (case upd_FieldID req of None \<Rightarrow> FieldID s | Some v \<Rightarrow> v)),
       UpdatedAt := fs_time now\<rparr>"

definition created ::
  "CreateSubmissionRequest \<Rightarrow> User \<Rightarrow> 128 word \<Rightarrow> time \<Rightarrow> time \<Rightarrow> Submission" where
  "created req user u now1 now2 =
     \<lparr>ID = GenerateID u, UserID = User_ID user, FieldID = req_FieldID req,
      OtherFieldName = req_OtherFieldName req, Coordinates = req_Coordinates req,
      Date = req_Date req, GrowthStage = req_GrowthStage req,
      PlantConditions = req_PlantConditions req,
      TraitMeasurements = req_TraitMeasurements req, Notes = req_Notes req,
      ObserverName = req_ObserverName req, Images = req_Images req, Videos = req_Videos req,
      Audio = req_Audio req, Status = ''submitted'', CreatedAt = now1, UpdatedAt = now2\<rparr>"

text \<open>Reading an identifier back: the value of a hexadecimal digit, and the digits alone.\<close>

definition hex_val :: "char \<Rightarrow> nat" where
  "hex_val c = (if is_digit c then of_char c - 48 else of_char c - 87)"

definition strip_dashes :: "string \<Rightarrow> string" where
  "strip_dashes s = filter (\<lambda>c. c \<noteq> CHR ''-'') s"

text \<open>
  Test inputs: a store that holds the test submission of user \<^verbatim>\<open>u-1\<close> on field
  \<^verbatim>\<open>field-7\<close>, an empty store, stores whose next calls fail, a user with the observer
  role, update payloads, and the create request of the scenario, also with the
  identifier of a field that has no document.
\<close>

definition field_submission :: Submission where
  "field_submission = bare_submission\<lparr>FieldID := ''field-7''\<rparr>"

definition sample_store :: store where
  "sample_store =
     \<lparr>Submissions = (\<lambda>i. if i = ''s-1'' then Some field_submission else None),
      Fields = (\<lambda>i. None), db_faults = []\<rparr>"

definition empty_store :: store where
  "empty_store = \<lparr>Submissions = (\<lambda>i. None), Fields = (\<lambda>i. None), db_faults = []\<rparr>"

definition failing_store :: store where
  "failing_store = empty_store\<lparr>db_faults := [True]\<rparr>"

definition half_failing_store :: store where
  "half_failing_store = sample_store\<lparr>db_faults := [False, True]\<rparr>"

definition unreadable_store :: store where
  "unreadable_store = sample_store\<lparr>db_faults := [True]\<rparr>"

definition observer :: "string \<Rightarrow> User" where
  "observer uid =
     \<lparr>User_ID = uid, User_Email = [], User_Name = [], User_Picture = [],
      User_Role = ''observer'', User_CreatedAt = zero_time, User_UpdatedAt = zero_time,
      User_LastLoginAt = zero_time\<rparr>"

definition empty_payload :: UpdateSubmissionRequest where
  "empty_payload =
     \<lparr>upd_FieldID = None, upd_OtherFieldName = None, upd_Date = None, upd_GrowthStage = None,
      upd_PlantConditions = None, upd_TraitMeasurements = None, upd_Coordinates = None,
      upd_Notes = None, upd_Images = None, upd_Videos = None, upd_Audio = None,
      upd_Status = None\<rparr>"

definition other_name_payload :: UpdateSubmissionRequest where
  "other_name_payload = empty_payload\<lparr>upd_OtherFieldName := Some ''North plot''\<rparr>"

definition both_names_payload :: UpdateSubmissionRequest where
  "both_names_payload =
     empty_payload\<lparr>upd_OtherFieldName := Some ''North plot'', upd_FieldID := Some ''field-9''\<rparr>"

definition tillering_request :: CreateSubmissionRequest where
  "tillering_request =
     \<lparr>req_FieldID = [], req_OtherFieldName = [], req_Date = march_first,
      req_GrowthStage = ''Tillering'', req_PlantConditions = no_conditions,
      req_TraitMeasurements = \<lparr>CulmLength = Finite False 0 0, PanicleLength = Finite False 0 0,
                                PaniclesPerHill = 0, HillsObserved = 0\<rparr>,
      req_Coordinates = \<lparr>Latitude = Finite False 0 0, Longitude = Finite False 0 0\<rparr>,
      req_Notes = [], req_ObserverName = ''Alice'', req_Images = [], req_Videos = [],
      req_Audio = []\<rparr>"

definition stale_field_request :: CreateSubmissionRequest where
  "stale_field_request = tillering_request\<lparr>req_FieldID := ''field-404''\<rparr>"

text \<open>
  More test inputs: an empty store whose second call fails; a time in a zone two hours
  east of UTC with nanoseconds, 2024-03-01T01:30:05.123456789+02:00; a stored
  submission whose pest details hold the key \<^verbatim>\<open>aphids\<close>, the store that holds it, also
  with a third call that fails; and a payload with a date and with plant conditions
  whose pest details hold the key \<^verbatim>\<open>stem borer\<close> only.
\<close>

definition flaky_store :: store where
  "flaky_store = empty_store\<lparr>db_faults := [False, True]\<rparr>"

definition night :: time where
  "night = \<lparr>year = 2024, month = 3, day = 1, hour = 1, minute = 30, second = 5,
             nsec = 123456789, zone = Some 7200\<rparr>"

definition aphid_submission :: Submission where
  "aphid_submission =
     field_submission\<lparr>PlantConditions := no_conditions\<lparr>PestDetails := Some [(''aphids'', True)]\<rparr>\<rparr>"

definition aphid_store :: store where
  "aphid_store =
     \<lparr>Submissions = (\<lambda>i. if i = ''s-1'' then Some aphid_submission else None),
      Fields = (\<lambda>i. None), db_faults = []\<rparr>"

definition reread_failing_store :: store where
  "reread_failing_store = aphid_store\<lparr>db_faults := [False, False, True]\<rparr>"

definition borer_payload :: UpdateSubmissionRequest where
  "borer_payload =
     empty_payload\<lparr>upd_Date := Some night,
                   upd_PlantConditions :=
                     Some (no_conditions\<lparr>PestDetails := Some [(''stem borer'', True)]\<rparr>)\<rparr>"

section \<open>Media upload (MediaHandler, utils)\<close>

text \<open>
  \<^verbatim>\<open>filepath.Ext\<close>: the path is scanned from its end; the scan stops at a separator with
  no extension and at the first dot with the suffix that starts there.
\<close>

fun Ext_scan :: "string \<Rightarrow> string \<Rightarrow> string" where
  "Ext_scan [] suffix = []"
| "Ext_scan (c # before) suffix =
     (if c = CHR ''/'' then []
      else if c = CHR ''.'' then c # suffix
      else Ext_scan before (c # suffix))"

definition Ext :: "string \<Rightarrow> string" where
  "Ext path = Ext_scan (rev path) []"

text \<open>
  \<^verbatim>\<open>strings.ToLower\<close> on the ASCII letters. A character outside ASCII is left as it
  is: no lower case form of such a character occurs in an allowed extension.
\<close>

definition lower :: "char \<Rightarrow> char" where
  "lower c =
     (case map_of (zip ''ABCDEFGHIJKLMNOPQRSTUVWXYZ'' ''abcdefghijklmnopqrstuvwxyz'') c of
        None \<Rightarrow> c | Some l \<Rightarrow> l)"

definition ToLower :: "string \<Rightarrow> string" where
  "ToLower s = map lower s"

definition checkExtension :: "string \<Rightarrow> string list \<Rightarrow> bool" where
  "checkExtension filename allowedExtensions = (ToLower (Ext filename) \<in> set allowedExtensions)"

definition IsImageFile :: "string \<Rightarrow> bool" where
  "IsImageFile filename = checkExtension filename [''.jpg'', ''.jpeg'', ''.png'', ''.webp'']"

definition IsVideoFile :: "string \<Rightarrow> bool" where
  "IsVideoFile filename = checkExtension filename [''.mp4'', ''.mov'', ''.webm'']"

definition IsAudioFile :: "string \<Rightarrow> bool" where
  "IsAudioFile filename = checkExtension filename [''.mp3'', ''.wav'', ''.ogg'', ''.webm'']"

definition ValidateMediaType :: "string \<Rightarrow> string \<Rightarrow> bool" where
  "ValidateMediaType filename fileType =
     (if fileType = ''image'' then IsImageFile filename
      else if fileType = ''video'' then IsVideoFile filename
      else if fileType = ''audio'' then IsAudioFile filename
      else False)"

text \<open>\<^verbatim>\<open>t.Format("20060102_150405")\<close>.\<close>

definition Format_stamp :: "time \<Rightarrow> string" where
  "Format_stamp t =
     appendInt (year t) 4 @ appendInt (int (month t)) 2 @ appendInt (int (day t)) 2 @ ''_''
       @ appendInt (int (hour t)) 2 @ appendInt (int (minute t)) 2 @ appendInt (int (second t)) 2"

text \<open>
  A handler returns after it has written its response, or panics. The slice
  expression \<^verbatim>\<open>s[:n]\<close> panics when \<open>n\<close> is beyond the length of the string.
\<close>

datatype 'a outcome = Panic | Returned 'a

definition slice_to :: "string \<Rightarrow> nat \<Rightarrow> string outcome" where
  "slice_to s n = (if n \<le> length s then Returned (take n s) else Panic)"

text \<open>
  \<^verbatim>\<open>addMediaToSubmission\<close>: within a transaction the submission is read, the URL is
  appended to the list of its kind, the update time is set and the document written.
  The transaction commits or returns an error.
\<close>

definition mh_addMediaToSubmission ::
  "store \<Rightarrow> string \<Rightarrow> string \<Rightarrow> string \<Rightarrow> time \<Rightarrow> bool \<times> store" where
  "mh_addMediaToSubmission st submissionID mediaURL fileType now =
     (case get_submission st submissionID of
        (None, st1) \<Rightarrow> (False, st1)
      | (Some doc, st1) \<Rightarrow>
          let submission = DataTo doc zero_Submission;
              added =
                (if fileType = ''image'' then submission\<lparr>Images := Images submission @ [mediaURL]\<rparr>
                 else if fileType = ''video''
                 then submission\<lparr>Videos := Videos submission @ [mediaURL]\<rparr>
                 else if fileType = ''audio''
                 then submission\<lparr>Audio := Audio submission @ [mediaURL]\<rparr>
                 else submission)
          in set_submission st1 submissionID (added\<lparr>UpdatedAt := now\<rparr>))"

text \<open>
  An upload request and what its environment does: the two form values, the uploaded
  file (its name and content type) if there is one, whether the copy to the object
  store, the closing of the writer and the setting of the access rule succeed, the UUID
  drawn for the file name, the two readings of the clock and the name of the bucket.
  The object store itself is not part of the model.
\<close>

record upload =
  form_submission_id :: string
  form_file_type :: string
  form_file :: "(string \<times> string) option"
  copy_ok :: bool
  close_ok :: bool
  acl_ok :: bool
  file_uuid :: "128 word"
  now_stamp :: time
  now_updated :: time
  BucketName :: string

definition upload_success :: "string \<Rightarrow> string \<Rightarrow> string \<Rightarrow> response" where
  "upload_success filename mediaURL fileType =
     \<lparr>status = 200,
      body = SuccessResponse (UploadData filename mediaURL fileType) ''Media uploaded successfully''\<rparr>"

definition mh_UploadMedia :: "upload \<Rightarrow> store \<Rightarrow> (response \<times> store) outcome" where
  "mh_UploadMedia up st =
     (let submissionID = form_submission_id up; fileType = form_file_type up
      in if submissionID = []
         then Returned (error_response 400 ''invalid_request'' (Text ''submission_id is required''), st)
         else if fileType = []
         then Returned (error_response 400 ''invalid_request'' (Text ''file_type is required''), st)
         else
           (case form_file up of
              None \<Rightarrow>
                Returned (error_response 400 ''invalid_request'' (Text ''No file uploaded''), st)
            | Some (name, contentType) \<Rightarrow>
                let ext = Ext name
                in if \<not> ValidateMediaType name fileType
                   then Returned (error_response 400 ''invalid_file_type''
                                    (Text (''Unsupported file type for '' @ fileType)), st)
                   else
                     let filename = submissionID @ ''/'' @ GenerateID (file_uuid up) @ ''_''
                                      @ Format_stamp (now_stamp up) @ ext
                     in if \<not> copy_ok up
                        then Returned (error_response 500 ''upload_failed''
                                         (Text ''Failed to upload file''), st)
                        else if \<not> close_ok up
                        then Returned (error_response 500 ''upload_failed''
                                         (Text ''Failed to finalize upload''), st)
                        else
                          let mediaURL = ''https://storage.googleapis.com/'' @ BucketName up
                                           @ ''/'' @ filename
                          in if submissionID \<noteq> []
                             then
                               (case slice_to submissionID 5 of
                                  Panic \<Rightarrow> Panic
                                | Returned prefix \<Rightarrow>
                                    if prefix \<noteq> ''temp_''
                                    then
                                      (case mh_addMediaToSubmission st submissionID mediaURL
                                              fileType (now_updated up) of
                                         (False, st1) \<Rightarrow>
                                           Returned
                                             (error_response 500 ''internal_error''
                                                (Text ''Failed to update submission with media''),
                                              st1)
                                       | (True, st1) \<Rightarrow>
                                           Returned (upload_success filename mediaURL fileType, st1))
                                    else Returned (upload_success filename mediaURL fileType, st))
                             else Returned (upload_success filename mediaURL fileType, st)))"

text \<open>An upload of \<^verbatim>\<open>leaf.jpg\<close> as an image that the object store accepts.\<close>

definition leaf_upload :: "string \<Rightarrow> upload" where
  "leaf_upload sid =
     \<lparr>form_submission_id = sid, form_file_type = ''image'',
      form_file = Some (''leaf.jpg'', ''image/jpeg''), copy_ok = True, close_ok = True,
      acl_ok = True, file_uuid = 7, now_stamp = march_first, now_updated = march_first,
      BucketName = ''rice-media''\<rparr>"

section \<open>Properties of the renderers\<close>

lemma mapToString_range_filter:
  "mapToString_range m parts = parts @ map fst (filter snd m)"
  by (induction m arbitrary: parts) auto

lemma Join_concat: "Join (x # xs) sep = x @ concat (map (\<lambda>y. sep @ y) xs)"
  by (induction xs arbitrary: x) auto

lemma dec_small: "n < 10 \<Longrightarrow> dec n = [digit n]"
  by (subst dec.simps) simp

lemma dec_large: "10 \<le> n \<Longrightarrow> dec n = dec (n div 10) @ [digit n]"
  by (subst dec.simps) simp

lemma replicate_numeral: "replicate (numeral k) x = x # replicate (pred_numeral k) x"
  by (simp add: numeral_eq_Suc)

lemmas dec_eval = dec_small dec_large digit_def replicate_numeral

lemma below_ten: "(k::nat) < 10 \<Longrightarrow> k \<in> {0, 1, 2, 3, 4, 5, 6, 7, 8, 9}"
  by auto

lemma digit_is_digit: "is_digit (digit n)"
proof -
  have "n mod 10 \<in> {0, 1, 2, 3, 4, 5, 6, 7, 8, 9}" by (rule below_ten) simp
  then show ?thesis unfolding digit_def is_digit_def by auto
qed

lemma digit_val_digit: "digit_val (digit n) = n mod 10"
proof -
  have "n mod 10 \<in> {0, 1, 2, 3, 4, 5, 6, 7, 8, 9}" by (rule below_ten) simp
  then show ?thesis unfolding digit_def digit_val_def by auto
qed

lemma undec_snoc: "undec (cs @ [c]) = 10 * undec cs + digit_val c"
  by (simp add: undec_def)

lemma undec_dec: "undec (dec n) = n"
proof (induction n rule: dec.induct)
  case (1 n)
  show ?case
  proof (cases "n < 10")
    case True
    then show ?thesis by (simp add: dec_small undec_def digit_val_digit)
  next
    case False
    with 1 show ?thesis by (simp add: dec_large undec_snoc digit_val_digit)
  qed
qed

lemma dec_digits: "list_all is_digit (dec n)"
proof (induction n rule: dec.induct)
  case (1 n)
  show ?case
  proof (cases "n < 10")
    case True
    then show ?thesis by (simp add: dec_small digit_is_digit)
  next
    case False
    with 1 show ?thesis by (simp add: dec_large digit_is_digit)
  qed
qed

lemma dec_nonempty: "dec n \<noteq> []"
  by (subst dec.simps) simp

lemma length_dec: "0 < k \<Longrightarrow> n < 10 ^ k \<Longrightarrow> length (dec n) \<le> k"
proof (induction n arbitrary: k rule: dec.induct)
  case (1 n)
  show ?case
  proof (cases "n < 10")
    case True
    with 1 show ?thesis by (simp add: dec_small)
  next
    case False
    then have k1: "1 < k" using 1(2,3) by (cases "k = 1") auto
    then obtain j where j: "k = Suc j" "0 < j" by (cases k) auto
    have "n div 10 < 10 ^ j" using 1(3) j by (simp add: less_mult_imp_div_less mult.commute)
    then have "length (dec (n div 10)) \<le> j" using 1(1)[OF False j(2)] by simp
    then show ?thesis using False j by (simp add: dec_large)
  qed
qed

lemma atoi_itoa: "atoi (itoa i) = i"
proof (cases "i < 0")
  case True
  then show ?thesis by (simp add: itoa_def atoi_def undec_dec)
next
  case False
  obtain c cs where d: "dec (nat i) = c # cs" using dec_nonempty by (cases "dec (nat i)") auto
  have "is_digit c" using dec_digits[of "nat i"] d by simp
  then have "c \<noteq> CHR ''-''" by (auto simp: is_digit_def)
  moreover have "undec (c # cs) = nat i" using undec_dec[of "nat i"] d by simp
  ultimately show ?thesis using False d by (simp add: itoa_def atoi_def)
qed

lemma atoi_fmt_d: "atoi (fmt_d x) = sint x"
  by (simp add: fmt_d_def atoi_itoa)

lemma digit_not_zero: "0 < n \<Longrightarrow> n < 10 \<Longrightarrow> digit n \<in> set ''123456789''"
proof -
  assume "0 < n" "n < 10"
  then have "n \<in> {1, 2, 3, 4, 5, 6, 7, 8, 9}" by auto
  then show ?thesis unfolding digit_def by auto
qed

lemma hd_dec: "0 < n \<Longrightarrow> hd (dec n) \<in> set ''123456789''"
proof (induction n rule: dec.induct)
  case (1 n)
  show ?case
  proof (cases "n < 10")
    case True
    with 1(2) show ?thesis using digit_not_zero[of n] by (simp add: dec_small)
  next
    case False
    then have "0 < n div 10" by simp
    with 1(1) False have "hd (dec (n div 10)) \<in> set ''123456789''" by blast
    then show ?thesis using False dec_nonempty[of "n div 10"] by (simp add: dec_large)
  qed
qed

lemma decimal_dec: "decimal (dec n)"
proof (cases "n = 0")
  case True
  then show ?thesis by (simp add: decimal_def dec_small digit_is_digit)
next
  case False
  then have "0 < n" by simp
  then have "hd (dec n) \<in> set ''123456789''" by (rule hd_dec)
  then show ?thesis unfolding decimal_def using dec_nonempty[of n] dec_digits[of n] by blast
qed

lemma fmt_d_decimal:
  "\<exists>ds. decimal ds \<and> undec ds = nat \<bar>sint x\<bar> \<and>
        fmt_d x = (if sint x < 0 then CHR ''-'' # ds else ds)"
proof -
  have "fmt_d x = (if sint x < 0 then CHR ''-'' # dec (nat \<bar>sint x\<bar>) else dec (nat \<bar>sint x\<bar>))"
    by (simp add: fmt_d_def itoa_def)
  then show ?thesis using decimal_dec undec_dec by blast
qed

lemma round_half_even_nearest:
  assumes "0 < den"
  shows "2 * \<bar>int num - int (round_half_even num den) * int den\<bar> \<le> int den"
proof -
  define q where "q = num div den"
  define r where "r = num mod den"
  have n: "int num = int q * int den + int r"
    unfolding q_def r_def by (metis div_mult_mod_eq of_nat_add of_nat_mult)
  have r: "r < den" unfolding r_def using assms by simp
  consider "2 * r < den" | "den < 2 * r" | "2 * r = den" by linarith
  then show ?thesis
  proof cases
    case 1
    then have "round_half_even num den = q"
      by (simp add: round_half_even_def Let_def q_def r_def)
    with n 1 show ?thesis by simp
  next
    case 2
    then have "round_half_even num den = q + 1"
      by (simp add: round_half_even_def Let_def q_def r_def)
    with n 2 r show ?thesis by (simp add: algebra_simps)
  next
    case 3
    then have "round_half_even num den = q \<or> round_half_even num den = q + 1"
      by (simp add: round_half_even_def Let_def q_def r_def)
    with n 3 r show ?thesis by (auto simp: algebra_simps)
  qed
qed

lemma micros_exact: "0 \<le> e \<Longrightarrow> micros m e = m * 2 ^ nat e * 1000000"
  by (simp add: micros_def)

lemma micros_nearest:
  "e < 0 \<Longrightarrow> 2 * \<bar>int (m * 1000000) - int (micros m e) * 2 ^ nat (- e)\<bar> \<le> 2 ^ nat (- e)"
  using round_half_even_nearest[of "2 ^ nat (- e)" "m * 1000000"]
  by (simp add: micros_def)

lemma length_pad: "length ds \<le> w \<Longrightarrow> length (pad w ds) = w"
  by (simp add: pad_def)

lemma zeros_digits: "list_all is_digit (replicate k (CHR ''0''))"
  by (induction k) (simp_all add: is_digit_def)

lemma pad_digits: "list_all is_digit ds \<Longrightarrow> list_all is_digit (pad w ds)"
  by (simp add: pad_def zeros_digits)

lemma undec_append: "undec (as @ bs) = undec as * 10 ^ length bs + undec bs"
proof (induction bs rule: rev_induct)
  case Nil
  then show ?case by (simp add: undec_def)
next
  case (snoc b bs)
  have "undec (as @ bs @ [b]) = 10 * undec (as @ bs) + digit_val b"
    using undec_snoc[of "as @ bs" b] by simp
  then show ?case using snoc by (simp add: undec_snoc algebra_simps)
qed

lemma undec_zeros: "undec (replicate k (CHR ''0'')) = 0"
proof (induction k)
  case 0
  then show ?case by (simp add: undec_def)
next
  case (Suc k)
  have "replicate (Suc k) (CHR ''0'') = replicate k (CHR ''0'') @ [CHR ''0'']"
    by (simp add: replicate_append_same)
  then show ?case using Suc by (simp add: undec_snoc digit_val_def del: replicate_Suc)
qed

lemma undec_pad: "undec (pad w ds) = undec ds"
  by (simp add: pad_def undec_append undec_zeros)

lemma fmt_f_shape:
  "\<exists>ip fp. fmt_f (Finite s m e) = (if s then ''-'' else []) @ ip @ ''.'' @ fp
     \<and> ip \<noteq> [] \<and> list_all is_digit ip \<and> list_all is_digit fp \<and> length fp = 6
     \<and> undec ip * 1000000 + undec fp = micros m e"
proof -
  define n where "n = micros m e"
  define ip where "ip = dec (n div 1000000)"
  define fp where "fp = pad 6 (dec (n mod 1000000))"
  have "length (dec (n mod 1000000)) \<le> 6"
    by (rule length_dec) simp_all
  then have "length fp = 6" by (simp add: fp_def length_pad)
  moreover have "list_all is_digit fp" by (simp add: fp_def pad_digits dec_digits)
  moreover have "list_all is_digit ip" "ip \<noteq> []" by (simp_all add: ip_def dec_digits dec_nonempty)
  moreover have "undec ip * 1000000 + undec fp = n"
    by (simp add: ip_def fp_def undec_pad undec_dec)
  moreover have "fmt_f (Finite s m e) = (if s then ''-'' else []) @ ip @ ''.'' @ fp"
    by (simp add: ip_def fp_def n_def Let_def)
  ultimately show ?thesis unfolding n_def by blast
qed

lemma matches_app: "matches p s \<Longrightarrow> matches p' s' \<Longrightarrow> matches (p @ p') (s @ s')"
  by (induction p s rule: matches.induct) auto

lemma matches_digits:
  "list_all is_digit s \<Longrightarrow> matches (replicate (length s) (CHR ''d'')) s"
  by (induction s) auto

lemma appendInt_digits:
  assumes "0 \<le> x" "x < 10 ^ w" "0 < w"
  shows "matches (replicate w (CHR ''d'')) (appendInt x w)"
proof -
  have "nat x < 10 ^ w" using assms by (simp add: nat_less_iff)
  then have l: "length (dec (nat x)) \<le> w" using assms(3) by (intro length_dec)
  have "matches (replicate (length (pad w (dec (nat x)))) (CHR ''d'')) (pad w (dec (nat x)))"
    by (intro matches_digits pad_digits dec_digits)
  then show ?thesis using assms(1) l by (simp add: appendInt_def length_pad)
qed

lemma appendInt_2: "0 \<le> x \<Longrightarrow> x < 100 \<Longrightarrow> matches ''dd'' (appendInt x 2)"
  using appendInt_digits[of x 2] by (simp add: replicate_numeral)

lemma appendInt_4: "0 \<le> x \<Longrightarrow> x < 10000 \<Longrightarrow> matches ''dddd'' (appendInt x 4)"
  using appendInt_digits[of x 4] by (simp add: replicate_numeral)

lemma format_zone_shape:
  assumes "\<bar>offset\<bar> < 360000"
  shows "matches ''Z'' (format_zone offset) \<or> matches ''+dd:dd'' (format_zone offset)
         \<or> matches ''-dd:dd'' (format_zone offset)"
proof (cases "offset = 0")
  case True
  then show ?thesis by (simp add: format_zone_def)
next
  case False
  define z where "z = go_quot offset 60"
  have az: "\<bar>z\<bar> = \<bar>offset\<bar> div 60"
    unfolding z_def go_quot_def using False by (simp add: abs_mult abs_sgn_eq)
  have hh: "matches ''dd'' (appendInt (\<bar>z\<bar> div 60) 2)"
    using assms az by (intro appendInt_2) auto
  have mm: "matches ''dd'' (appendInt (\<bar>z\<bar> mod 60) 2)"
    by (intro appendInt_2) auto
  have tl: "matches (''dd'' @ '':'' @ ''dd'') (appendInt (\<bar>z\<bar> div 60) 2 @ '':'' @ appendInt (\<bar>z\<bar> mod 60) 2)"
    by (intro matches_app hh mm) simp
  have fz: "format_zone offset = (if z < 0 then ''-'' else ''+'') @ appendInt (\<bar>z\<bar> div 60) 2 @ '':'' @ appendInt (\<bar>z\<bar> mod 60) 2"
    using False by (simp add: format_zone_def z_def Let_def)
  show ?thesis
  proof (cases "z < 0")
    case True
    have "matches (''-'' @ ''dd'' @ '':'' @ ''dd'') (''-'' @ appendInt (\<bar>z\<bar> div 60) 2 @ '':'' @ appendInt (\<bar>z\<bar> mod 60) 2)"
      by (intro matches_app tl) simp
    then show ?thesis using True fz by simp
  next
    case False
    have "matches (''+'' @ ''dd'' @ '':'' @ ''dd'') (''+'' @ appendInt (\<bar>z\<bar> div 60) 2 @ '':'' @ appendInt (\<bar>z\<bar> mod 60) 2)"
      by (intro matches_app tl) simp
    then show ?thesis using False fz by simp
  qed
qed

lemma Format_RFC3339_shape:
  assumes "civil t"
  shows "rfc3339_shape (Format_RFC3339 t)"
proof -
  define body where "body =
     appendInt (year t) 4 @ ''-'' @ appendInt (int (month t)) 2 @ ''-''
       @ appendInt (int (day t)) 2 @ ''T'' @ appendInt (int (hour t)) 2 @ '':''
       @ appendInt (int (minute t)) 2 @ '':'' @ appendInt (int (second t)) 2"
  have y: "matches ''dddd'' (appendInt (year t) 4)"
    using assms by (intro appendInt_4) (auto simp: civil_def)
  have mo: "matches ''dd'' (appendInt (int (month t)) 2)"
    using assms(1) by (intro appendInt_2) (auto simp: civil_def)
  have d: "matches ''dd'' (appendInt (int (day t)) 2)"
    using assms(1) by (intro appendInt_2) (auto simp: civil_def)
  have h: "matches ''dd'' (appendInt (int (hour t)) 2)"
    using assms(1) by (intro appendInt_2) (auto simp: civil_def)
  have mi: "matches ''dd'' (appendInt (int (minute t)) 2)"
    using assms(1) by (intro appendInt_2) (auto simp: civil_def)
  have se: "matches ''dd'' (appendInt (int (second t)) 2)"
    using assms(1) by (intro appendInt_2) (auto simp: civil_def)
  have sep: "matches ''-'' ''-''" "matches ''T'' ''T''" "matches '':'' '':''" by simp_all
  have b: "matches (''dddd'' @ ''-'' @ ''dd'' @ ''-'' @ ''dd'' @ ''T'' @ ''dd'' @ '':'' @ ''dd'' @ '':'' @ ''dd'') body"
    unfolding body_def by (intro matches_app y mo d h mi se sep)
  have f: "Format_RFC3339 t = body @ format_zone (zone_offset t)"
    by (simp add: Format_RFC3339_def body_def)
  have "\<And>p. matches p (format_zone (zone_offset t)) \<Longrightarrow>
          matches (''dddd-dd-ddTdd:dd:dd'' @ p) (Format_RFC3339 t)"
    unfolding f using matches_app[OF b] by simp
  then show ?thesis
    using format_zone_shape[of "zone_offset t"] assms unfolding rfc3339_shape_def civil_def by force
qed

lemma length_appendInt: "0 \<le> x \<Longrightarrow> x < 10 ^ w \<Longrightarrow> 0 < w \<Longrightarrow> length (appendInt x w) = w"
proof -
  assume a: "0 \<le> x" "x < 10 ^ w" "0 < w"
  have "nat x < 10 ^ w" using a by (simp add: nat_less_iff)
  then have "length (dec (nat x)) \<le> w" using a(3) by (intro length_dec)
  then show ?thesis using a(1) by (simp add: appendInt_def length_pad)
qed

lemma undec_appendInt: "0 \<le> x \<Longrightarrow> undec (appendInt x w) = nat x"
  by (simp add: appendInt_def undec_pad undec_dec)

lemma read_fields:
  assumes "length Y = 4" "length M = 2" "length D = 2" "length h = 2" "length mi = 2"
    and "length s = 2"
  shows "read_rfc3339 (Y @ ''-'' @ M @ ''-'' @ D @ ''T'' @ h @ '':'' @ mi @ '':'' @ s @ Z)
     = (int (undec Y), undec M, undec D, undec h, undec mi, undec s,
        (if Z = ''Z'' then 0
         else (if take 1 Z = ''-'' then - 1 else 1)
              * (int (undec (take 2 (drop 1 Z))) * 60 + int (undec (take 2 (drop 4 Z))))))"
  using assms by (simp add: read_rfc3339_def)

lemma read_zone:
  assumes "\<bar>offset\<bar> < 360000"
  shows "(if format_zone offset = ''Z'' then 0
          else (if take 1 (format_zone offset) = ''-'' then - 1 else 1)
               * (int (undec (take 2 (drop 1 (format_zone offset)))) * 60
                  + int (undec (take 2 (drop 4 (format_zone offset))))))
         = go_quot offset 60"
proof (cases "offset = 0")
  case True
  then show ?thesis by (simp add: format_zone_def go_quot_def)
next
  case False
  define z where "z = go_quot offset 60"
  define hh where "hh = appendInt (\<bar>z\<bar> div 60) 2"
  define mm where "mm = appendInt (\<bar>z\<bar> mod 60) 2"
  have az: "\<bar>z\<bar> = \<bar>offset\<bar> div 60"
    unfolding z_def go_quot_def using False by (simp add: abs_mult abs_sgn_eq)
  have lh: "length hh = 2" unfolding hh_def using assms az by (intro length_appendInt) auto
  have lm: "length mm = 2" unfolding mm_def by (intro length_appendInt) auto
  have uh: "undec hh = nat (\<bar>z\<bar> div 60)" unfolding hh_def by (intro undec_appendInt) simp
  have um: "undec mm = nat (\<bar>z\<bar> mod 60)" unfolding mm_def by (intro undec_appendInt) simp
  have fz: "format_zone offset = (if z < 0 then ''-'' else ''+'') @ hh @ '':'' @ mm"
    using False by (simp add: format_zone_def z_def hh_def mm_def Let_def)
  have nz: "format_zone offset \<noteq> ''Z''"
  proof
    assume "format_zone offset = ''Z''"
    then have "length (format_zone offset) = 1" by simp
    then show False unfolding fz using lh lm by (simp split: if_splits)
  qed
  have t1: "take 1 (format_zone offset) = (if z < 0 then ''-'' else ''+'')"
    unfolding fz by simp
  have t2: "take 2 (drop 1 (format_zone offset)) = hh"
    unfolding fz using lh by simp
  have t3: "take 2 (drop 4 (format_zone offset)) = mm"
    unfolding fz using lh lm by simp
  have "0 \<le> \<bar>z\<bar> div 60" by (simp add: pos_imp_zdiv_nonneg_iff)
  moreover have "0 \<le> \<bar>z\<bar> mod 60" by simp
  moreover have "\<bar>z\<bar> div 60 * 60 + \<bar>z\<bar> mod 60 = \<bar>z\<bar>" by (rule div_mult_mod_eq)
  ultimately have "int (nat (\<bar>z\<bar> div 60)) * 60 + int (nat (\<bar>z\<bar> mod 60)) = \<bar>z\<bar>"
    by (simp only: int_nat_eq if_True)
  then show ?thesis
    unfolding t1 t2 t3 uh um z_def[symmetric] using nz by (simp split: if_splits)
qed

lemma read_Format_RFC3339:
  assumes "civil t"
  shows "read_rfc3339 (Format_RFC3339 t)
           = (year t, month t, day t, hour t, minute t, second t, go_quot (zone_offset t) 60)"
proof -
  have l: "length (appendInt (year t) 4) = 4" "length (appendInt (int (month t)) 2) = 2"
    "length (appendInt (int (day t)) 2) = 2" "length (appendInt (int (hour t)) 2) = 2"
    "length (appendInt (int (minute t)) 2) = 2" "length (appendInt (int (second t)) 2) = 2"
    using assms by (auto intro!: length_appendInt simp: civil_def)
  have y: "0 \<le> year t" and z: "\<bar>zone_offset t\<bar> < 360000" using assms by (simp_all add: civil_def)
  show ?thesis
    unfolding Format_RFC3339_def read_fields[OF l] read_zone[OF z]
    using y by (simp add: undec_appendInt)
qed

section \<open>Properties of the backend calls\<close>

lemma api_call_tabs: "tabs (snd (api_call be t)) = tabs be"
  by (simp add: api_call_def split: list.splits)

lemma api_call_result: "fst (api_call be t) = None \<or> fst (api_call be t) = tabs be t"
  by (simp add: api_call_def split: list.splits)

lemma api_call_no_faults: "faults be = [] \<Longrightarrow> api_call be t = (tabs be t, be)"
  by (simp add: api_call_def)

lemma api_call_cases:
  obtains (fail) be' where "api_call be t = (None, be')" "tabs be' = tabs be"
  | (ok) rows be' where "api_call be t = (Some rows, be')" "tabs be' = tabs be" "tabs be t = Some rows"
proof (cases "fst (api_call be t)")
  case None
  then show ?thesis using fail[of "snd (api_call be t)"] api_call_tabs[of be t]
    by (metis prod.collapse)
next
  case (Some rows)
  then show ?thesis using ok[of rows "snd (api_call be t)"] api_call_tabs[of be t] api_call_result[of be t]
    by (metis option.distinct(1) prod.collapse)
qed

lemma drop_trailing_Nil: "drop_trailing [] = []"
  by (simp add: drop_trailing_def)

lemma drop_trailing_single: "drop_trailing [v] = (if v = [] then [] else [v])"
  by (simp add: drop_trailing_def)

lemma column_A_take1:
  "column_A (take 1 rows) = (case rows of [] \<Rightarrow> [] | r # _ \<Rightarrow> if cell_A r = [] then [] else [[cell_A r]])"
  by (cases rows) (simp_all add: column_A_def drop_trailing_Nil drop_trailing_single)

lemma header_test:
  "(length (column_A (take 1 rows)) = 0 \<or> length (column_A (take 1 rows) ! 0) = 0
     \<or> column_A (take 1 rows) ! 0 ! 0 = [])
   = ((case rows of [] \<Rightarrow> [] | r # _ \<Rightarrow> cell_A r) = [])"
  unfolding column_A_take1 by (cases rows) simp_all

lemma write_row_0:
  "write_row 0 cells rows =
     (case rows of [] \<Rightarrow> [cells] | r # rs \<Rightarrow> (cells @ drop (length cells) r) # rs)"
  by (cases rows) (simp_all add: write_row_def Let_def)

lemma cell_A_headers: "cell_A (headers @ xs) = ''ID''"
  by (simp add: cell_A_def headers_def)

lemma values_get_A1_cases:
  obtains (fail) be1 where "values_get_A1 be t = (None, be1)" "tabs be1 = tabs be"
  | (ok) rows be1 where "values_get_A1 be t = (Some (column_A (take 1 rows)), be1)"
      "tabs be1 = tabs be" "tabs be t = Some rows"
  by (rule api_call_cases[of be t]) (simp_all add: values_get_A1_def)

lemma values_update_effect:
  assumes "1 \<le> n"
  shows "(fst (values_update be t n cells) = False \<and> tabs (snd (values_update be t n cells)) = tabs be) \<or>
         (fst (values_update be t n cells) = True \<and>
            (\<exists>rows. tabs be t = Some rows \<and>
               tabs (snd (values_update be t n cells)) = (tabs be)(t \<mapsto> write_row (nat (n - 1)) cells rows)))"
  using assms by (rule_tac api_call_cases[of be t]) (simp_all add: values_update_def)

lemma ensureHeaders_effect:
  assumes "gs_ensureHeaders t be = (r, be')"
  shows "(r = Some UnableToRetrieve \<and> tabs be' = tabs be) \<or>
         (r = None \<and> a1 be t \<noteq> [] \<and> tabs be' = tabs be) \<or>
         (r = Some UnableToWriteHeaders \<and> a1 be t = [] \<and> tabs be' = tabs be) \<or>
         (r = None \<and> a1 be t = [] \<and>
            (\<exists>rows. tabs be t = Some rows \<and> tabs be' = (tabs be)(t \<mapsto> write_row 0 headers rows)))"
proof (cases rule: values_get_A1_cases[of be t])
  case (fail be1)
  with assms show ?thesis by (simp add: gs_ensureHeaders_def)
next
  case (ok rows be1)
  have a: "a1 be t = (case rows of [] \<Rightarrow> [] | r # _ \<Rightarrow> cell_A r)"
    using ok(3) by (simp add: a1_def)
  show ?thesis
  proof (cases "a1 be t = []")
    case False
    then have "gs_ensureHeaders t be = (None, be1)"
      using ok(1) header_test[of rows] a by (simp add: gs_ensureHeaders_def)
    with assms ok(2) False show ?thesis by simp
  next
    case True
    then have e: "gs_ensureHeaders t be =
        (case values_update be1 t 1 headers of
           (False, be2) \<Rightarrow> (Some UnableToWriteHeaders, be2) | (True, be2) \<Rightarrow> (None, be2))"
      using ok(1) header_test[of rows] a by (simp add: gs_ensureHeaders_def)
    show ?thesis
      using values_update_effect[of 1 be1 t headers] e assms ok(2,3) True
      by (auto split: prod.splits bool.splits)
  qed
qed

lemma a1_update:
  "tabs be' = (tabs be)(t \<mapsto> write_row 0 headers rows) \<Longrightarrow> a1 be' t = ''ID''"
  by (simp add: a1_def write_row_0 cell_A_headers cell_A_def headers_def split: list.splits)

lemma scan_rows_empty: "\<forall>y\<in>set ys. y = [] \<Longrightarrow> scan_rows ys sid k = - 1"
  by (induction ys arbitrary: k) auto

lemma scan_rows_append_empty:
  "\<forall>y\<in>set ys. y = [] \<Longrightarrow> scan_rows (xs @ ys) sid k = scan_rows xs sid k"
  by (induction xs arbitrary: k) (auto simp: scan_rows_empty)

lemma drop_trailing_decomp:
  "\<exists>ys. vs = drop_trailing vs @ ys \<and> (\<forall>y\<in>set ys. y = [])"
proof -
  have "rev vs = takeWhile (\<lambda>v. v = []) (rev vs) @ dropWhile (\<lambda>v. v = []) (rev vs)"
    by simp
  then have "vs = rev (dropWhile (\<lambda>v. v = []) (rev vs)) @ rev (takeWhile (\<lambda>v. v = []) (rev vs))"
    by (metis rev_append rev_rev_ident)
  moreover have "\<forall>y\<in>set (rev (takeWhile (\<lambda>v. v = []) (rev vs))). y = []"
    by (auto dest: set_takeWhileD)
  ultimately show ?thesis unfolding drop_trailing_def by blast
qed

lemma scan_rows_drop_trailing: "scan_rows (drop_trailing vs) sid k = scan_rows vs sid k"
proof -
  obtain ys where "vs = drop_trailing vs @ ys" "\<forall>y\<in>set ys. y = []"
    using drop_trailing_decomp by blast
  then show ?thesis using scan_rows_append_empty by metis
qed

lemma scan_rows_cells:
  "scan_rows (map (\<lambda>r. if cell_A r = [] then [] else [cell_A r]) rows) sid k
     = (case first_match rows sid of None \<Rightarrow> - 1 | Some i \<Rightarrow> k + int i)"
  by (induction rows arbitrary: k) (auto split: option.splits)

lemma scan_column_A:
  "scan_rows (column_A rows) sid 0 = (case first_match rows sid of None \<Rightarrow> - 1 | Some i \<Rightarrow> int i)"
  by (simp add: column_A_def scan_rows_drop_trailing scan_rows_cells split: option.splits)

lemma first_match_Some:
  "first_match rows sid = Some i \<Longrightarrow>
     i < length rows \<and> cell_A (rows ! i) = sid \<and> sid \<noteq> [] \<and> (\<forall>j<i. cell_A (rows ! j) \<noteq> sid)"
proof (induction rows arbitrary: i)
  case Nil
  then show ?case by simp
next
  case (Cons r rs)
  show ?case
  proof (cases "cell_A r \<noteq> [] \<and> cell_A r = sid")
    case True
    with Cons.prems show ?thesis by auto
  next
    case False
    with Cons.prems obtain k where k: "first_match rs sid = Some k" "i = Suc k" by auto
    from Cons.IH[OF k(1)] False k(2) show ?thesis by (auto simp: less_Suc_eq_0_disj)
  qed
qed

lemma first_match_None:
  "first_match rows sid = None \<Longrightarrow> \<forall>r\<in>set rows. cell_A r = [] \<or> cell_A r \<noteq> sid"
  by (induction rows) (auto split: if_splits)

lemma write_row_in_range:
  "i < length rows \<Longrightarrow> write_row i cells rows = rows[i := cells @ drop (length cells) (rows ! i)]"
  by (simp add: write_row_def Let_def)

lemma visit_no_faults:
  assumes "faults b = []" "tabs b (target sheet) = Some rows"
  shows "UpdateSubmission_sheet sub fn b sheet
           = b\<lparr>tabs := (tabs b)(target sheet \<mapsto>
                  overwrite_or_append (gs_submissionToRow sub fn) (ID sub) rows)\<rparr>"
proof (cases "first_match rows (ID sub)")
  case None
  then show ?thesis using assms
    by (simp add: UpdateSubmission_sheet_def values_get_A_def api_call_no_faults scan_column_A
        gs_appendRow_def values_append_def overwrite_or_append_def)
next
  case (Some i)
  then have "i < length rows" using first_match_Some by blast
  then show ?thesis using assms Some
    by (simp add: UpdateSubmission_sheet_def values_get_A_def api_call_no_faults scan_column_A
        values_update_def overwrite_or_append_def write_row_in_range)
qed

lemma visit_missing_tab:
  assumes "faults b = []" "tabs b (target sheet) = None"
  shows "UpdateSubmission_sheet sub fn b sheet = b"
  using assms by (simp add: UpdateSubmission_sheet_def values_get_A_def api_call_no_faults)

lemma values_append_effect:
  "(fst (values_append be t cells) = False \<and> tabs (snd (values_append be t cells)) = tabs be) \<or>
   (fst (values_append be t cells) = True \<and>
      (\<exists>rows. tabs be t = Some rows \<and>
         tabs (snd (values_append be t cells)) = (tabs be)(t \<mapsto> rows @ [cells])))"
  by (rule api_call_cases[of be t]) (simp_all add: values_append_def)

lemma visit_effect:
  "tabs (UpdateSubmission_sheet sub fn b sheet) = tabs b \<or>
   (\<exists>rows. tabs b (target sheet) = Some rows \<and>
      tabs (UpdateSubmission_sheet sub fn b sheet)
        = (tabs b)(target sheet \<mapsto>
             overwrite_or_append (gs_submissionToRow sub fn) (ID sub) rows))"
proof (cases rule: api_call_cases[of b "target sheet"])
  case (fail be1)
  then show ?thesis by (simp add: UpdateSubmission_sheet_def values_get_A_def)
next
  case (ok rows be1)
  show ?thesis
  proof (cases "first_match rows (ID sub)")
    case None
    then have v: "UpdateSubmission_sheet sub fn b sheet
                   = snd (values_append be1 (target sheet) (gs_submissionToRow sub fn))"
      using ok(1) by (simp add: UpdateSubmission_sheet_def values_get_A_def scan_column_A gs_appendRow_def)
    show ?thesis
      using values_append_effect[of be1 "target sheet" "gs_submissionToRow sub fn"] ok(2,3) None
      unfolding v by (auto simp: overwrite_or_append_def)
  next
    case (Some i)
    then have i: "i < length rows" using first_match_Some by blast
    have v: "UpdateSubmission_sheet sub fn b sheet
               = snd (values_update be1 (target sheet) (int i + 1) (gs_submissionToRow sub fn))"
      using ok(1) Some by (simp add: UpdateSubmission_sheet_def values_get_A_def scan_column_A)
    show ?thesis
      using values_update_effect[of "int i + 1" be1 "target sheet" "gs_submissionToRow sub fn"]
        ok(2,3) Some i
      unfolding v by (auto simp: overwrite_or_append_def write_row_in_range)
  qed
qed

lemma foldl_targets:
  assumes step: "\<And>b s. faults b = [] \<Longrightarrow>
      faults (step b s) = [] \<and> tabs (step b s) = (tabs b)(target s := map_option g (tabs b (target s)))"
    and "faults be = []" "distinct (map target sh)"
  shows "faults (foldl step be sh) = [] \<and>
         (\<forall>t. tabs (foldl step be sh) t
                = (if t \<in> target ` set sh then map_option g (tabs be t) else tabs be t))"
  using assms(2,3)
proof (induction sh arbitrary: be)
  case Nil
  then show ?case by simp
next
  case (Cons s rest)
  have s: "faults (step be s) = []"
    "tabs (step be s) = (tabs be)(target s := map_option g (tabs be (target s)))"
    using step[OF Cons.prems(1)] by simp_all
  have d: "distinct (map target rest)" "target s \<notin> target ` set rest"
    using Cons.prems(2) by auto
  from Cons.IH[OF s(1) d(1)] s(2) d(2) show ?case by auto
qed

lemma visit_step:
  assumes "faults b = []"
  shows "faults (UpdateSubmission_sheet sub fn b s) = [] \<and>
         tabs (UpdateSubmission_sheet sub fn b s)
           = (tabs b)(target s := map_option (overwrite_or_append (gs_submissionToRow sub fn) (ID sub))
                                     (tabs b (target s)))"
proof (cases "tabs b (target s)")
  case None
  then show ?thesis using assms visit_missing_tab[OF assms None] by auto
next
  case (Some rows)
  then show ?thesis using assms visit_no_faults[OF assms Some] by auto
qed

lemma append_step:
  assumes "faults b = []"
  shows "faults (snd (values_append b (target s) row)) = [] \<and>
         tabs (snd (values_append b (target s) row))
           = (tabs b)(target s := map_option (\<lambda>rows. rows @ [row]) (tabs b (target s)))"
  using assms by (cases "tabs b (target s)") (auto simp: values_append_def api_call_no_faults)

lemma cell_A_row: "cell_A (gs_submissionToRow sub fn) = ID sub"
  by (simp add: gs_submissionToRow_def cell_A_def)

lemma first_match_append_fresh:
  "\<forall>r\<in>set rows. cell_A r \<noteq> sid \<Longrightarrow> sid \<noteq> [] \<Longrightarrow> cell_A new = sid \<Longrightarrow>
     first_match (rows @ [new]) sid = Some (length rows)"
  by (induction rows) auto

lemma overwrite_appended:
  assumes "\<forall>r\<in>set rows. cell_A r \<noteq> sid" "sid \<noteq> []" "cell_A new = sid"
  shows "overwrite_or_append new sid (rows @ [new]) = rows @ [new]"
  using first_match_append_fresh[OF assms] by (simp add: overwrite_or_append_def)

lemma length_row: "length (gs_submissionToRow sub fn) = 39"
  by (simp add: gs_submissionToRow_def)

lemma fetch_data_sheet: "gs_fetchSheets [Doc data_sheet] = Inr [data_sheet]"
  by (simp add: gs_fetchSheets_def)

lemma target_data_sheet: "target data_sheet = data_tab"
  by (simp add: target_def data_sheet_def data_tab_def)

lemma ID_bare: "ID bare_submission = ''s-1''"
  by (simp add: bare_submission_def)

lemma foldl_targets_at:
  assumes "\<And>b s. faults b = [] \<Longrightarrow>
      faults (step b s) = [] \<and> tabs (step b s) = (tabs b)(target s := map_option g (tabs b (target s)))"
    and "faults be = []" "distinct (map target sh)"
  shows "faults (foldl step be sh) = []"
    and "tabs (foldl step be sh) t
           = (if t \<in> target ` set sh then map_option g (tabs be t) else tabs be t)"
  using foldl_targets[of step g be sh] assms by blast+

lemma AppendSubmission_tabs:
  assumes "faults be = []" "gs_fetchSheets docs = Inr sh" "distinct (map target sh)"
  shows "faults (snd (gs_AppendSubmission docs sub fn be)) = []"
    and "tabs (snd (gs_AppendSubmission docs sub fn be)) t
               = (if t \<in> target ` set sh
                  then map_option (\<lambda>rows. rows @ [gs_submissionToRow sub fn]) (tabs be t)
                  else tabs be t)"
  using foldl_targets_at[of "\<lambda>b sheet. snd (values_append b (target sheet) (gs_submissionToRow sub fn))"
      "\<lambda>rows. rows @ [gs_submissionToRow sub fn]" be sh] append_step assms
  by (simp_all add: gs_AppendSubmission_def Let_def)

lemma UpdateSubmission_tabs:
  assumes "faults be = []" "gs_fetchSheets docs = Inr sh" "distinct (map target sh)"
  shows "tabs (snd (gs_UpdateSubmission docs sub fn be)) t
               = (if t \<in> target ` set sh
                  then map_option (overwrite_or_append (gs_submissionToRow sub fn) (ID sub)) (tabs be t)
                  else tabs be t)"
  using foldl_targets_at(2)[of "UpdateSubmission_sheet sub fn"
        "overwrite_or_append (gs_submissionToRow sub fn) (ID sub)" be sh] visit_step assms
  by (simp add: gs_UpdateSubmission_def)

lemmas sync_eval =
  gs_AppendSubmission_def gs_UpdateSubmission_def UpdateSubmission_sheet_def gs_appendRow_def
  gs_fetchSheets_def values_append_def values_update_def values_get_A_def api_call_def
  column_A_def drop_trailing_def write_row_def rows_with_id_def append_then_update_def
  target_data_sheet cell_A_row length_row ID_bare Let_def

lemma cell_A_headers0: "cell_A headers = ''ID''"
  by (simp add: cell_A_def headers_def)

lemma cell_A_Cons: "cell_A (c # cs) = c"
  by (simp add: cell_A_def)

lemma cell_A_row_app: "cell_A (gs_submissionToRow sub fn @ xs) = ID sub"
  by (simp add: gs_submissionToRow_def cell_A_def)

lemmas header_eval =
  gs_ensureHeaders_def values_get_A1_def values_update_def api_call_def column_A_def
  drop_trailing_def write_row_def a1_def cell_A_Cons

section \<open>Properties of the store calls and of the update list\<close>

lemma db_call_ok: "db_faults st = [] \<Longrightarrow> db_call st = (False, st)"
  by (simp add: db_call_def)

lemma db_call_Submissions: "Submissions (snd (db_call st)) = Submissions st"
  by (simp add: db_call_def split: list.splits)

lemma db_call_Fields: "Fields (snd (db_call st)) = Fields st"
  by (simp add: db_call_def split: list.splits)

lemma db_call_upd:
  "db_call (st\<lparr>Submissions := X\<rparr>) = (fst (db_call st), (snd (db_call st))\<lparr>Submissions := X\<rparr>)"
  by (simp add: db_call_def split: list.splits)

lemma succeed_Suc: "succeed (Suc n) st \<longleftrightarrow> \<not> fst (db_call st) \<and> succeed n (snd (db_call st))"
  by (cases "db_faults st") (auto simp: succeed_def db_call_def)

lemma succeed_Suc_0: "succeed (Suc 0) st \<longleftrightarrow> \<not> fst (db_call st)"
  using succeed_Suc[of 0 st] by (simp add: succeed_def)

lemma succeed_2:
  "succeed 2 st \<longleftrightarrow> \<not> fst (db_call st) \<and> \<not> fst (db_call (snd (db_call st)))"
  using succeed_Suc[of "Suc 0" st] by (simp add: numeral_2_eq_2 succeed_Suc_0)

lemma succeed_3:
  "succeed 3 st \<longleftrightarrow> \<not> fst (db_call st) \<and> \<not> fst (db_call (snd (db_call st))) \<and>
                     \<not> fst (db_call (snd (db_call (snd (db_call st)))))"
  using succeed_Suc[of "Suc (Suc 0)" st] succeed_Suc[of "Suc 0" "snd (db_call st)"]
  by (simp add: numeral_3_eq_3 succeed_Suc_0)

lemma zone_UTC: "zone (UTC t) = None"
  by (cases "zone t") (simp_all add: UTC_def split: prod.splits)

lemma nsec_UTC: "nsec (UTC t) = nsec t"
  by (cases "zone t") (simp_all add: UTC_def split: prod.splits)

lemma UTC_idem: "zone t = None \<Longrightarrow> UTC t = t"
  by (simp add: UTC_def)

lemma fs_time_idem: "fs_time (fs_time t) = fs_time t"
proof -
  define u where "u = fs_time t"
  have "nsec u = nsec t - nsec t mod 1000" by (simp add: u_def fs_time_def nsec_UTC)
  then have "nsec u = nsec t div 1000 * 1000" by (simp only: minus_mod_eq_div_mult)
  then have n: "nsec u mod 1000 = 0" by simp
  have z: "zone u = None" by (simp add: u_def fs_time_def zone_UTC)
  have "fs_time u = UTC (u\<lparr>nsec := nsec u - nsec u mod 1000\<rparr>)" by (rule fs_time_def)
  also have "u\<lparr>nsec := nsec u - nsec u mod 1000\<rparr> = u" using n by simp
  also have "UTC u = u" using z by (rule UTC_idem)
  finally show ?thesis unfolding u_def .
qed

lemma populateMap_nil: "populateMap pm None = pm"
  by (cases pm) (simp_all add: populateMap_def entries_def)

lemma stored_idem: "stored (stored s) = stored s"
  by (simp add: stored_def fs_time_idem)

lemma DataTo_zero: "DataTo d zero_Submission = stored d"
  by (simp add: DataTo_def stored_def zero_Submission_def no_conditions_def populateMap_nil)

lemma stored_fields:
  "ID (stored d) = ID d" "UserID (stored d) = UserID d" "FieldID (stored d) = FieldID d"
  "OtherFieldName (stored d) = OtherFieldName d" "GrowthStage (stored d) = GrowthStage d"
  "ObserverName (stored d) = ObserverName d" "Status (stored d) = Status d"
  "Notes (stored d) = Notes d" "PlantConditions (stored d) = PlantConditions d"
  "Date (stored d) = fs_time (Date d)" "CreatedAt (stored d) = fs_time (CreatedAt d)"
  "UpdatedAt (stored d) = fs_time (UpdatedAt d)"
  by (simp_all add: stored_def)

lemma DataTo_fields:
  "ID (DataTo d v) = ID d" "UserID (DataTo d v) = UserID d" "FieldID (DataTo d v) = FieldID d"
  "OtherFieldName (DataTo d v) = OtherFieldName d" "GrowthStage (DataTo d v) = GrowthStage d"
  "ObserverName (DataTo d v) = ObserverName d" "Status (DataTo d v) = Status d"
  "Notes (DataTo d v) = Notes d" "Coordinates (DataTo d v) = Coordinates d"
  "TraitMeasurements (DataTo d v) = TraitMeasurements d"
  "Images (DataTo d v) = Images d" "Videos (DataTo d v) = Videos d" "Audio (DataTo d v) = Audio d"
  "Date (DataTo d v) = fs_time (Date d)" "CreatedAt (DataTo d v) = fs_time (CreatedAt d)"
  "UpdatedAt (DataTo d v) = fs_time (UpdatedAt d)"
  by (simp_all add: DataTo_def)

lemma length_hex_digits: "length (hex_digits u) = 32"
  by (simp add: hex_digits_def)

lemma length_GenerateID: "length (GenerateID u) = 36"
  by (simp add: GenerateID_def Let_def length_hex_digits)

lemma seg_date:
  "foldl apply_update s (case d of None \<Rightarrow> [] | Some v \<Rightarrow> [(''date'', VTime v)])
     = s\<lparr>Date := (case d of None \<Rightarrow> Date s | Some v \<Rightarrow> fs_time v)\<rparr>"
  by (cases d) simp_all

lemma seg_growth_stage:
  "foldl apply_update s (case d of None \<Rightarrow> [] | Some v \<Rightarrow> [(''growth_stage'', VString v)])
     = s\<lparr>GrowthStage := (case d of None \<Rightarrow> GrowthStage s | Some v \<Rightarrow> v)\<rparr>"
  by (cases d) simp_all

lemma seg_plant_conditions:
  "foldl apply_update s (case d of None \<Rightarrow> [] | Some v \<Rightarrow> [(''plant_conditions'', VPlantConditions v)])
     = s\<lparr>PlantConditions := (case d of None \<Rightarrow> PlantConditions s | Some v \<Rightarrow> v)\<rparr>"
  by (cases d) simp_all

lemma seg_trait_measurements:
  "foldl apply_update s (case d of None \<Rightarrow> [] | Some v \<Rightarrow> [(''trait_measurements'', VTraitMeasurements v)])
     = s\<lparr>TraitMeasurements := (case d of None \<Rightarrow> TraitMeasurements s | Some v \<Rightarrow> v)\<rparr>"
  by (cases d) simp_all

lemma seg_coordinates:
  "foldl apply_update s (case d of None \<Rightarrow> [] | Some v \<Rightarrow> [(''coordinates'', VLocation v)])
     = s\<lparr>Coordinates := (case d of None \<Rightarrow> Coordinates s | Some v \<Rightarrow> v)\<rparr>"
  by (cases d) simp_all

lemma seg_notes:
  "foldl apply_update s (case d of None \<Rightarrow> [] | Some v \<Rightarrow> [(''notes'', VString v)])
     = s\<lparr>Notes := (case d of None \<Rightarrow> Notes s | Some v \<Rightarrow> v)\<rparr>"
  by (cases d) simp_all

lemma seg_images:
  "foldl apply_update s (case d of None \<Rightarrow> [] | Some v \<Rightarrow> [(''images'', VStrings v)])
     = s\<lparr>Images := (case d of None \<Rightarrow> Images s | Some v \<Rightarrow> v)\<rparr>"
  by (cases d) simp_all

lemma seg_videos:
  "foldl apply_update s (case d of None \<Rightarrow> [] | Some v \<Rightarrow> [(''videos'', VStrings v)])
     = s\<lparr>Videos := (case d of None \<Rightarrow> Videos s | Some v \<Rightarrow> v)\<rparr>"
  by (cases d) simp_all

lemma seg_audio:
  "foldl apply_update s (case d of None \<Rightarrow> [] | Some v \<Rightarrow> [(''audio'', VStrings v)])
     = s\<lparr>Audio := (case d of None \<Rightarrow> Audio s | Some v \<Rightarrow> v)\<rparr>"
  by (cases d) simp_all

lemma seg_status:
  "foldl apply_update s (case d of None \<Rightarrow> [] | Some v \<Rightarrow> [(''status'', VString v)])
     = s\<lparr>Status := (case d of None \<Rightarrow> Status s | Some v \<Rightarrow> v)\<rparr>"
  by (cases d) simp_all

lemma seg_field:
  "foldl apply_update s
     (case ofn of
        Some v \<Rightarrow> [(''other_field_name'', VString v), (''field_id'', VString ''others'')]
      | None \<Rightarrow> (case f of None \<Rightarrow> [] | Some v \<Rightarrow> [(''field_id'', VString v)]))
   = s\<lparr>OtherFieldName := (case ofn of None \<Rightarrow> OtherFieldName s | Some v \<Rightarrow> v),
        FieldID := (case ofn of Some v \<Rightarrow> ''others''
                    | None \<Rightarrow> (case f of None \<Rightarrow> FieldID s | Some v \<Rightarrow> v))\<rparr>"
  by (cases ofn; cases f) simp_all

lemmas segs = seg_date seg_growth_stage seg_plant_conditions seg_trait_measurements
  seg_coordinates seg_notes seg_images seg_videos seg_audio seg_status seg_field

lemma apply_build_updates:
  "foldl apply_update s (build_updates req now) = updated s req now"
  unfolding build_updates_def foldl_append segs updated_def
  by (simp cong: option.case_cong)

lemma get_submission_ok:
  "\<not> fst (db_call st) \<Longrightarrow> get_submission st sid = (Submissions st sid, snd (db_call st))"
proof -
  obtain f st' where c: "db_call st = (f, st')" by fastforce
  assume "\<not> fst (db_call st)"
  then have "\<not> f" using c by simp
  moreover have "Submissions st' = Submissions st" using db_call_Submissions[of st] c by simp
  ultimately show ?thesis using c by (simp add: get_submission_def)
qed

lemma get_submission_failed:
  "fst (db_call st) \<Longrightarrow> get_submission st sid = (None, snd (db_call st))"
  by (cases "db_call st") (simp add: get_submission_def)

lemma get_field_ok:
  "\<not> fst (db_call st) \<Longrightarrow> get_field st fid = (Fields st fid, snd (db_call st))"
proof -
  obtain f st' where c: "db_call st = (f, st')" by fastforce
  assume "\<not> fst (db_call st)"
  then have "\<not> f" using c by simp
  moreover have "Fields st' = Fields st" using db_call_Fields[of st] c by simp
  ultimately show ?thesis using c by (simp add: get_field_def)
qed

lemma get_field_snd: "snd (get_field st fid) = snd (db_call st)"
  by (cases "db_call st") (simp add: get_field_def)

lemma set_submission_ok:
  "\<not> fst (db_call st) \<Longrightarrow>
     set_submission st sid s
       = (True, (snd (db_call st))\<lparr>Submissions := (Submissions st)(sid \<mapsto> stored s)\<rparr>)"
proof -
  obtain f st' where c: "db_call st = (f, st')" by fastforce
  assume "\<not> fst (db_call st)"
  then have "\<not> f" using c by simp
  moreover have "Submissions st' = Submissions st" using db_call_Submissions[of st] c by simp
  ultimately show ?thesis using c by (simp add: set_submission_def)
qed

lemma update_submission_ok:
  "\<not> fst (db_call st) \<Longrightarrow> Submissions st sid = Some s \<Longrightarrow>
     update_submission st sid ups
       = (True, (snd (db_call st))\<lparr>Submissions :=
                   (Submissions st)(sid \<mapsto> foldl apply_update s ups)\<rparr>)"
proof -
  obtain f st' where c: "db_call st = (f, st')" by fastforce
  assume "\<not> fst (db_call st)" and s: "Submissions st sid = Some s"
  then have "\<not> f" using c by simp
  moreover have "Submissions st' = Submissions st" using db_call_Submissions[of st] c by simp
  ultimately show ?thesis using c s by (simp add: update_submission_def)
qed

lemma resolve_fieldName_store:
  "Submissions (snd (resolve_fieldName st x)) = Submissions st"
  "Fields (snd (resolve_fieldName st x)) = Fields st"
proof -
  have "snd (resolve_fieldName st x) = st \<or> snd (resolve_fieldName st x) = snd (db_call st)"
    using get_field_snd[of st "FieldID x"]
    by (cases "get_field st (FieldID x)") (auto simp: resolve_fieldName_def split: option.splits)
  then show "Submissions (snd (resolve_fieldName st x)) = Submissions st"
    "Fields (snd (resolve_fieldName st x)) = Fields st"
    using db_call_Submissions[of st] db_call_Fields[of st] by auto
qed

lemma UpdateSubmission_run:
  assumes "Submissions st sid = Some s"
    and "User_Role user = ''admin'' \<or> UserID s = User_ID user"
    and "succeed 2 st"
  shows "sh_UpdateSubmission sid user (Parsed req) now st =
     (case get_submission
             ((snd (db_call (snd (db_call st))))
                \<lparr>Submissions := (Submissions st)(sid \<mapsto> updated s req now)\<rparr>) sid of
        (None, st3) \<Rightarrow>
          (error_response 500 ''internal_error'' (Text ''Failed to retrieve updated submission''),
           st3, None)
      | (Some doc2, st3) \<Rightarrow>
          (case resolve_fieldName st3 (DataTo doc2 (stored s)) of
             (fieldName, st4) \<Rightarrow>
               (\<lparr>status = 200,
                 body = SuccessResponse (SubmissionData (DataTo doc2 (stored s)))
                          ''Submission updated successfully''\<rparr>,
                st4, Some (UpdateTask (DataTo doc2 (stored s)) fieldName))))"
proof -
  define st1 where "st1 = snd (db_call st)"
  have c1: "\<not> fst (db_call st)" and c2: "\<not> fst (db_call st1)"
    using assms(3) by (simp_all add: succeed_2 st1_def)
  have s1: "Submissions st1 = Submissions st" by (simp add: st1_def db_call_Submissions)
  have g1: "get_submission st sid = (Some s, st1)"
    using get_submission_ok[OF c1, of sid] assms(1) by (simp add: st1_def)
  have u: "update_submission st1 sid (build_updates req now)
             = (True, (snd (db_call st1))\<lparr>Submissions := (Submissions st)(sid \<mapsto> updated s req now)\<rparr>)"
    using update_submission_ok[OF c2, of sid s "build_updates req now"] assms(1)
    by (simp add: s1 apply_build_updates)
  have perm: "\<not> (User_Role user \<noteq> ''admin'' \<and> UserID (stored s) \<noteq> User_ID user)"
    using assms(2) by (simp add: stored_fields)
  show ?thesis
    unfolding sh_UpdateSubmission_def bind_update_def st1_def[symmetric]
    by (simp only: json_body.case option.case g1 prod.case Let_def DataTo_zero perm if_False u
        bool.case)
qed

lemma get_submission_snd: "snd (get_submission st sid) = snd (db_call st)"
  by (cases "db_call st") (simp add: get_submission_def)

lemma UpdateSubmission_store:
  assumes "Submissions st sid = Some s"
    and "User_Role user = ''admin'' \<or> UserID s = User_ID user"
    and "succeed 2 st"
  shows "Submissions (fst (snd (sh_UpdateSubmission sid user (Parsed req) now st)))
           = (Submissions st)(sid \<mapsto> updated s req now) \<and>
         Fields (fst (snd (sh_UpdateSubmission sid user (Parsed req) now st))) = Fields st"
proof -
  define st2 where "st2 = (snd (db_call (snd (db_call st))))
                \<lparr>Submissions := (Submissions st)(sid \<mapsto> updated s req now)\<rparr>"
  have s2: "Submissions st2 = (Submissions st)(sid \<mapsto> updated s req now)"
    "Fields st2 = Fields st"
    by (simp_all add: st2_def db_call_Fields)
  obtain r st3 where g: "get_submission st2 sid = (r, st3)" by fastforce
  have st3: "st3 = snd (db_call st2)" using get_submission_snd[of st2 sid] g by simp
  have s3: "Submissions st3 = Submissions st2" "Fields st3 = Fields st2"
    by (simp_all add: st3 db_call_Submissions db_call_Fields)
  note run = UpdateSubmission_run[OF assms, of req now, folded st2_def]
  show ?thesis
  proof (cases r)
    case None
    then show ?thesis unfolding run g by (simp add: s3 s2)
  next
    case (Some doc2)
    obtain fn st4 where rf: "resolve_fieldName st3 (DataTo doc2 (stored s)) = (fn, st4)"
      by fastforce
    have "Submissions st4 = Submissions st3" "Fields st4 = Fields st3"
      using resolve_fieldName_store[of st3 "DataTo doc2 (stored s)"] rf by simp_all
    then show ?thesis unfolding run g Some by (simp add: rf s3 s2)
  qed
qed

lemma UpdateSubmission_ok:
  assumes "Submissions st sid = Some s"
    and "User_Role user = ''admin'' \<or> UserID s = User_ID user"
    and "succeed 3 st"
  shows "\<exists>st' fn. sh_UpdateSubmission sid user (Parsed req) now st
     = (\<lparr>status = 200,
         body = SuccessResponse (SubmissionData (DataTo (updated s req now) (stored s)))
                  ''Submission updated successfully''\<rparr>,
        st', Some (UpdateTask (DataTo (updated s req now) (stored s)) fn))"
proof -
  define st2 where "st2 = (snd (db_call (snd (db_call st))))
                \<lparr>Submissions := (Submissions st)(sid \<mapsto> updated s req now)\<rparr>"
  have two: "succeed 2 st" and c3: "\<not> fst (db_call st2)"
    using assms(3) by (simp_all add: succeed_3 succeed_2 st2_def db_call_upd)
  have g: "get_submission st2 sid = (Some (updated s req now), snd (db_call st2))"
    using get_submission_ok[OF c3, of sid] by (simp add: st2_def)
  note run = UpdateSubmission_run[OF assms(1,2) two, of req now, folded st2_def]
  obtain fn st4 where rf:
    "resolve_fieldName (snd (db_call st2)) (DataTo (updated s req now) (stored s)) = (fn, st4)"
    by fastforce
  show ?thesis unfolding run g by (simp add: rf)
qed

lemma UpdateSubmission_reread_fails:
  assumes "Submissions st sid = Some s"
    and "User_Role user = ''admin'' \<or> UserID s = User_ID user"
    and "succeed 2 st" "\<not> succeed 3 st"
  shows "fst (sh_UpdateSubmission sid user (Parsed req) now st)
           = error_response 500 ''internal_error'' (Text ''Failed to retrieve updated submission'')"
proof -
  define st2 where "st2 = (snd (db_call (snd (db_call st))))
                \<lparr>Submissions := (Submissions st)(sid \<mapsto> updated s req now)\<rparr>"
  have c3: "fst (db_call st2)"
    using assms(3,4) by (simp add: succeed_3 succeed_2 st2_def db_call_upd)
  note run = UpdateSubmission_run[OF assms(1,2,3), of req now, folded st2_def]
  show ?thesis unfolding run get_submission_failed[OF c3] by simp
qed

lemma sample_store_facts:
  "db_faults sample_store = []"
  "Submissions sample_store ''s-1'' = Some field_submission"
  "UserID field_submission = ''u-1''"
  "User_ID (observer uid) = uid"
  "User_Role (observer uid) = ''observer''"
  by (simp_all add: sample_store_def field_submission_def bare_submission_def observer_def)

lemma below_sixteen:
  "(k::nat) < 16 \<Longrightarrow> k \<in> {0, 1, 2, 3, 4, 5, 6, 7, 8, 9, 10, 11, 12, 13, 14, 15}"
  by simp arith

lemma hex_val_hex_digit: "hex_val (hex_digit n) = n mod 16"
proof -
  have "n mod 16 \<in> {0, 1, 2, 3, 4, 5, 6, 7, 8, 9, 10, 11, 12, 13, 14, 15}"
    by (rule below_sixteen) simp
  then show ?thesis unfolding hex_digit_def hex_val_def is_digit_def by auto
qed

lemma hex_digit_not_dash: "hex_digit n \<noteq> CHR ''-''"
proof -
  have "n mod 16 \<in> {0, 1, 2, 3, 4, 5, 6, 7, 8, 9, 10, 11, 12, 13, 14, 15}"
    by (rule below_sixteen) simp
  then show ?thesis unfolding hex_digit_def by auto
qed

lemma strip_hex_digits: "strip_dashes (hex_digits u) = hex_digits u"
  by (simp add: strip_dashes_def hex_digits_def hex_digit_not_dash)

lemma filter_take_id: "filter P xs = xs \<Longrightarrow> filter P (take n xs) = take n xs"
  by (metis filter_id_conv in_set_takeD)

lemma filter_drop_id: "filter P xs = xs \<Longrightarrow> filter P (drop n xs) = drop n xs"
  by (metis filter_id_conv in_set_dropD)

lemma regroup:
  "take 8 h @ take 4 (drop 8 h) @ take 4 (drop 12 h) @ take 4 (drop 16 h) @ drop 20 h = h"
proof -
  have "take 4 (drop 16 h) @ drop 20 h = drop 16 h"
    using append_take_drop_id[of 4 "drop 16 h"] by simp
  moreover have "take 4 (drop 12 h) @ drop 16 h = drop 12 h"
    using append_take_drop_id[of 4 "drop 12 h"] by simp
  moreover have "take 4 (drop 8 h) @ drop 12 h = drop 8 h"
    using append_take_drop_id[of 4 "drop 8 h"] by simp
  ultimately show ?thesis by simp
qed

lemma strip_GenerateID: "strip_dashes (GenerateID u) = hex_digits u"
proof -
  define h where "h = hex_digits u"
  have f: "filter (\<lambda>c. c \<noteq> CHR ''-'') h = h"
    using strip_hex_digits[of u] by (simp add: strip_dashes_def h_def)
  have "strip_dashes (GenerateID u)
      = take 8 h @ take 4 (drop 8 h) @ take 4 (drop 12 h) @ take 4 (drop 16 h) @ drop 20 h"
    unfolding GenerateID_def Let_def strip_dashes_def h_def[symmetric]
    by (simp add: filter_take_id[OF f] filter_drop_id[OF f] filter_take_id[OF filter_drop_id[OF f]])
  then show ?thesis using regroup[of h] by (simp add: h_def)
qed

lemma nibble_bit:
  "bit (unat (drop_bit (4 * k) (u :: 128 word)) mod 16) j \<longleftrightarrow> j < 4 \<and> bit u (4 * k + j)"
proof -
  have "unat (drop_bit (4 * k) u) mod 16 = take_bit 4 (unat (drop_bit (4 * k) u))"
    by (simp add: take_bit_eq_mod)
  then show ?thesis
    by (simp add: bit_take_bit_iff bit_unsigned_iff bit_drop_bit_eq)
qed

lemma hex_digits_inj:
  assumes "hex_digits u = hex_digits v"
  shows "u = v"
proof (rule bit_word_eqI)
  fix n assume n: "n < LENGTH(128)"
  define k where "k = n div 4"
  define j where "j = n mod 4"
  have k: "k < 32" and j: "j < 4" and nk: "n = 4 * k + j"
    using n by (simp_all add: k_def j_def)
  define i where "i = 31 - k"
  have i: "i < 32" "31 - i = k" using k by (simp_all add: i_def)
  have "hex_digits u ! i = hex_digits v ! i" using assms by simp
  then have "hex_digit (unat (drop_bit (4 * k) u) mod 16) = hex_digit (unat (drop_bit (4 * k) v) mod 16)"
    using i by (simp add: hex_digits_def)
  then have "unat (drop_bit (4 * k) u) mod 16 = unat (drop_bit (4 * k) v) mod 16"
    by (metis hex_val_hex_digit mod_mod_trivial)
  then have "bit (unat (drop_bit (4 * k) u) mod 16) j = bit (unat (drop_bit (4 * k) v) mod 16) j"
    by simp
  then show "bit u n = bit v n"
    using j nk by (simp add: nibble_bit)
qed

lemma GenerateID_inj: "GenerateID u = GenerateID v \<Longrightarrow> u = v"
  by (metis hex_digits_inj strip_GenerateID)

lemma CreateSubmission_rejects:
  assumes "req_Date req = zero_time \<or> req_GrowthStage req = [] \<or> req_ObserverName req = []"
  shows "sh_CreateSubmission (Parsed req) user u now1 now2 st
           = (error_response 400 ''invalid_request'' BinderText, st, None)"
  using assms by (auto simp: sh_CreateSubmission_def bind_create_def)

lemma CreateSubmission_run:
  assumes "req_Date req \<noteq> zero_time" "req_GrowthStage req \<noteq> []" "req_ObserverName req \<noteq> []"
    and "succeed 1 st"
  shows "sh_CreateSubmission (Parsed req) user u now1 now2 st
     = (\<lparr>status = 201,
         body = SuccessResponse (SubmissionData (created req user u now1 now2))
                  ''Submission created successfully''\<rparr>,
        snd (resolve_fieldName
               ((snd (db_call st))\<lparr>Submissions :=
                   (Submissions st)(GenerateID u \<mapsto> stored (created req user u now1 now2))\<rparr>)
               (created req user u now1 now2)),
        Some (AppendTask (created req user u now1 now2)
                (fst (resolve_fieldName
                   ((snd (db_call st))\<lparr>Submissions :=
                       (Submissions st)(GenerateID u \<mapsto> stored (created req user u now1 now2))\<rparr>)
                   (created req user u now1 now2)))))"
proof -
  define c where "c = created req user u now1 now2"
  define st1 where "st1 = (snd (db_call st))\<lparr>Submissions := (Submissions st)(GenerateID u \<mapsto> stored c)\<rparr>"
  have b: "bind_create (Parsed req) = Some req"
    using assms(1-3) by (simp add: bind_create_def)
  have idc: "ID c = GenerateID u" by (simp add: c_def created_def)
  have c1: "\<not> fst (db_call st)" using assms(4) by (simp add: succeed_Suc_0)
  have w: "set_submission st (ID c) c = (True, st1)"
    using set_submission_ok[OF c1, of "ID c" c] by (simp add: st1_def idc)
  have "sh_CreateSubmission (Parsed req) user u now1 now2 st
     = (\<lparr>status = 201,
         body = SuccessResponse (SubmissionData c) ''Submission created successfully''\<rparr>,
        snd (resolve_fieldName st1 c), Some (AppendTask c (fst (resolve_fieldName st1 c))))"
    unfolding sh_CreateSubmission_def b option.case Let_def created_def[symmetric] c_def[symmetric]
    by (simp only: w prod.case bool.case) (simp only: case_prod_beta)
  then show ?thesis unfolding st1_def c_def .
qed

lemma GetSubmission_ok:
  assumes "Submissions st sid = Some d"
    and "User_Role user = ''admin'' \<or> UserID d = User_ID user"
    and "succeed 1 st"
    and "FieldID d = [] \<or> FieldID d = ''others'' \<or> (Fields st (FieldID d) \<noteq> None \<and> succeed 2 st)"
  shows "\<exists>field st'. sh_GetSubmission sid user st
           = (\<lparr>status = 200,
               body = SuccessResponse (SubmissionResponseData (to_response (stored d) field)) []\<rparr>,
              st') \<and> Submissions st' = Submissions st"
proof -
  define st1 where "st1 = snd (db_call st)"
  have c1: "\<not> fst (db_call st)" using assms(3) by (simp add: succeed_Suc_0)
  have g: "get_submission st sid = (Some d, st1)"
    using get_submission_ok[OF c1, of sid] assms(1) by (simp add: st1_def)
  have s1: "Submissions st1 = Submissions st" "Fields st1 = Fields st"
    by (simp_all add: st1_def db_call_Submissions db_call_Fields)
  have perm: "\<not> (User_Role user \<noteq> ''admin'' \<and> UserID (stored d) \<noteq> User_ID user)"
    using assms(2) by (simp add: stored_fields)
  show ?thesis
  proof (cases "FieldID d \<noteq> ''others'' \<and> FieldID d \<noteq> []")
    case True
    then have fc: "FieldID (stored d) \<noteq> ''others'' \<and> FieldID (stored d) \<noteq> []"
      by (simp add: stored_fields)
    from True assms(4) obtain field where fl: "Fields st (FieldID d) = Some field"
      and two: "succeed 2 st" by auto
    have c2: "\<not> fst (db_call st1)" using two by (simp add: succeed_2 st1_def)
    have gf: "get_field st1 (FieldID (stored d)) = (Some field, snd (db_call st1))"
      using get_field_ok[OF c2, of "FieldID d"] fl by (simp add: s1 stored_fields)
    have "sh_GetSubmission sid user st
           = (\<lparr>status = 200,
               body = SuccessResponse
                        (SubmissionResponseData (to_response (stored d) (Some (DataTo_Field field)))) []\<rparr>,
              snd (db_call st1))"
      unfolding sh_GetSubmission_def
      by (simp only: g prod.case option.case Let_def DataTo_zero perm fc if_False if_True gf simp_thms)
    moreover have "Submissions (snd (db_call st1)) = Submissions st"
      by (simp add: db_call_Submissions s1)
    ultimately show ?thesis by blast
  next
    case False
    then have fc: "\<not> (FieldID (stored d) \<noteq> ''others'' \<and> FieldID (stored d) \<noteq> [])"
      by (simp add: stored_fields)
    have "sh_GetSubmission sid user st
           = (\<lparr>status = 200,
               body = SuccessResponse (SubmissionResponseData
                 (to_response (stored d)
                    (if OtherFieldName (stored d) \<noteq> []
                     then Some (others_field (OtherFieldName (stored d))) else None))) []\<rparr>, st1)"
      unfolding sh_GetSubmission_def
      by (simp only: g prod.case option.case Let_def DataTo_zero perm fc if_False)
    then show ?thesis using s1 by blast
  qed
qed

lemma leaf_valid: "ValidateMediaType ''leaf.jpg'' ''image''"
  by (simp add: ValidateMediaType_def IsImageFile_def checkExtension_def ToLower_def lower_def Ext_def)

lemma filter_segment:
  "p \<noteq> q \<Longrightarrow> filter (\<lambda>u. fst u = q) (case d of None \<Rightarrow> [] | Some v \<Rightarrow> [(p, f v)]) = []"
  by (cases d) simp_all

lemma field_id_updates:
  "filter (\<lambda>u. fst u = ''field_id'') (build_updates req now)
     = (case upd_OtherFieldName req of
          Some name \<Rightarrow> [(''field_id'', VString ''others'')]
        | None \<Rightarrow> (case upd_FieldID req of None \<Rightarrow> [] | Some v \<Rightarrow> [(''field_id'', VString v)]))"
  unfolding build_updates_def filter_append
  by (simp add: filter_segment split: option.splits)

lemmas store_eval =
  get_submission_def update_submission_def delete_submission_def set_submission_def db_call_def
  error_response_def not_found_def forbidden_def bind_update_def

lemmas time_eval =
  fs_time_def UTC_def Unix_def days_from_civil_def civil_from_days_def era_def day_of_era_def
  year_of_era_def day_of_year_def month_point_def civil_month_def zone_offset_def Let_def

lemma db_call_faults: "db_faults (snd (db_call st)) = drop 1 (db_faults st)"
  by (cases "db_faults st") (simp_all add: db_call_def)

lemma resolve_fieldName_faults:
  "db_faults (snd (resolve_fieldName st x))
     = drop (if FieldID x \<noteq> [] \<and> FieldID x \<noteq> ''others'' then 1 else 0) (db_faults st)"
proof (cases "FieldID x \<noteq> [] \<and> FieldID x \<noteq> ''others''")
  case True
  then have "snd (resolve_fieldName st x) = snd (db_call st)"
    using get_field_snd[of st "FieldID x"]
    by (cases "get_field st (FieldID x)") (auto simp: resolve_fieldName_def split: option.splits)
  then show ?thesis using True by (simp add: db_call_faults)
next
  case False
  then show ?thesis by (auto simp: resolve_fieldName_def)
qed

lemma night_stored:
  "fs_time night = \<lparr>year = 2024, month = 2, day = 29, hour = 23, minute = 30, second = 5,
                     nsec = 123456000, zone = None\<rparr>"
  by (simp add: night_def time_eval)

lemma march_first_stored: "fs_time march_first = march_first"
  by (simp add: march_first_def fs_time_def UTC_def)


section \<open>The row codec: width and column order\<close>

text \<open>
  C1 (as the code has it). The row codec returns 39 cells for every submission and field
  name, each header of the published row paired with the cell of that column, and the
  CSV export writes the same 39 headers.
\<close>

theorem submissionToRow_columns:
  "length (gs_submissionToRow s fieldName) = 39 \<and>
   length headers = 39 \<and> distinct headers \<and> export_header = headers \<and>
   zip headers (gs_submissionToRow s fieldName) =
    [ (''ID'', ID s),
      (''UserID'', UserID s),
      (''FieldID'', FieldID s),
      (''FieldName'', fieldName),
      (''Date'', Format_RFC3339 (Date s)),
      (''GrowthStage'', GrowthStage s),
      (''Notes'', Notes s),
      (''ObserverName'', ObserverName s),
      (''Status'', Status s),
      (''CreatedAt'', Format_RFC3339 (CreatedAt s)),
      (''UpdatedAt'', Format_RFC3339 (UpdatedAt s)),
      (''Latitude'', fmt_f (Latitude (Coordinates s))),
      (''Longitude'', fmt_f (Longitude (Coordinates s))),
      (''CulmLength'', fmt_f (CulmLength (TraitMeasurements s))),
      (''PanicleLength'', fmt_f (PanicleLength (TraitMeasurements s))),
      (''PaniclesPerHill'', fmt_d (PaniclesPerHill (TraitMeasurements s))),
      (''HillsObserved'', fmt_d (HillsObserved (TraitMeasurements s))),
      (''Healthy'', fmt_t (Healthy (PlantConditions s))),
      (''Unhealthy'', fmt_t (Unhealthy (PlantConditions s))),
      (''SignsOfPestInfestation'', fmt_t (SignsOfPestInfestation (PlantConditions s))),
      (''PestDetails'', mapToString (PestDetails (PlantConditions s))),
      (''OtherPest'', OtherPest (PlantConditions s)),
      (''SignsOfNutrientDeficiency'', fmt_t (SignsOfNutrientDeficiency (PlantConditions s))),
      (''NutrientDeficiencyDetails'', mapToString (NutrientDeficiencyDetails (PlantConditions s))),
      (''OtherNutrient'', OtherNutrient (PlantConditions s)),
      (''WaterStress'', fmt_t (WaterStress (PlantConditions s))),
      (''WaterStressLevel'', WaterStressLevel (PlantConditions s)),
      (''Lodging'', fmt_t (Lodging (PlantConditions s))),
      (''LodgingLevel'', LodgingLevel (PlantConditions s)),
      (''WeedInfestation'', fmt_t (WeedInfestation (PlantConditions s))),
      (''WeedInfestationLevel'', WeedInfestationLevel (PlantConditions s)),
      (''DiseaseSymptoms'', fmt_t (DiseaseSymptoms (PlantConditions s))),
      (''DiseaseDetails'', mapToString (DiseaseDetails (PlantConditions s))),
      (''OtherDisease'', OtherDisease (PlantConditions s)),
      (''Other'', fmt_t (Other (PlantConditions s))),
      (''OtherConditionText'', OtherConditionText (PlantConditions s)),
      (''Images'', Join (Images s) '',''),
      (''Videos'', Join (Videos s) '',''),
      (''Audio'', Join (Audio s) '','') ]"
  by (simp add: gs_submissionToRow_def headers_def export_header_def)

text \<open>
  C1 (as stated) fails: the row of the test submission does not have 37 cells.
\<close>

theorem submissionToRow_not_37:
  "length (gs_submissionToRow bare_submission ''Plot A'') \<noteq> 37"
  by (simp add: gs_submissionToRow_def)

section \<open>UpdateSubmission of the sync engine\<close>

text \<open>
  C2. Once the registrations are fetched, \<^verbatim>\<open>UpdateSubmission\<close> visits every registered
  sheet in turn and returns without error, whatever the calls to the spreadsheet do.
  On one sheet, when the calls go through: the response to the read of column A is
  scanned for the first row whose cell is the identifier; if there is none (every row
  has another or an empty cell in column A) the encoded row becomes a new last row; if
  row \<open>i\<close> is the first one, the cells of row \<open>i\<close> are overwritten in place by the
  encoded row and no other row changes. A call that fails leaves the tab as it was.
  With no failing call and every tab registered once, this is the final state of each
  registered tab, and no other tab changes.
\<close>

theorem UpdateSubmission_overwrites_or_appends:
  "(gs_fetchSheets docs = Inr sh \<longrightarrow>
      gs_UpdateSubmission docs sub fn be
        = (None, foldl (UpdateSubmission_sheet sub fn) be sh)) \<and>
   (\<forall>b sheet rows. faults b = [] \<and> tabs b (target sheet) = Some rows \<longrightarrow>
      (case first_match rows (ID sub) of
         None \<Rightarrow>
           (\<forall>r\<in>set rows. cell_A r = [] \<or> cell_A r \<noteq> ID sub) \<and>
           UpdateSubmission_sheet sub fn b sheet
             = b\<lparr>tabs := (tabs b)(target sheet \<mapsto> rows @ [gs_submissionToRow sub fn])\<rparr>
       | Some i \<Rightarrow>
           i < length rows \<and> cell_A (rows ! i) = ID sub \<and> (\<forall>j<i. cell_A (rows ! j) \<noteq> ID sub) \<and>
           UpdateSubmission_sheet sub fn b sheet
             = b\<lparr>tabs := (tabs b)(target sheet \<mapsto>
                   rows[i := gs_submissionToRow sub fn
                               @ drop (length (gs_submissionToRow sub fn)) (rows ! i)])\<rparr>)) \<and>
   (\<forall>b sheet.
      tabs (UpdateSubmission_sheet sub fn b sheet) = tabs b \<or>
      (\<exists>rows. tabs b (target sheet) = Some rows \<and>
         tabs (UpdateSubmission_sheet sub fn b sheet)
           = (tabs b)(target sheet \<mapsto>
                overwrite_or_append (gs_submissionToRow sub fn) (ID sub) rows))) \<and>
   (faults be = [] \<and> gs_fetchSheets docs = Inr sh \<and> distinct (map target sh) \<longrightarrow>
      (\<forall>t. tabs (snd (gs_UpdateSubmission docs sub fn be)) t
             = (if t \<in> target ` set sh
                then map_option (overwrite_or_append (gs_submissionToRow sub fn) (ID sub)) (tabs be t)
                else tabs be t)))"
proof (intro conjI allI impI)
  assume "gs_fetchSheets docs = Inr sh"
  then show "gs_UpdateSubmission docs sub fn be
        = (None, foldl (UpdateSubmission_sheet sub fn) be sh)"
    by (simp add: gs_UpdateSubmission_def)
next
  fix b :: backend and sheet :: Sheet and rows :: "row list"
  assume a: "faults b = [] \<and> tabs b (target sheet) = Some rows"
  then have v: "UpdateSubmission_sheet sub fn b sheet
           = b\<lparr>tabs := (tabs b)(target sheet \<mapsto>
                  overwrite_or_append (gs_submissionToRow sub fn) (ID sub) rows)\<rparr>"
    using visit_no_faults by blast
  show "case first_match rows (ID sub) of
         None \<Rightarrow>
           (\<forall>r\<in>set rows. cell_A r = [] \<or> cell_A r \<noteq> ID sub) \<and>
           UpdateSubmission_sheet sub fn b sheet
             = b\<lparr>tabs := (tabs b)(target sheet \<mapsto> rows @ [gs_submissionToRow sub fn])\<rparr>
       | Some i \<Rightarrow>
           i < length rows \<and> cell_A (rows ! i) = ID sub \<and> (\<forall>j<i. cell_A (rows ! j) \<noteq> ID sub) \<and>
           UpdateSubmission_sheet sub fn b sheet
             = b\<lparr>tabs := (tabs b)(target sheet \<mapsto>
                   rows[i := gs_submissionToRow sub fn
                               @ drop (length (gs_submissionToRow sub fn)) (rows ! i)])\<rparr>"
  proof (cases "first_match rows (ID sub)")
    case None
    then show ?thesis using v first_match_None[OF None] by (simp add: overwrite_or_append_def)
  next
    case (Some i)
    then show ?thesis using v first_match_Some[OF Some] by (simp add: overwrite_or_append_def)
  qed
next
  fix b :: backend and sheet :: Sheet
  show "tabs (UpdateSubmission_sheet sub fn b sheet) = tabs b \<or>
      (\<exists>rows. tabs b (target sheet) = Some rows \<and>
         tabs (UpdateSubmission_sheet sub fn b sheet)
           = (tabs b)(target sheet \<mapsto>
                overwrite_or_append (gs_submissionToRow sub fn) (ID sub) rows))"
    by (rule visit_effect)
next
  fix t :: target
  assume a: "faults be = [] \<and> gs_fetchSheets docs = Inr sh \<and> distinct (map target sh)"
  then have "gs_UpdateSubmission docs sub fn be
        = (None, foldl (UpdateSubmission_sheet sub fn) be sh)"
    by (simp add: gs_UpdateSubmission_def)
  moreover have "tabs (foldl (UpdateSubmission_sheet sub fn) be sh) t
      = (if t \<in> target ` set sh
         then map_option (overwrite_or_append (gs_submissionToRow sub fn) (ID sub)) (tabs be t)
         else tabs be t)"
    using foldl_targets[of "UpdateSubmission_sheet sub fn"
        "overwrite_or_append (gs_submissionToRow sub fn) (ID sub)" be sh] visit_step a
    by blast
  ultimately show "tabs (snd (gs_UpdateSubmission docs sub fn be)) t
             = (if t \<in> target ` set sh
                then map_option (overwrite_or_append (gs_submissionToRow sub fn) (ID sub)) (tabs be t)
                else tabs be t)"
    by simp
qed

text \<open>
  The theorem on a tab that holds the header row and a stale row of the submission:
  the stale row is overwritten in place.
\<close>

theorem UpdateSubmission_overwrites_or_appends_witness:
  "faults stale_backend = [] \<and> gs_fetchSheets [Doc data_sheet] = Inr [data_sheet] \<and>
   distinct (map target [data_sheet]) \<and>
   tabs stale_backend data_tab = Some [headers, [''s-1'', ''stale'']] \<and>
   fst (gs_UpdateSubmission [Doc data_sheet] bare_submission ''Plot A'' stale_backend) = None \<and>
   tabs (snd (gs_UpdateSubmission [Doc data_sheet] bare_submission ''Plot A'' stale_backend)) data_tab
     = Some [headers, gs_submissionToRow bare_submission ''Plot A'']"
proof -
  note u = UpdateSubmission_overwrites_or_appends
             [of "[Doc data_sheet]" "[data_sheet]" bare_submission "''Plot A''" stale_backend]
  have f: "faults stale_backend = []" by (simp add: stale_backend_def)
  have t: "tabs stale_backend data_tab = Some [headers, [''s-1'', ''stale'']]"
    by (simp add: stale_backend_def)
  have d: "distinct (map target [data_sheet])" by simp
  have m: "overwrite_or_append (gs_submissionToRow bare_submission ''Plot A'') ''s-1''
             [headers, [''s-1'', ''stale'']]
           = [headers, gs_submissionToRow bare_submission ''Plot A'']"
    by (simp add: overwrite_or_append_def cell_A_def headers_def length_row)
  from u fetch_data_sheet
  have r: "gs_UpdateSubmission [Doc data_sheet] bare_submission ''Plot A'' stale_backend
        = (None, foldl (UpdateSubmission_sheet bare_submission ''Plot A'') stale_backend [data_sheet])"
    by blast
  from u f fetch_data_sheet d
  have "\<forall>t. tabs (snd (gs_UpdateSubmission [Doc data_sheet] bare_submission ''Plot A'' stale_backend)) t
             = (if t \<in> target ` set [data_sheet]
                then map_option (overwrite_or_append (gs_submissionToRow bare_submission ''Plot A'')
                                   (ID bare_submission)) (tabs stale_backend t)
                else tabs stale_backend t)"
    by blast
  from this[THEN spec, of data_tab]
  have "tabs (snd (gs_UpdateSubmission [Doc data_sheet] bare_submission ''Plot A'' stale_backend)) data_tab
     = Some [headers, gs_submissionToRow bare_submission ''Plot A'']"
    using t m by (simp add: target_data_sheet ID_bare)
  then show ?thesis using f fetch_data_sheet d t r by simp
qed

section \<open>AppendSubmission, then UpdateSubmission\<close>

text \<open>
  C3 (as the code has it). Let no call to the spreadsheet fail, let every registration
  name another tab, let the identifier be non-empty and let no row of a registered tab
  hold it in column A. Then \<^verbatim>\<open>AppendSubmission\<close> followed by \<^verbatim>\<open>UpdateSubmission\<close>
  leaves each registered tab with its former rows and one new row, the only row whose
  cell in column A is the identifier.
\<close>

theorem append_then_update_one_row:
  assumes "faults be = []" "gs_fetchSheets docs = Inr sh" "distinct (map target sh)"
    and "ID sub \<noteq> []"
    and "\<forall>s\<in>set sh. \<exists>rows. tabs be (target s) = Some rows \<and> (\<forall>r\<in>set rows. cell_A r \<noteq> ID sub)"
  shows "\<forall>s\<in>set sh. \<exists>rows. tabs be (target s) = Some rows \<and>
           tabs (append_then_update docs sub fn be) (target s)
             = Some (rows @ [gs_submissionToRow sub fn]) \<and>
           rows_with_id (append_then_update docs sub fn be) (target s) (ID sub) = 1"
proof
  fix s assume s: "s \<in> set sh"
  define be1 where "be1 = snd (gs_AppendSubmission docs sub fn be)"
  define new where "new = gs_submissionToRow sub fn"
  from assms(5) s obtain rows where rows: "tabs be (target s) = Some rows"
    "\<forall>r\<in>set rows. cell_A r \<noteq> ID sub" by blast
  have a: "faults be1 = []" "tabs be1 (target s) = Some (rows @ [new])"
    using AppendSubmission_tabs(1)[OF assms(1-3), of sub fn]
      AppendSubmission_tabs(2)[OF assms(1-3), of sub fn "target s"] s rows(1)
    unfolding be1_def new_def by auto
  have "tabs (snd (gs_UpdateSubmission docs sub fn be1)) (target s)
          = map_option (overwrite_or_append new (ID sub)) (tabs be1 (target s))"
    using UpdateSubmission_tabs[OF a(1) assms(2,3), of sub fn "target s"] s unfolding new_def by auto
  also have "\<dots> = Some (rows @ [new])"
    using a(2) overwrite_appended[OF rows(2) assms(4), of new] cell_A_row[of sub fn]
    unfolding new_def by simp
  finally have fin: "tabs (append_then_update docs sub fn be) (target s) = Some (rows @ [new])"
    unfolding append_then_update_def be1_def .
  have "length (filter (\<lambda>r. cell_A r = ID sub) (rows @ [new])) = 1"
    using rows(2) cell_A_row[of sub fn] unfolding new_def by (simp add: filter_empty_conv)
  then have "rows_with_id (append_then_update docs sub fn be) (target s) (ID sub) = 1"
    using fin by (simp add: rows_with_id_def)
  then show "\<exists>rows. tabs be (target s) = Some rows \<and>
           tabs (append_then_update docs sub fn be) (target s)
             = Some (rows @ [gs_submissionToRow sub fn]) \<and>
           rows_with_id (append_then_update docs sub fn be) (target s) (ID sub) = 1"
    using rows(1) fin unfolding new_def by blast
qed

text \<open>The theorem on a tab that holds the header row only.\<close>

theorem append_then_update_one_row_witness:
  "faults header_backend = [] \<and> gs_fetchSheets [Doc data_sheet] = Inr [data_sheet] \<and>
   distinct (map target [data_sheet]) \<and> ID bare_submission \<noteq> [] \<and>
   tabs header_backend data_tab = Some [headers] \<and> cell_A headers \<noteq> ID bare_submission \<and>
   tabs (append_then_update [Doc data_sheet] bare_submission ''Plot A'' header_backend) data_tab
     = Some [headers, gs_submissionToRow bare_submission ''Plot A''] \<and>
   rows_with_id (append_then_update [Doc data_sheet] bare_submission ''Plot A'' header_backend)
     data_tab (ID bare_submission) = 1"
proof -
  have f: "faults header_backend = []" by (simp add: header_backend_def)
  have d: "distinct (map target [data_sheet])" by simp
  have i: "ID bare_submission \<noteq> []" by (simp add: ID_bare)
  have t: "tabs header_backend data_tab = Some [headers]" by (simp add: header_backend_def)
  have h: "cell_A headers \<noteq> ID bare_submission" by (simp add: cell_A_headers0 ID_bare)
  have p: "\<forall>s\<in>set [data_sheet]. \<exists>rows. tabs header_backend (target s) = Some rows \<and>
             (\<forall>r\<in>set rows. cell_A r \<noteq> ID bare_submission)"
    using t h by (simp add: target_data_sheet)
  from append_then_update_one_row[OF f fetch_data_sheet d i p, of "''Plot A''"] t
  have "tabs (append_then_update [Doc data_sheet] bare_submission ''Plot A'' header_backend) data_tab
     = Some [headers, gs_submissionToRow bare_submission ''Plot A''] \<and>
   rows_with_id (append_then_update [Doc data_sheet] bare_submission ''Plot A'' header_backend)
     data_tab (ID bare_submission) = 1"
    by (simp add: target_data_sheet)
  then show ?thesis using f fetch_data_sheet d i t h by simp
qed

text \<open>
  C3 (as stated) fails. When the append and the read of column A both fail, no row
  holds the identifier; when the same tab is registered twice, or when a row of the
  tab held the identifier before, two rows hold it.
\<close>

theorem append_then_update_not_one_row:
  "rows_with_id (append_then_update [Doc data_sheet] bare_submission ''Plot A'' unreachable_backend)
     data_tab (ID bare_submission) = 0 \<and>
   rows_with_id (append_then_update [Doc data_sheet, Doc data_sheet] bare_submission ''Plot A''
                   header_backend)
     data_tab (ID bare_submission) = 2 \<and>
   rows_with_id (append_then_update [Doc data_sheet] bare_submission ''Plot A'' stale_backend)
     data_tab (ID bare_submission) = 2"
proof (intro conjI)
  show "rows_with_id (append_then_update [Doc data_sheet] bare_submission ''Plot A'' unreachable_backend)
     data_tab (ID bare_submission) = 0"
    by (simp add: sync_eval unreachable_backend_def header_backend_def cell_A_headers0)
  show "rows_with_id (append_then_update [Doc data_sheet, Doc data_sheet] bare_submission ''Plot A''
                   header_backend)
     data_tab (ID bare_submission) = 2"
    by (simp add: sync_eval header_backend_def cell_A_headers0)
  show "rows_with_id (append_then_update [Doc data_sheet] bare_submission ''Plot A'' stale_backend)
     data_tab (ID bare_submission) = 2"
    by (simp add: sync_eval stale_backend_def cell_A_headers0 cell_A_Cons cell_A_row_app)
qed

section \<open>EnsureHeader\<close>

text \<open>
  C4 (as the code has it). Let a call of \<^verbatim>\<open>ensureHeaders\<close> on a tab return without
  error. It has written only if cell A1 was empty, and then row 1 holds the full header
  row (the cells of row 1 beyond the headers are kept, no row is added to a tab that
  has rows). A second call then leaves every tab as it is: it returns without error or,
  when its read fails, with the read error. If A1 was empty or held the first header
  before the first call, it holds \<^verbatim>\<open>ID\<close> after the first call and after the second.
\<close>

theorem ensureHeaders_idempotent:
  assumes "gs_ensureHeaders t be = (None, be1)"
  shows "(a1 be t \<noteq> [] \<longrightarrow> tabs be1 = tabs be) \<and>
         (a1 be t = [] \<longrightarrow>
            (\<exists>rows. tabs be t = Some rows \<and>
               tabs be1 = (tabs be)(t \<mapsto>
                 (case rows of [] \<Rightarrow> [headers]
                  | r # rs \<Rightarrow> (headers @ drop (length headers) r) # rs)))) \<and>
         tabs (snd (gs_ensureHeaders t be1)) = tabs be1 \<and>
         fst (gs_ensureHeaders t be1) \<in> {None, Some UnableToRetrieve} \<and>
         (a1 be t = [] \<or> a1 be t = ''ID'' \<longrightarrow>
            a1 be1 t = ''ID'' \<and> a1 (snd (gs_ensureHeaders t be1)) t = ''ID'')"
proof -
  note first = ensureHeaders_effect[OF assms]
  have filled: "a1 be1 t \<noteq> []"
  proof (cases "a1 be t = []")
    case True
    with first obtain rows where "tabs be1 = (tabs be)(t \<mapsto> write_row 0 headers rows)" by auto
    then show ?thesis using a1_update by fastforce
  next
    case False
    with first have "tabs be1 = tabs be" by auto
    with False show ?thesis by (simp add: a1_def)
  qed
  obtain r2 be2 where second: "gs_ensureHeaders t be1 = (r2, be2)" by fastforce
  from ensureHeaders_effect[OF second] filled
  have noop: "tabs be2 = tabs be1" and res: "r2 = None \<or> r2 = Some UnableToRetrieve" by auto
  have c1: "a1 be t \<noteq> [] \<longrightarrow> tabs be1 = tabs be" using first by auto
  have c2: "a1 be t = [] \<longrightarrow>
            (\<exists>rows. tabs be t = Some rows \<and>
               tabs be1 = (tabs be)(t \<mapsto>
                 (case rows of [] \<Rightarrow> [headers]
                  | r # rs \<Rightarrow> (headers @ drop (length headers) r) # rs)))"
    using first by (auto simp: write_row_0)
  have c5: "a1 be t = [] \<or> a1 be t = ''ID'' \<longrightarrow> a1 be1 t = ''ID''"
  proof (cases "a1 be t = []")
    case True
    with first obtain rows where "tabs be1 = (tabs be)(t \<mapsto> write_row 0 headers rows)" by auto
    then show ?thesis using a1_update by blast
  next
    case False
    with first have "tabs be1 = tabs be" by auto
    then have "a1 be1 t = a1 be t" by (simp add: a1_def)
    with False show ?thesis by simp
  qed
  have same: "a1 be2 t = a1 be1 t" using noop by (simp add: a1_def)
  show ?thesis using c1 c2 c5 noop res same second by simp
qed

text \<open>
  The theorem on a tab without rows: the first call writes the header row, the second
  call changes nothing and A1 is \<^verbatim>\<open>ID\<close>.
\<close>

theorem ensureHeaders_idempotent_witness:
  "gs_ensureHeaders data_tab fresh_backend
     = (None, fresh_backend\<lparr>tabs := (tabs fresh_backend)(data_tab \<mapsto> [headers])\<rparr>) \<and>
   a1 fresh_backend data_tab = [] \<and>
   tabs (snd (gs_ensureHeaders data_tab
               (fresh_backend\<lparr>tabs := (tabs fresh_backend)(data_tab \<mapsto> [headers])\<rparr>)))
     = (tabs fresh_backend)(data_tab \<mapsto> [headers]) \<and>
   a1 (snd (gs_ensureHeaders data_tab
               (fresh_backend\<lparr>tabs := (tabs fresh_backend)(data_tab \<mapsto> [headers])\<rparr>))) data_tab
     = ''ID''"
proof -
  have run: "gs_ensureHeaders data_tab fresh_backend
     = (None, fresh_backend\<lparr>tabs := (tabs fresh_backend)(data_tab \<mapsto> [headers])\<rparr>)"
    by (simp add: gs_ensureHeaders_def values_get_A1_def values_update_def api_call_def
        fresh_backend_def column_A_def drop_trailing_def write_row_def)
  have empty: "a1 fresh_backend data_tab = []"
    by (simp add: a1_def fresh_backend_def)
  from ensureHeaders_idempotent[OF run] empty run show ?thesis by simp
qed

text \<open>
  C4 (as stated) fails. On a tab whose cell A1 holds other text, both calls return
  without error and A1 still holds that text, not \<^verbatim>\<open>ID\<close>. On an empty tab whose first
  read fails, the first call writes nothing and the second call writes the header row.
\<close>

theorem ensureHeaders_other_A1_or_failed_read:
  "fst (gs_ensureHeaders data_tab titled_backend) = None \<and>
   a1 (snd (gs_ensureHeaders data_tab (snd (gs_ensureHeaders data_tab titled_backend)))) data_tab
     = ''Season 2024'' \<and>
   fst (gs_ensureHeaders data_tab unread_backend) = Some UnableToRetrieve \<and>
   tabs (snd (gs_ensureHeaders data_tab unread_backend)) data_tab = Some [] \<and>
   tabs (snd (gs_ensureHeaders data_tab (snd (gs_ensureHeaders data_tab unread_backend)))) data_tab
     = Some [headers]"
  by (simp add: header_eval titled_backend_def unread_backend_def fresh_backend_def)

section \<open>Create of a submission\<close>

text \<open>
  C5 (as the code has it). \<^verbatim>\<open>CreateSubmission\<close> answers 400 and stores nothing when
  the body does not decode or when date, growth stage or observer name is missing (left
  at its zero value). For a valid request whose write to the store succeeds it answers
  201 with the new submission as body, whatever the later read of the field document
  does. The identifier is fresh and unique as the UUID is that the generator draws for
  the request: it is the rendering of that UUID, 36 characters, and no other UUID
  renders to it. The status is \<^verbatim>\<open>submitted\<close>; creation and update time are the two
  readings of the clock; owner, date, growth stage and observer name are those of the
  requester and the request. The submission is stored under its identifier, its three
  times as the store keeps them, and no other document changes; the handler makes one
  call to the store, and a second one when the request names a field.

  A read of that identifier by the creator then answers 200 with the same identifier,
  status, growth stage and observer name, and with the three times as the store keeps
  them, provided that its read of the document succeeds and that the request names no
  field, or the sentinel \<^verbatim>\<open>others\<close>, or a field whose document exists and is read with
  success.
\<close>

theorem CreateSubmission_contract:
  "(req_Date req = zero_time \<or> req_GrowthStage req = [] \<or> req_ObserverName req = [] \<longrightarrow>
      sh_CreateSubmission (Parsed req) user u now1 now2 st
        = (error_response 400 ''invalid_request'' BinderText, st, None)) \<and>
   sh_CreateSubmission Malformed user u now1 now2 st
     = (error_response 400 ''invalid_request'' BinderText, st, None) \<and>
   (req_Date req \<noteq> zero_time \<and> req_GrowthStage req \<noteq> [] \<and> req_ObserverName req \<noteq> [] \<and>
    succeed 1 st \<longrightarrow>
      (\<exists>s st' t.
         sh_CreateSubmission (Parsed req) user u now1 now2 st
           = (\<lparr>status = 201,
               body = SuccessResponse (SubmissionData s) ''Submission created successfully''\<rparr>,
              st', t) \<and>
         ID s = GenerateID u \<and> length (ID s) = 36 \<and>
         (\<forall>v. GenerateID v = ID s \<longrightarrow> v = u) \<and>
         Status s = ''submitted'' \<and> CreatedAt s = now1 \<and> UpdatedAt s = now2 \<and>
         UserID s = User_ID user \<and> Date s = req_Date req \<and>
         GrowthStage s = req_GrowthStage req \<and> ObserverName s = req_ObserverName req \<and>
         Submissions st' = (Submissions st)(ID s \<mapsto> stored s) \<and> Fields st' = Fields st \<and>
         db_faults st'
           = drop (if req_FieldID req \<noteq> [] \<and> req_FieldID req \<noteq> ''others'' then 2 else 1)
               (db_faults st) \<and>
         (succeed 1 st' \<and>
          (req_FieldID req = [] \<or> req_FieldID req = ''others'' \<or>
           (Fields st (req_FieldID req) \<noteq> None \<and> succeed 2 st')) \<longrightarrow>
            (\<exists>r st''. sh_GetSubmission (ID s) user st'
                    = (\<lparr>status = 200, body = SuccessResponse (SubmissionResponseData r) []\<rparr>, st'') \<and>
                 resp_ID r = ID s \<and> resp_Status r = ''submitted'' \<and>
                 resp_GrowthStage r = req_GrowthStage req \<and>
                 resp_ObserverName r = req_ObserverName req \<and>
                 resp_Date r = fs_time (req_Date req) \<and>
                 resp_CreatedAt r = fs_time now1 \<and> resp_UpdatedAt r = fs_time now2 \<and>
                 Submissions st'' = Submissions st'))))"
proof (intro conjI impI)
  assume "req_Date req = zero_time \<or> req_GrowthStage req = [] \<or> req_ObserverName req = []"
  then show "sh_CreateSubmission (Parsed req) user u now1 now2 st
        = (error_response 400 ''invalid_request'' BinderText, st, None)"
    by (rule CreateSubmission_rejects)
next
  show "sh_CreateSubmission Malformed user u now1 now2 st
     = (error_response 400 ''invalid_request'' BinderText, st, None)"
    by (simp add: sh_CreateSubmission_def bind_create_def)
next
  assume a: "req_Date req \<noteq> zero_time \<and> req_GrowthStage req \<noteq> [] \<and> req_ObserverName req \<noteq> [] \<and>
    succeed 1 st"
  define s where "s = created req user u now1 now2"
  define st1 where "st1 = (snd (db_call st))\<lparr>Submissions := (Submissions st)(GenerateID u \<mapsto> stored s)\<rparr>"
  define st' where "st' = snd (resolve_fieldName st1 s)"
  have run: "sh_CreateSubmission (Parsed req) user u now1 now2 st
           = (\<lparr>status = 201,
               body = SuccessResponse (SubmissionData s) ''Submission created successfully''\<rparr>,
              st', Some (AppendTask s (fst (resolve_fieldName st1 s))))"
    using CreateSubmission_run[of req st user u now1 now2] a unfolding s_def st1_def st'_def
    by blast
  have flds: "ID s = GenerateID u" "Status s = ''submitted''" "CreatedAt s = now1"
    "UpdatedAt s = now2" "UserID s = User_ID user" "Date s = req_Date req"
    "GrowthStage s = req_GrowthStage req" "ObserverName s = req_ObserverName req"
    "FieldID s = req_FieldID req"
    by (simp_all add: s_def created_def)
  have sto: "Submissions st' = (Submissions st)(ID s \<mapsto> stored s)" "Fields st' = Fields st"
    "Submissions st' (ID s) = Some (stored s)"
    by (simp_all add: st'_def resolve_fieldName_store st1_def flds(1) db_call_Fields)
  have faults: "db_faults st'
           = drop (if req_FieldID req \<noteq> [] \<and> req_FieldID req \<noteq> ''others'' then 2 else 1)
               (db_faults st)"
    by (simp add: st'_def resolve_fieldName_faults st1_def db_call_faults flds(9) numeral_2_eq_2)
  have get: "succeed 1 st' \<and>
          (req_FieldID req = [] \<or> req_FieldID req = ''others'' \<or>
           (Fields st (req_FieldID req) \<noteq> None \<and> succeed 2 st')) \<longrightarrow>
            (\<exists>r st''. sh_GetSubmission (ID s) user st'
                    = (\<lparr>status = 200, body = SuccessResponse (SubmissionResponseData r) []\<rparr>, st'') \<and>
                 resp_ID r = ID s \<and> resp_Status r = ''submitted'' \<and>
                 resp_GrowthStage r = req_GrowthStage req \<and>
                 resp_ObserverName r = req_ObserverName req \<and>
                 resp_Date r = fs_time (req_Date req) \<and>
                 resp_CreatedAt r = fs_time now1 \<and> resp_UpdatedAt r = fs_time now2 \<and>
                 Submissions st'' = Submissions st')"
  proof
    assume h: "succeed 1 st' \<and>
          (req_FieldID req = [] \<or> req_FieldID req = ''others'' \<or>
           (Fields st (req_FieldID req) \<noteq> None \<and> succeed 2 st'))"
    then have one: "succeed 1 st'"
      and f: "FieldID (stored s) = [] \<or> FieldID (stored s) = ''others'' \<or>
              (Fields st' (FieldID (stored s)) \<noteq> None \<and> succeed 2 st')"
      by (simp_all add: stored_fields flds(9) sto(2))
    have own: "User_Role user = ''admin'' \<or> UserID (stored s) = User_ID user"
      by (simp add: stored_fields flds(5))
    from GetSubmission_ok[OF sto(3) own one f]
    obtain field st'' where g: "sh_GetSubmission (ID s) user st'
           = (\<lparr>status = 200,
               body = SuccessResponse
                        (SubmissionResponseData (to_response (stored (stored s)) field)) []\<rparr>,
              st'')"
      and s'': "Submissions st'' = Submissions st'"
      by blast
    have r: "resp_ID (to_response (stored (stored s)) field) = ID s"
      "resp_Status (to_response (stored (stored s)) field) = ''submitted''"
      "resp_GrowthStage (to_response (stored (stored s)) field) = req_GrowthStage req"
      "resp_ObserverName (to_response (stored (stored s)) field) = req_ObserverName req"
      "resp_Date (to_response (stored (stored s)) field) = fs_time (req_Date req)"
      "resp_CreatedAt (to_response (stored (stored s)) field) = fs_time now1"
      "resp_UpdatedAt (to_response (stored (stored s)) field) = fs_time now2"
      by (simp_all add: to_response_def stored_idem stored_fields flds)
    show "\<exists>r st''. sh_GetSubmission (ID s) user st'
                    = (\<lparr>status = 200, body = SuccessResponse (SubmissionResponseData r) []\<rparr>, st'') \<and>
                 resp_ID r = ID s \<and> resp_Status r = ''submitted'' \<and>
                 resp_GrowthStage r = req_GrowthStage req \<and>
                 resp_ObserverName r = req_ObserverName req \<and>
                 resp_Date r = fs_time (req_Date req) \<and>
                 resp_CreatedAt r = fs_time now1 \<and> resp_UpdatedAt r = fs_time now2 \<and>
                 Submissions st'' = Submissions st'"
      apply (rule exI[of _ "to_response (stored (stored s)) field"], rule exI[of _ st''])
      apply (intro conjI)
              apply (rule g)
             apply (rule r s'')+
      done
  qed
  have uniq: "\<forall>v. GenerateID v = ID s \<longrightarrow> v = u"
    using GenerateID_inj by (simp add: flds(1))
  have len: "length (ID s) = 36" by (simp add: flds(1) length_GenerateID)
  show "\<exists>s st' t.
         sh_CreateSubmission (Parsed req) user u now1 now2 st
           = (\<lparr>status = 201,
               body = SuccessResponse (SubmissionData s) ''Submission created successfully''\<rparr>,
              st', t) \<and>
         ID s = GenerateID u \<and> length (ID s) = 36 \<and>
         (\<forall>v. GenerateID v = ID s \<longrightarrow> v = u) \<and>
         Status s = ''submitted'' \<and> CreatedAt s = now1 \<and> UpdatedAt s = now2 \<and>
         UserID s = User_ID user \<and> Date s = req_Date req \<and>
         GrowthStage s = req_GrowthStage req \<and> ObserverName s = req_ObserverName req \<and>
         Submissions st' = (Submissions st)(ID s \<mapsto> stored s) \<and> Fields st' = Fields st \<and>
         db_faults st'
           = drop (if req_FieldID req \<noteq> [] \<and> req_FieldID req \<noteq> ''others'' then 2 else 1)
               (db_faults st) \<and>
         (succeed 1 st' \<and>
          (req_FieldID req = [] \<or> req_FieldID req = ''others'' \<or>
           (Fields st (req_FieldID req) \<noteq> None \<and> succeed 2 st')) \<longrightarrow>
            (\<exists>r st''. sh_GetSubmission (ID s) user st'
                    = (\<lparr>status = 200, body = SuccessResponse (SubmissionResponseData r) []\<rparr>, st'') \<and>
                 resp_ID r = ID s \<and> resp_Status r = ''submitted'' \<and>
                 resp_GrowthStage r = req_GrowthStage req \<and>
                 resp_ObserverName r = req_ObserverName req \<and>
                 resp_Date r = fs_time (req_Date req) \<and>
                 resp_CreatedAt r = fs_time now1 \<and> resp_UpdatedAt r = fs_time now2 \<and>
                 Submissions st'' = Submissions st'))"
    apply (rule exI[of _ s], rule exI[of _ st'], rule exI)
    apply (intro conjI)
                  apply (rule run)
                 apply (rule flds(1))
                apply (rule len)
               apply (rule uniq)
              apply (rule flds(2))
             apply (rule flds(3))
            apply (rule flds(4))
           apply (rule flds(5))
          apply (rule flds(6))
         apply (rule flds(7))
        apply (rule flds(8))
       apply (rule sto(1))
      apply (rule sto(2))
     apply (rule faults)
    apply (rule get)
    done
qed

text \<open>
  The theorem on the request of the scenario (growth stage \<^verbatim>\<open>Tillering\<close>, observer
  \<^verbatim>\<open>Alice\<close>, 1 March 2024) against an empty store, created at
  2024-03-01T01:30:05.123456789+02:00, and on the same request without its observer
  name. The read gives the creation time as 2024-02-29T23:30:05.123456Z.
\<close>

theorem CreateSubmission_contract_witness:
  "req_Date tillering_request \<noteq> zero_time \<and> req_GrowthStage tillering_request \<noteq> [] \<and>
   req_ObserverName tillering_request \<noteq> [] \<and> succeed 1 empty_store \<and>
   req_FieldID tillering_request = [] \<and>
   req_ObserverName (tillering_request\<lparr>req_ObserverName := []\<rparr>) = [] \<and>
   status (fst (sh_CreateSubmission (Parsed (tillering_request\<lparr>req_ObserverName := []\<rparr>))
                  (observer ''u-1'') 7 night night empty_store)) = 400 \<and>
   (\<exists>s st' t.
      sh_CreateSubmission (Parsed tillering_request) (observer ''u-1'') 7 night night empty_store
        = (\<lparr>status = 201,
            body = SuccessResponse (SubmissionData s) ''Submission created successfully''\<rparr>,
           st', t) \<and>
      ID s \<noteq> [] \<and> Status s = ''submitted'' \<and> CreatedAt s = night \<and> succeed 1 st' \<and>
      (\<exists>r st''. sh_GetSubmission (ID s) (observer ''u-1'') st'
              = (\<lparr>status = 200, body = SuccessResponse (SubmissionResponseData r) []\<rparr>, st'') \<and>
           resp_GrowthStage r = ''Tillering'' \<and> resp_ObserverName r = ''Alice'' \<and>
           resp_Date r = march_first \<and>
           resp_CreatedAt r = \<lparr>year = 2024, month = 2, day = 29, hour = 23, minute = 30,
                                second = 5, nsec = 123456000, zone = None\<rparr>))"
proof -
  have v: "req_Date tillering_request \<noteq> zero_time" "req_GrowthStage tillering_request \<noteq> []"
    "req_ObserverName tillering_request \<noteq> []" "req_FieldID tillering_request = []"
    "req_GrowthStage tillering_request = ''Tillering''"
    "req_ObserverName tillering_request = ''Alice''"
    "req_Date tillering_request = march_first"
    by (simp_all add: tillering_request_def march_first_def zero_time_def)
  have e: "succeed 1 empty_store" "db_faults empty_store = []"
    by (simp_all add: succeed_def empty_store_def)
  have m: "req_ObserverName (tillering_request\<lparr>req_ObserverName := []\<rparr>) = []" by simp
  note c1 = CreateSubmission_contract
              [of "tillering_request\<lparr>req_ObserverName := []\<rparr>" "observer ''u-1''" 7
                  night night empty_store]
  note c2 = CreateSubmission_contract
              [of tillering_request "observer ''u-1''" 7 night night empty_store]
  have rej: "sh_CreateSubmission (Parsed (tillering_request\<lparr>req_ObserverName := []\<rparr>))
                  (observer ''u-1'') 7 night night empty_store
        = (error_response 400 ''invalid_request'' BinderText, empty_store, None)"
    by (rule c1[THEN conjunct1, THEN mp]) (simp add: m)
  have val: "req_Date tillering_request \<noteq> zero_time \<and> req_GrowthStage tillering_request \<noteq> [] \<and>
             req_ObserverName tillering_request \<noteq> [] \<and> succeed 1 empty_store"
    using v(1-3) e(1) by simp
  from c2[THEN conjunct2, THEN conjunct2, THEN mp, OF val]
  have main: "\<exists>s st' t.
      sh_CreateSubmission (Parsed tillering_request) (observer ''u-1'') 7 night night empty_store
        = (\<lparr>status = 201,
            body = SuccessResponse (SubmissionData s) ''Submission created successfully''\<rparr>,
           st', t) \<and>
      ID s \<noteq> [] \<and> Status s = ''submitted'' \<and> CreatedAt s = night \<and> succeed 1 st' \<and>
      (\<exists>r st''. sh_GetSubmission (ID s) (observer ''u-1'') st'
              = (\<lparr>status = 200, body = SuccessResponse (SubmissionResponseData r) []\<rparr>, st'') \<and>
           resp_GrowthStage r = ''Tillering'' \<and> resp_ObserverName r = ''Alice'' \<and>
           resp_Date r = march_first \<and>
           resp_CreatedAt r = \<lparr>year = 2024, month = 2, day = 29, hour = 23, minute = 30,
                                second = 5, nsec = 123456000, zone = None\<rparr>)"
  proof (elim exE conjE)
    fix s st' t
    assume run: "sh_CreateSubmission (Parsed tillering_request) (observer ''u-1'') 7 night night
                   empty_store
        = (\<lparr>status = 201,
            body = SuccessResponse (SubmissionData s) ''Submission created successfully''\<rparr>,
           st', t)"
      and len: "length (ID s) = 36" and st: "Status s = ''submitted''"
      and cr: "CreatedAt s = night"
      and fl: "db_faults st'
         = drop (if req_FieldID tillering_request \<noteq> [] \<and> req_FieldID tillering_request \<noteq> ''others''
                 then 2 else 1) (db_faults empty_store)"
      and get: "succeed 1 st' \<and>
         (req_FieldID tillering_request = [] \<or> req_FieldID tillering_request = ''others'' \<or>
          (Fields empty_store (req_FieldID tillering_request) \<noteq> None \<and> succeed 2 st')) \<longrightarrow>
            (\<exists>r st''. sh_GetSubmission (ID s) (observer ''u-1'') st'
                    = (\<lparr>status = 200, body = SuccessResponse (SubmissionResponseData r) []\<rparr>, st'') \<and>
                 resp_ID r = ID s \<and> resp_Status r = ''submitted'' \<and>
                 resp_GrowthStage r = req_GrowthStage tillering_request \<and>
                 resp_ObserverName r = req_ObserverName tillering_request \<and>
                 resp_Date r = fs_time (req_Date tillering_request) \<and>
                 resp_CreatedAt r = fs_time night \<and> resp_UpdatedAt r = fs_time night \<and>
                 Submissions st'' = Submissions st')"
    have one: "succeed 1 st'" using fl e(2) by (simp add: succeed_def)
    have hyp: "succeed 1 st' \<and>
         (req_FieldID tillering_request = [] \<or> req_FieldID tillering_request = ''others'' \<or>
          (Fields empty_store (req_FieldID tillering_request) \<noteq> None \<and> succeed 2 st'))"
      using one v(4) by simp
    have ne: "ID s \<noteq> []" using len by auto
    from get[THEN mp, OF hyp]
    have rd: "\<exists>r st''. sh_GetSubmission (ID s) (observer ''u-1'') st'
              = (\<lparr>status = 200, body = SuccessResponse (SubmissionResponseData r) []\<rparr>, st'') \<and>
           resp_GrowthStage r = ''Tillering'' \<and> resp_ObserverName r = ''Alice'' \<and>
           resp_Date r = march_first \<and>
           resp_CreatedAt r = \<lparr>year = 2024, month = 2, day = 29, hour = 23, minute = 30,
                                second = 5, nsec = 123456000, zone = None\<rparr>"
    proof (elim exE conjE)
      fix r st''
      assume g: "sh_GetSubmission (ID s) (observer ''u-1'') st'
                    = (\<lparr>status = 200, body = SuccessResponse (SubmissionResponseData r) []\<rparr>, st'')"
        and r: "resp_GrowthStage r = req_GrowthStage tillering_request"
        "resp_ObserverName r = req_ObserverName tillering_request"
        "resp_Date r = fs_time (req_Date tillering_request)"
        "resp_CreatedAt r = fs_time night"
      have vals: "resp_GrowthStage r = ''Tillering''" "resp_ObserverName r = ''Alice''"
        "resp_Date r = march_first"
        "resp_CreatedAt r = \<lparr>year = 2024, month = 2, day = 29, hour = 23, minute = 30,
                          second = 5, nsec = 123456000, zone = None\<rparr>"
        using r by (simp_all add: v(5-7) march_first_stored night_stored)
      show ?thesis
        apply (rule exI[of _ r], rule exI[of _ st''])
        apply (intro conjI)
            apply (rule g vals)+
        done
    qed
    show ?thesis
      apply (rule exI[of _ s], rule exI[of _ st'], rule exI[of _ t])
      apply (intro conjI)
           apply (rule run)
          apply (rule ne)
         apply (rule st)
        apply (rule cr)
       apply (rule one)
      apply (rule rd)
      done
  qed
  have four: "status (fst (sh_CreateSubmission (Parsed (tillering_request\<lparr>req_ObserverName := []\<rparr>))
                  (observer ''u-1'') 7 night night empty_store)) = 400"
    unfolding rej by (simp add: error_response_def)
  show ?thesis
    apply (intro conjI)
           apply (rule v(1))
          apply (rule v(2))
         apply (rule v(3))
        apply (rule e(1))
       apply (rule v(4))
      apply (rule m)
     apply (rule four)
    apply (rule main)
    done
qed

text \<open>
  C5 (as stated) fails. A valid request that names a field without a document is
  answered 201, and the read of the new identifier by its creator is answered 500. A
  valid request whose write to the store fails is answered 500. After a valid request
  that is answered 201, a read of the new identifier whose read of the document fails
  is answered 404, and a read by an observer other than the creator is answered 403.
\<close>

theorem CreateSubmission_get_fails_or_500:
  "bind_create (Parsed stale_field_request) = Some stale_field_request \<and>
   status (fst (sh_CreateSubmission (Parsed stale_field_request) (observer ''u-1'') 7
                  march_first march_first empty_store)) = 201 \<and>
   status (fst (sh_GetSubmission (GenerateID 7) (observer ''u-1'')
                  (fst (snd (sh_CreateSubmission (Parsed stale_field_request) (observer ''u-1'') 7
                               march_first march_first empty_store))))) = 500 \<and>
   bind_create (Parsed tillering_request) = Some tillering_request \<and>
   status (fst (sh_CreateSubmission (Parsed tillering_request) (observer ''u-1'') 7
                  march_first march_first failing_store)) = 500 \<and>
   status (fst (sh_CreateSubmission (Parsed tillering_request) (observer ''u-1'') 7
                  march_first march_first flaky_store)) = 201 \<and>
   status (fst (sh_GetSubmission (GenerateID 7) (observer ''u-1'')
                  (fst (snd (sh_CreateSubmission (Parsed tillering_request) (observer ''u-1'') 7
                               march_first march_first flaky_store))))) = 404 \<and>
   status (fst (sh_CreateSubmission (Parsed tillering_request) (observer ''u-1'') 7
                  march_first march_first empty_store)) = 201 \<and>
   status (fst (sh_GetSubmission (GenerateID 7) (observer ''u-2'')
                  (fst (snd (sh_CreateSubmission (Parsed tillering_request) (observer ''u-1'') 7
                               march_first march_first empty_store))))) = 403"
proof -
  have v: "req_Date stale_field_request \<noteq> zero_time" "req_GrowthStage stale_field_request \<noteq> []"
    "req_ObserverName stale_field_request \<noteq> []" "req_FieldID stale_field_request = ''field-404''"
    "req_Date tillering_request \<noteq> zero_time" "req_GrowthStage tillering_request \<noteq> []"
    "req_ObserverName tillering_request \<noteq> []" "req_FieldID tillering_request = []"
    by (simp_all add: stale_field_request_def tillering_request_def march_first_def zero_time_def)
  have e: "succeed 1 empty_store" "succeed 1 flaky_store"
    by (simp_all add: succeed_def empty_store_def flaky_store_def)
  have b1: "bind_create (Parsed stale_field_request) = Some stale_field_request"
    using v by (simp add: bind_create_def)
  have b2: "bind_create (Parsed tillering_request) = Some tillering_request"
    using v by (simp add: bind_create_def)
  note ok1 = CreateSubmission_run[OF v(1) v(2) v(3) e(1), of "observer ''u-1''" 7 march_first march_first]
  note ok2 = CreateSubmission_run[OF v(5) v(6) v(7) e(2), of "observer ''u-1''" 7 march_first march_first]
  note ok3 = CreateSubmission_run[OF v(5) v(6) v(7) e(1), of "observer ''u-1''" 7 march_first march_first]
  define c where "c = created stale_field_request (observer ''u-1'') 7 march_first march_first"
  define d where "d = created tillering_request (observer ''u-1'') 7 march_first march_first"
  have cf: "FieldID c = ''field-404''" "UserID c = ''u-1''" "FieldID d = []" "UserID d = ''u-1''"
    by (simp_all add: c_def d_def created_def v(4) v(8) observer_def)
  have k: "status (fst (sh_GetSubmission (GenerateID 7) (observer ''u-2'')
              (snd (resolve_fieldName
                 ((snd (db_call empty_store))\<lparr>Submissions :=
                     (Submissions empty_store)(GenerateID 7 \<mapsto> stored d)\<rparr>) d)))) = 403"
    by (simp add: sh_GetSubmission_def resolve_fieldName_def get_submission_def
        db_call_def empty_store_def cf observer_def forbidden_def error_response_def Let_def
        DataTo_fields stored_fields)
  have g: "status (fst (sh_GetSubmission (GenerateID 7) (observer ''u-1'')
              (snd (resolve_fieldName
                 ((snd (db_call empty_store))\<lparr>Submissions :=
                     (Submissions empty_store)(GenerateID 7 \<mapsto> stored c)\<rparr>) c)))) = 500"
    by (simp add: sh_GetSubmission_def resolve_fieldName_def get_submission_def get_field_def
        db_call_def empty_store_def cf observer_def error_response_def Let_def DataTo_fields
        stored_fields)
  have h: "status (fst (sh_GetSubmission (GenerateID 7) (observer ''u-1'')
              (snd (resolve_fieldName
                 ((snd (db_call flaky_store))\<lparr>Submissions :=
                     (Submissions flaky_store)(GenerateID 7 \<mapsto> stored d)\<rparr>) d)))) = 404"
    by (simp add: sh_GetSubmission_def resolve_fieldName_def get_submission_def
        db_call_def flaky_store_def empty_store_def cf not_found_def error_response_def)
  have f: "status (fst (sh_CreateSubmission (Parsed tillering_request) (observer ''u-1'') 7
                  march_first march_first failing_store)) = 500"
    unfolding sh_CreateSubmission_def b2
    by (simp add: set_submission_def db_call_def failing_store_def empty_store_def
        error_response_def Let_def)
  show ?thesis
    using b1 b2 g h f k unfolding ok1 ok2 ok3 c_def[symmetric] d_def[symmetric] by simp
qed

section \<open>Ownership\<close>

lemma forbidden_status: "status forbidden = 403"
  by (simp add: forbidden_def error_response_def)

text \<open>
  C6 (as the code has it). Let a submission be stored, let the requester be neither an
  administrator nor its owner, and let the read of the document succeed. Then read and
  delete answer 403, and update answers 403 for every payload that binds; the stored
  documents are unchanged. An update whose payload does not bind answers 400: the
  payload is bound before the document is read and the owner compared.
\<close>

theorem non_owner_forbidden:
  assumes "Submissions st sid = Some s" "User_Role user \<noteq> ''admin''"
    and "UserID s \<noteq> User_ID user" "\<not> fst (db_call st)"
  shows "fst (sh_GetSubmission sid user st) = forbidden \<and>
         fst (sh_DeleteSubmission sid user st) = forbidden \<and>
         fst (sh_UpdateSubmission sid user (Parsed req) now st) = forbidden \<and>
         status forbidden = 403 \<and>
         Submissions (snd (sh_GetSubmission sid user st)) = Submissions st \<and>
         Submissions (snd (sh_DeleteSubmission sid user st)) = Submissions st \<and>
         Submissions (fst (snd (sh_UpdateSubmission sid user (Parsed req) now st))) = Submissions st \<and>
         fst (sh_UpdateSubmission sid user Malformed now st)
           = error_response 400 ''invalid_request'' BinderText"
proof -
  have g: "get_submission st sid = (Some s, snd (db_call st))"
    using get_submission_ok[OF assms(4), of sid] assms(1) by simp
  have get: "sh_GetSubmission sid user st = (forbidden, snd (db_call st))"
    unfolding sh_GetSubmission_def by (simp add: g assms(2,3) Let_def DataTo_fields)
  have del: "sh_DeleteSubmission sid user st = (forbidden, snd (db_call st))"
    unfolding sh_DeleteSubmission_def by (simp add: g assms(2,3) Let_def DataTo_fields)
  have upd: "sh_UpdateSubmission sid user (Parsed req) now st = (forbidden, snd (db_call st), None)"
    unfolding sh_UpdateSubmission_def bind_update_def
    by (simp add: g assms(2,3) Let_def DataTo_fields)
  have bad: "sh_UpdateSubmission sid user Malformed now st
               = (error_response 400 ''invalid_request'' BinderText, st, None)"
    unfolding sh_UpdateSubmission_def bind_update_def
    by simp
  show ?thesis
    unfolding get del upd bad by (simp add: forbidden_status db_call_Submissions)
qed

text \<open>The theorem on a stored submission of user \<^verbatim>\<open>u-1\<close>, requested by observer \<^verbatim>\<open>u-2\<close>.\<close>

theorem non_owner_forbidden_witness:
  "Submissions sample_store ''s-1'' = Some field_submission \<and>
   User_Role (observer ''u-2'') \<noteq> ''admin'' \<and>
   UserID field_submission \<noteq> User_ID (observer ''u-2'') \<and>
   \<not> fst (db_call sample_store) \<and>
   status (fst (sh_GetSubmission ''s-1'' (observer ''u-2'') sample_store)) = 403 \<and>
   status (fst (sh_DeleteSubmission ''s-1'' (observer ''u-2'') sample_store)) = 403 \<and>
   status (fst (sh_UpdateSubmission ''s-1'' (observer ''u-2'') (Parsed empty_payload)
                  march_first sample_store)) = 403"
proof -
  have r: "User_Role (observer ''u-2'') \<noteq> ''admin''" by (simp add: sample_store_facts)
  have o: "UserID field_submission \<noteq> User_ID (observer ''u-2'')" by (simp add: sample_store_facts)
  have c: "\<not> fst (db_call sample_store)" by (simp add: db_call_ok sample_store_facts)
  from non_owner_forbidden[OF sample_store_facts(2) r o c, of empty_payload march_first]
  show ?thesis using r o c sample_store_facts(2) by simp
qed

text \<open>
  C6 (as stated) fails: the same requester sends an update whose payload does not bind
  and receives 400, not 403; and when the read of the stored document fails, read and
  delete answer 404.
\<close>

theorem non_owner_malformed_update_400:
  "Submissions sample_store ''s-1'' = Some field_submission \<and>
   User_Role (observer ''u-2'') \<noteq> ''admin'' \<and>
   UserID field_submission \<noteq> User_ID (observer ''u-2'') \<and>
   status (fst (sh_UpdateSubmission ''s-1'' (observer ''u-2'') Malformed march_first sample_store))
     = 400 \<and>
   Submissions unreadable_store ''s-1'' = Some field_submission \<and>
   status (fst (sh_GetSubmission ''s-1'' (observer ''u-2'') unreadable_store)) = 404 \<and>
   status (fst (sh_DeleteSubmission ''s-1'' (observer ''u-2'') unreadable_store)) = 404"
  by (simp add: sample_store_facts sh_UpdateSubmission_def sh_GetSubmission_def
      sh_DeleteSubmission_def store_eval unreadable_store_def)

section \<open>Update of a submission: the payload and the frame\<close>

text \<open>
  C7 (as the code has it). Take an authorized update of an existing submission, with a
  payload that binds, whose read of the document and whose write succeed. The stored
  submission then has every field present in the payload set to the payload's value (a
  date as the store keeps it: the instant in UTC, to the microsecond) and every field
  absent from it left as it was, with one exception: when \<^verbatim>\<open>other_field_name\<close> is
  present, \<^verbatim>\<open>field_id\<close> becomes \<^verbatim>\<open>others\<close>, also when \<^verbatim>\<open>field_id\<close> is absent. The
  update time is always set to the current time; identifier, owner, observer name and
  creation time never change, and no other document does.

  When the read that follows the write succeeds too, the answer is 200 and its body is
  that read decoded into the submission read before the update: the body has the
  stored values, except that each of the three multi-select maps also keeps the keys
  that the old document held and the new one does not hold. When that read fails the
  answer is 500, and the document stays updated.
\<close>

theorem UpdateSubmission_applies_payload:
  assumes "Submissions st sid = Some s"
    and "User_Role user = ''admin'' \<or> UserID s = User_ID user"
    and "succeed 2 st"
  shows "\<exists>s'.
     Submissions (fst (snd (sh_UpdateSubmission sid user (Parsed req) now st)))
       = (Submissions st)(sid \<mapsto> s') \<and>
     Fields (fst (snd (sh_UpdateSubmission sid user (Parsed req) now st))) = Fields st \<and>
     Date s' = (case upd_Date req of None \<Rightarrow> Date s | Some v \<Rightarrow> fs_time v) \<and>
     GrowthStage s' = (case upd_GrowthStage req of None \<Rightarrow> GrowthStage s | Some v \<Rightarrow> v) \<and>
     PlantConditions s'
       = (case upd_PlantConditions req of None \<Rightarrow> PlantConditions s | Some v \<Rightarrow> v) \<and>
     TraitMeasurements s'
       = (case upd_TraitMeasurements req of None \<Rightarrow> TraitMeasurements s | Some v \<Rightarrow> v) \<and>
     Coordinates s' = (case upd_Coordinates req of None \<Rightarrow> Coordinates s | Some v \<Rightarrow> v) \<and>
     Notes s' = (case upd_Notes req of None \<Rightarrow> Notes s | Some v \<Rightarrow> v) \<and>
     Images s' = (case upd_Images req of None \<Rightarrow> Images s | Some v \<Rightarrow> v) \<and>
     Videos s' = (case upd_Videos req of None \<Rightarrow> Videos s | Some v \<Rightarrow> v) \<and>
     Audio s' = (case upd_Audio req of None \<Rightarrow> Audio s | Some v \<Rightarrow> v) \<and>
     Status s' = (case upd_Status req of None \<Rightarrow> Status s | Some v \<Rightarrow> v) \<and>
     OtherFieldName s'
       = (case upd_OtherFieldName req of None \<Rightarrow> OtherFieldName s | Some v \<Rightarrow> v) \<and>
     FieldID s'
       = (case upd_OtherFieldName req of
            Some v \<Rightarrow> ''others''
          | None \<Rightarrow> (case upd_FieldID req of None \<Rightarrow> FieldID s | Some v \<Rightarrow> v)) \<and>
     UpdatedAt s' = fs_time now \<and>
     ID s' = ID s \<and> UserID s' = UserID s \<and> ObserverName s' = ObserverName s \<and>
     CreatedAt s' = CreatedAt s \<and>
     (succeed 3 st \<longrightarrow>
        (\<exists>b st' t.
           sh_UpdateSubmission sid user (Parsed req) now st
             = (\<lparr>status = 200,
                 body = SuccessResponse (SubmissionData b) ''Submission updated successfully''\<rparr>,
                st', t) \<and>
           b = DataTo s' (DataTo s zero_Submission) \<and>
           ID b = ID s' \<and> UserID b = UserID s' \<and> FieldID b = FieldID s' \<and>
           OtherFieldName b = OtherFieldName s' \<and> GrowthStage b = GrowthStage s' \<and>
           Notes b = Notes s' \<and> ObserverName b = ObserverName s' \<and> Status b = Status s' \<and>
           Coordinates b = Coordinates s' \<and> TraitMeasurements b = TraitMeasurements s' \<and>
           Images b = Images s' \<and> Videos b = Videos s' \<and> Audio b = Audio s' \<and>
           Date b = fs_time (Date s') \<and> CreatedAt b = fs_time (CreatedAt s') \<and>
           UpdatedAt b = fs_time now \<and>
           PlantConditions b
             = (PlantConditions s')
                 \<lparr>PestDetails :=
                    populateMap (PestDetails (PlantConditions s')) (PestDetails (PlantConditions s)),
                  NutrientDeficiencyDetails :=
                    populateMap (NutrientDeficiencyDetails (PlantConditions s'))
                      (NutrientDeficiencyDetails (PlantConditions s)),
                  DiseaseDetails :=
                    populateMap (DiseaseDetails (PlantConditions s'))
                      (DiseaseDetails (PlantConditions s))\<rparr>)) \<and>
     (\<not> succeed 3 st \<longrightarrow>
        fst (sh_UpdateSubmission sid user (Parsed req) now st)
          = error_response 500 ''internal_error'' (Text ''Failed to retrieve updated submission''))"
proof -
  define s' where "s' = updated s req now"
  note store = UpdateSubmission_store[OF assms, of req now, folded s'_def]
  have body: "succeed 3 st \<longrightarrow>
        (\<exists>b st' t.
           sh_UpdateSubmission sid user (Parsed req) now st
             = (\<lparr>status = 200,
                 body = SuccessResponse (SubmissionData b) ''Submission updated successfully''\<rparr>,
                st', t) \<and>
           b = DataTo s' (DataTo s zero_Submission) \<and>
           ID b = ID s' \<and> UserID b = UserID s' \<and> FieldID b = FieldID s' \<and>
           OtherFieldName b = OtherFieldName s' \<and> GrowthStage b = GrowthStage s' \<and>
           Notes b = Notes s' \<and> ObserverName b = ObserverName s' \<and> Status b = Status s' \<and>
           Coordinates b = Coordinates s' \<and> TraitMeasurements b = TraitMeasurements s' \<and>
           Images b = Images s' \<and> Videos b = Videos s' \<and> Audio b = Audio s' \<and>
           Date b = fs_time (Date s') \<and> CreatedAt b = fs_time (CreatedAt s') \<and>
           UpdatedAt b = fs_time now \<and>
           PlantConditions b
             = (PlantConditions s')
                 \<lparr>PestDetails :=
                    populateMap (PestDetails (PlantConditions s')) (PestDetails (PlantConditions s)),
                  NutrientDeficiencyDetails :=
                    populateMap (NutrientDeficiencyDetails (PlantConditions s'))
                      (NutrientDeficiencyDetails (PlantConditions s)),
                  DiseaseDetails :=
                    populateMap (DiseaseDetails (PlantConditions s'))
                      (DiseaseDetails (PlantConditions s))\<rparr>)"
  proof
    assume three: "succeed 3 st"
    define b where "b = DataTo s' (stored s)"
    from UpdateSubmission_ok[OF assms(1,2) three, of req now, folded s'_def b_def]
    obtain st' fn where run: "sh_UpdateSubmission sid user (Parsed req) now st
       = (\<lparr>status = 200,
           body = SuccessResponse (SubmissionData b) ''Submission updated successfully''\<rparr>,
          st', Some (UpdateTask b fn))"
      by blast
    have eq: "b = DataTo s' (DataTo s zero_Submission)" by (simp add: b_def DataTo_zero)
    have up: "UpdatedAt b = fs_time now"
      by (simp add: b_def DataTo_fields s'_def updated_def fs_time_idem)
    have pc: "PlantConditions b
             = (PlantConditions s')
                 \<lparr>PestDetails :=
                    populateMap (PestDetails (PlantConditions s')) (PestDetails (PlantConditions s)),
                  NutrientDeficiencyDetails :=
                    populateMap (NutrientDeficiencyDetails (PlantConditions s'))
                      (NutrientDeficiencyDetails (PlantConditions s)),
                  DiseaseDetails :=
                    populateMap (DiseaseDetails (PlantConditions s'))
                      (DiseaseDetails (PlantConditions s))\<rparr>"
      by (simp add: b_def DataTo_def stored_def)
    show "\<exists>b st' t.
           sh_UpdateSubmission sid user (Parsed req) now st
             = (\<lparr>status = 200,
                 body = SuccessResponse (SubmissionData b) ''Submission updated successfully''\<rparr>,
                st', t) \<and>
           b = DataTo s' (DataTo s zero_Submission) \<and>
           ID b = ID s' \<and> UserID b = UserID s' \<and> FieldID b = FieldID s' \<and>
           OtherFieldName b = OtherFieldName s' \<and> GrowthStage b = GrowthStage s' \<and>
           Notes b = Notes s' \<and> ObserverName b = ObserverName s' \<and> Status b = Status s' \<and>
           Coordinates b = Coordinates s' \<and> TraitMeasurements b = TraitMeasurements s' \<and>
           Images b = Images s' \<and> Videos b = Videos s' \<and> Audio b = Audio s' \<and>
           Date b = fs_time (Date s') \<and> CreatedAt b = fs_time (CreatedAt s') \<and>
           UpdatedAt b = fs_time now \<and>
           PlantConditions b
             = (PlantConditions s')
                 \<lparr>PestDetails :=
                    populateMap (PestDetails (PlantConditions s')) (PestDetails (PlantConditions s)),
                  NutrientDeficiencyDetails :=
                    populateMap (NutrientDeficiencyDetails (PlantConditions s'))
                      (NutrientDeficiencyDetails (PlantConditions s)),
                  DiseaseDetails :=
                    populateMap (DiseaseDetails (PlantConditions s'))
                      (DiseaseDetails (PlantConditions s))\<rparr>"
      apply (rule exI[of _ b], rule exI[of _ st'], rule exI)
      apply (intro conjI)
                        apply (rule run)
                       apply (rule eq)
                      apply (simp_all only: b_def DataTo_fields)
       apply (rule up[unfolded b_def DataTo_fields])
      apply (rule pc[unfolded b_def])
      done
  qed
  have fail: "\<not> succeed 3 st \<longrightarrow>
        fst (sh_UpdateSubmission sid user (Parsed req) now st)
          = error_response 500 ''internal_error'' (Text ''Failed to retrieve updated submission'')"
    using UpdateSubmission_reread_fails[OF assms, of req now] by blast
  have flds: "Date s' = (case upd_Date req of None \<Rightarrow> Date s | Some v \<Rightarrow> fs_time v)"
    "GrowthStage s' = (case upd_GrowthStage req of None \<Rightarrow> GrowthStage s | Some v \<Rightarrow> v)"
    "PlantConditions s'
       = (case upd_PlantConditions req of None \<Rightarrow> PlantConditions s | Some v \<Rightarrow> v)"
    "TraitMeasurements s'
       = (case upd_TraitMeasurements req of None \<Rightarrow> TraitMeasurements s | Some v \<Rightarrow> v)"
    "Coordinates s' = (case upd_Coordinates req of None \<Rightarrow> Coordinates s | Some v \<Rightarrow> v)"
    "Notes s' = (case upd_Notes req of None \<Rightarrow> Notes s | Some v \<Rightarrow> v)"
    "Images s' = (case upd_Images req of None \<Rightarrow> Images s | Some v \<Rightarrow> v)"
    "Videos s' = (case upd_Videos req of None \<Rightarrow> Videos s | Some v \<Rightarrow> v)"
    "Audio s' = (case upd_Audio req of None \<Rightarrow> Audio s | Some v \<Rightarrow> v)"
    "Status s' = (case upd_Status req of None \<Rightarrow> Status s | Some v \<Rightarrow> v)"
    "OtherFieldName s'
       = (case upd_OtherFieldName req of None \<Rightarrow> OtherFieldName s | Some v \<Rightarrow> v)"
    "FieldID s'
       = (case upd_OtherFieldName req of
            Some v \<Rightarrow> ''others''
          | None \<Rightarrow> (case upd_FieldID req of None \<Rightarrow> FieldID s | Some v \<Rightarrow> v))"
    "UpdatedAt s' = fs_time now"
    "ID s' = ID s" "UserID s' = UserID s" "ObserverName s' = ObserverName s"
    "CreatedAt s' = CreatedAt s"
    by (simp_all add: s'_def updated_def)
  show ?thesis
    apply (rule exI[of _ s'])
    apply (intro conjI)
                        apply (rule store[THEN conjunct1])
                        apply (rule store[THEN conjunct2])
                        apply (rule flds body fail)+
    done
qed

text \<open>
  The theorem on the stored submission whose pest details hold \<^verbatim>\<open>aphids\<close>, updated by
  its owner at 2024-03-01T01:30:05.123456789+02:00 with a payload that holds that same
  time as date and pest details with \<^verbatim>\<open>stem borer\<close> only. The stored pest details
  hold \<^verbatim>\<open>stem borer\<close> only, those of the body hold both keys; the stored date is
  2024-02-29T23:30:05.123456Z. With a third store call that fails the answer is 500.
\<close>

theorem UpdateSubmission_applies_payload_witness:
  "Submissions aphid_store ''s-1'' = Some aphid_submission \<and>
   (User_Role (observer ''u-1'') = ''admin'' \<or> UserID aphid_submission = User_ID (observer ''u-1'')) \<and>
   succeed 2 aphid_store \<and> succeed 3 aphid_store \<and>
   (\<exists>s' b st' t.
      sh_UpdateSubmission ''s-1'' (observer ''u-1'') (Parsed borer_payload) night aphid_store
        = (\<lparr>status = 200,
            body = SuccessResponse (SubmissionData b) ''Submission updated successfully''\<rparr>,
           st', t) \<and>
      Submissions st' ''s-1'' = Some s' \<and>
      PestDetails (PlantConditions s') = Some [(''stem borer'', True)] \<and>
      PestDetails (PlantConditions b) = Some [(''aphids'', True), (''stem borer'', True)] \<and>
      GrowthStage s' = ''Tillering'' \<and>
      Date s' = \<lparr>year = 2024, month = 2, day = 29, hour = 23, minute = 30, second = 5,
                  nsec = 123456000, zone = None\<rparr> \<and>
      UpdatedAt s' = Date s' \<and> UpdatedAt b = Date s') \<and>
   Submissions reread_failing_store ''s-1'' = Some aphid_submission \<and>
   succeed 2 reread_failing_store \<and> \<not> succeed 3 reread_failing_store \<and>
   status (fst (sh_UpdateSubmission ''s-1'' (observer ''u-1'') (Parsed borer_payload) night
                  reread_failing_store)) = 500"
proof -
  have sub: "Submissions aphid_store ''s-1'' = Some aphid_submission"
    "Submissions reread_failing_store ''s-1'' = Some aphid_submission"
    by (simp_all add: aphid_store_def reread_failing_store_def)
  have own: "User_Role (observer ''u-1'') = ''admin'' \<or> UserID aphid_submission = User_ID (observer ''u-1'')"
    by (simp add: aphid_submission_def field_submission_def bare_submission_def observer_def)
  have ok: "succeed 2 aphid_store" "succeed 3 aphid_store" "succeed 2 reread_failing_store"
    "\<not> succeed 3 reread_failing_store"
    by (simp_all add: succeed_def aphid_store_def reread_failing_store_def)
  have old: "PestDetails (PlantConditions aphid_submission) = Some [(''aphids'', True)]"
    "GrowthStage aphid_submission = ''Tillering''"
    by (simp_all add: aphid_submission_def field_submission_def bare_submission_def)
  have pay: "upd_PlantConditions borer_payload
               = Some (no_conditions\<lparr>PestDetails := Some [(''stem borer'', True)]\<rparr>)"
    "upd_Date borer_payload = Some night" "upd_GrowthStage borer_payload = None"
    by (simp_all add: borer_payload_def empty_payload_def)
  from UpdateSubmission_applies_payload[OF sub(1) own ok(1), of borer_payload night]
  obtain s' where s':
    "Submissions (fst (snd (sh_UpdateSubmission ''s-1'' (observer ''u-1'') (Parsed borer_payload)
                              night aphid_store)))
       = (Submissions aphid_store)(''s-1'' \<mapsto> s')"
    "Date s' = (case upd_Date borer_payload of None \<Rightarrow> Date aphid_submission | Some v \<Rightarrow> fs_time v)"
    "GrowthStage s' = (case upd_GrowthStage borer_payload of None \<Rightarrow> GrowthStage aphid_submission
                       | Some v \<Rightarrow> v)"
    "PlantConditions s'
       = (case upd_PlantConditions borer_payload of None \<Rightarrow> PlantConditions aphid_submission
          | Some v \<Rightarrow> v)"
    "UpdatedAt s' = fs_time night"
    "succeed 3 aphid_store \<longrightarrow>
        (\<exists>b st' t.
           sh_UpdateSubmission ''s-1'' (observer ''u-1'') (Parsed borer_payload) night aphid_store
             = (\<lparr>status = 200,
                 body = SuccessResponse (SubmissionData b) ''Submission updated successfully''\<rparr>,
                st', t) \<and>
           UpdatedAt b = fs_time night \<and>
           PlantConditions b
             = (PlantConditions s')
                 \<lparr>PestDetails :=
                    populateMap (PestDetails (PlantConditions s'))
                      (PestDetails (PlantConditions aphid_submission)),
                  NutrientDeficiencyDetails :=
                    populateMap (NutrientDeficiencyDetails (PlantConditions s'))
                      (NutrientDeficiencyDetails (PlantConditions aphid_submission)),
                  DiseaseDetails :=
                    populateMap (DiseaseDetails (PlantConditions s'))
                      (DiseaseDetails (PlantConditions aphid_submission))\<rparr>)"
    by blast
  from s'(6) ok(2) obtain b st' t where b:
    "sh_UpdateSubmission ''s-1'' (observer ''u-1'') (Parsed borer_payload) night aphid_store
             = (\<lparr>status = 200,
                 body = SuccessResponse (SubmissionData b) ''Submission updated successfully''\<rparr>,
                st', t)"
    "UpdatedAt b = fs_time night"
    "PlantConditions b
             = (PlantConditions s')
                 \<lparr>PestDetails :=
                    populateMap (PestDetails (PlantConditions s'))
                      (PestDetails (PlantConditions aphid_submission)),
                  NutrientDeficiencyDetails :=
                    populateMap (NutrientDeficiencyDetails (PlantConditions s'))
                      (NutrientDeficiencyDetails (PlantConditions aphid_submission)),
                  DiseaseDetails :=
                    populateMap (DiseaseDetails (PlantConditions s'))
                      (DiseaseDetails (PlantConditions aphid_submission))\<rparr>"
    by blast
  have st': "Submissions st' ''s-1'' = Some s'" using s'(1) unfolding b(1) by simp
  have p1: "PestDetails (PlantConditions s') = Some [(''stem borer'', True)]"
    unfolding s'(4) pay(1) by simp
  have p2: "PestDetails (PlantConditions b) = Some [(''aphids'', True), (''stem borer'', True)]"
    unfolding b(3) by (simp add: p1 old(1) populateMap_def entries_def)
  have g: "GrowthStage s' = ''Tillering''" unfolding s'(3) pay(3) by (simp add: old(2))
  have d: "Date s' = \<lparr>year = 2024, month = 2, day = 29, hour = 23, minute = 30, second = 5,
                  nsec = 123456000, zone = None\<rparr>"
    unfolding s'(2) pay(2) by (simp add: night_stored)
  have u: "UpdatedAt s' = Date s'" "UpdatedAt b = Date s'"
    unfolding s'(5) b(2) d by (simp_all add: night_stored)
  have first: "\<exists>s' b st' t.
      sh_UpdateSubmission ''s-1'' (observer ''u-1'') (Parsed borer_payload) night aphid_store
        = (\<lparr>status = 200,
            body = SuccessResponse (SubmissionData b) ''Submission updated successfully''\<rparr>,
           st', t) \<and>
      Submissions st' ''s-1'' = Some s' \<and>
      PestDetails (PlantConditions s') = Some [(''stem borer'', True)] \<and>
      PestDetails (PlantConditions b) = Some [(''aphids'', True), (''stem borer'', True)] \<and>
      GrowthStage s' = ''Tillering'' \<and>
      Date s' = \<lparr>year = 2024, month = 2, day = 29, hour = 23, minute = 30, second = 5,
                  nsec = 123456000, zone = None\<rparr> \<and>
      UpdatedAt s' = Date s' \<and> UpdatedAt b = Date s'"
    using b(1) st' p1 p2 g d u by blast
  from UpdateSubmission_applies_payload[OF sub(2) own ok(3), of borer_payload night] ok(4)
  have "fst (sh_UpdateSubmission ''s-1'' (observer ''u-1'') (Parsed borer_payload) night
               reread_failing_store)
          = error_response 500 ''internal_error'' (Text ''Failed to retrieve updated submission'')"
    by blast
  then have second: "status (fst (sh_UpdateSubmission ''s-1'' (observer ''u-1'') (Parsed borer_payload)
                               night reread_failing_store)) = 500"
    by (simp add: error_response_def)
  show ?thesis using sub own ok first second by blast
qed

text \<open>
  C7 (as stated) fails. The payload holds no \<^verbatim>\<open>field_id\<close>, and the stored
  \<^verbatim>\<open>field_id\<close> changes from \<^verbatim>\<open>field-7\<close> to \<^verbatim>\<open>others\<close>. When the write to the store
  fails, the update is answered 500 and the stored update time stays. And the date of
  a payload is stored as its instant in UTC, to the microsecond, not as it was sent.
\<close>

theorem UpdateSubmission_changes_absent_field_id:
  "upd_FieldID other_name_payload = None \<and>
   map_option FieldID (Submissions sample_store ''s-1'') = Some ''field-7'' \<and>
   status (fst (sh_UpdateSubmission ''s-1'' (observer ''u-1'') (Parsed other_name_payload)
                  march_first sample_store)) = 200 \<and>
   map_option FieldID
     (Submissions (fst (snd (sh_UpdateSubmission ''s-1'' (observer ''u-1'')
                               (Parsed other_name_payload) march_first sample_store))) ''s-1'')
     = Some ''others'' \<and>
   status (fst (sh_UpdateSubmission ''s-1'' (observer ''u-1'') (Parsed other_name_payload)
                  zero_time half_failing_store)) = 500 \<and>
   map_option UpdatedAt
     (Submissions (fst (snd (sh_UpdateSubmission ''s-1'' (observer ''u-1'')
                               (Parsed other_name_payload) zero_time half_failing_store))) ''s-1'')
     = Some march_first \<and>
   upd_Date borer_payload = Some night \<and>
   map_option Date
     (Submissions (fst (snd (sh_UpdateSubmission ''s-1'' (observer ''u-1'')
                               (Parsed borer_payload) march_first aphid_store))) ''s-1'')
     = Some \<lparr>year = 2024, month = 2, day = 29, hour = 23, minute = 30, second = 5,
             nsec = 123456000, zone = None\<rparr> \<and>
   night \<noteq> \<lparr>year = 2024, month = 2, day = 29, hour = 23, minute = 30, second = 5,
              nsec = 123456000, zone = None\<rparr>"
proof -
  have own: "User_Role (observer ''u-1'') = ''admin'' \<or> UserID field_submission = User_ID (observer ''u-1'')"
    by (simp add: sample_store_facts)
  have own2: "User_Role (observer ''u-1'') = ''admin'' \<or> UserID aphid_submission = User_ID (observer ''u-1'')"
    by (simp add: aphid_submission_def field_submission_def bare_submission_def observer_def)
  have ok: "succeed 3 sample_store" "succeed 2 sample_store" "succeed 2 aphid_store"
    by (simp_all add: succeed_def sample_store_def aphid_store_def)
  have sub2: "Submissions aphid_store ''s-1'' = Some aphid_submission"
    by (simp add: aphid_store_def)
  from UpdateSubmission_ok[OF sample_store_facts(2) own ok(1), of other_name_payload march_first]
  have a1: "status (fst (sh_UpdateSubmission ''s-1'' (observer ''u-1'') (Parsed other_name_payload)
                  march_first sample_store)) = 200"
    by auto
  have a2: "map_option FieldID
     (Submissions (fst (snd (sh_UpdateSubmission ''s-1'' (observer ''u-1'')
                               (Parsed other_name_payload) march_first sample_store))) ''s-1'')
     = Some ''others''"
    using UpdateSubmission_store[OF sample_store_facts(2) own ok(2), of other_name_payload march_first]
    by (simp add: updated_def other_name_payload_def empty_payload_def)
  have a0: "upd_FieldID other_name_payload = None"
    "map_option FieldID (Submissions sample_store ''s-1'') = Some ''field-7''"
    by (simp_all add: other_name_payload_def empty_payload_def sample_store_def
        field_submission_def)
  have b: "sh_UpdateSubmission ''s-1'' (observer ''u-1'') (Parsed other_name_payload)
                  zero_time half_failing_store
     = (error_response 500 ''internal_error'' (Text ''Failed to update submission''),
        sample_store, None)"
    by (simp add: sh_UpdateSubmission_def store_eval half_failing_store_def sample_store_def
        field_submission_def bare_submission_def observer_def Let_def DataTo_fields)
  have c: "map_option UpdatedAt (Submissions sample_store ''s-1'') = Some march_first"
    by (simp add: sample_store_def field_submission_def bare_submission_def)
  have d: "map_option Date
     (Submissions (fst (snd (sh_UpdateSubmission ''s-1'' (observer ''u-1'')
                               (Parsed borer_payload) march_first aphid_store))) ''s-1'')
     = Some \<lparr>year = 2024, month = 2, day = 29, hour = 23, minute = 30, second = 5,
             nsec = 123456000, zone = None\<rparr>"
    using UpdateSubmission_store[OF sub2 own2 ok(3), of borer_payload march_first]
    by (simp add: updated_def borer_payload_def empty_payload_def night_stored)
  have e: "upd_Date borer_payload = Some night"
    "night \<noteq> \<lparr>year = 2024, month = 2, day = 29, hour = 23, minute = 30, second = 5,
              nsec = 123456000, zone = None\<rparr>"
    by (simp_all add: borer_payload_def empty_payload_def night_def)
  show ?thesis using a0 a1 a2 c d e unfolding b by (simp add: error_response_def)
qed

section \<open>The row codec: formatting rules\<close>

lemma row_cells:
  "gs_submissionToRow s f ! 4 = Format_RFC3339 (Date s)"
  "gs_submissionToRow s f ! 9 = Format_RFC3339 (CreatedAt s)"
  "gs_submissionToRow s f ! 10 = Format_RFC3339 (UpdatedAt s)"
  "gs_submissionToRow s f ! 11 = fmt_f (Latitude (Coordinates s))"
  "gs_submissionToRow s f ! 12 = fmt_f (Longitude (Coordinates s))"
  "gs_submissionToRow s f ! 13 = fmt_f (CulmLength (TraitMeasurements s))"
  "gs_submissionToRow s f ! 14 = fmt_f (PanicleLength (TraitMeasurements s))"
  "gs_submissionToRow s f ! 15 = fmt_d (PaniclesPerHill (TraitMeasurements s))"
  "gs_submissionToRow s f ! 16 = fmt_d (HillsObserved (TraitMeasurements s))"
  "gs_submissionToRow s f ! 20 = mapToString (PestDetails (PlantConditions s))"
  "gs_submissionToRow s f ! 23 = mapToString (NutrientDeficiencyDetails (PlantConditions s))"
  "gs_submissionToRow s f ! 32 = mapToString (DiseaseDetails (PlantConditions s))"
  "gs_submissionToRow s f ! 36 = Join (Images s) '',''"
  "gs_submissionToRow s f ! 37 = Join (Videos s) '',''"
  "gs_submissionToRow s f ! 38 = Join (Audio s) '',''"
  by (simp_all add: gs_submissionToRow_def)

lemma row_bool_cells:
  "map ((!) (gs_submissionToRow s f)) [17, 18, 19, 22, 25, 27, 29, 31, 34] =
   map fmt_t
     [Healthy (PlantConditions s), Unhealthy (PlantConditions s),
      SignsOfPestInfestation (PlantConditions s), SignsOfNutrientDeficiency (PlantConditions s),
      WaterStress (PlantConditions s), Lodging (PlantConditions s),
      WeedInfestation (PlantConditions s), DiseaseSymptoms (PlantConditions s),
      Other (PlantConditions s)]"
  by (simp add: gs_submissionToRow_def)

lemma mapToString_selected: "mapToString m = Join (map fst (filter snd (entries m))) '', ''"
  by (simp add: mapToString_def mapToString_range_filter)

text \<open>
  C8 (as the code has it). In the row of any submission:
  \<^item> the three timestamps are rendered by the RFC 3339 layout, to the second. For a time
    with calendar fields in range, a year from 0 to 9999 and a zone offset below 100
    hours (so for every time that the JSON decoder, the clock or the record store
    gives) the cell has the fixed shape \<^verbatim>\<open>dddd-dd-ddTdd:dd:dd\<close> followed by \<^verbatim>\<open>Z\<close> or
    a signed \<^verbatim>\<open>dd:dd\<close>, and reading the digits back gives the year, month, day, hour,
    minute and second of the time and its zone offset in minutes;
  \<^item> the nine flags are the literal strings \<^verbatim>\<open>true\<close> and \<^verbatim>\<open>false\<close>;
  \<^item> the two integer counts are rendered in full decimal: a minus sign for a negative
    count, then the digits of its magnitude without a leading zero; reading the cell
    gives the signed count back;
  \<^item> the four floating point numbers are rendered by \<^verbatim>\<open>%f\<close>: a finite value
    \<open>m * 2^e\<close> becomes a sign, an integer part and exactly six decimals that together
    denote \<open>micros m e\<close> millionths, the value rounded to the nearest millionth; an
    infinity becomes \<^verbatim>\<open>+Inf\<close> or \<^verbatim>\<open>-Inf\<close> and a value that is not a number
    \<^verbatim>\<open>NaN\<close>;
  \<^item> the three multi-select maps are the keys whose value is true, in iteration order,
    joined by a comma and a space;
  \<^item> the three media lists are the URLs joined by a comma, each URL copied as it is.
\<close>

theorem row_formatting:
  "(gs_submissionToRow s f ! 4 = Format_RFC3339 (Date s) \<and>
    gs_submissionToRow s f ! 9 = Format_RFC3339 (CreatedAt s) \<and>
    gs_submissionToRow s f ! 10 = Format_RFC3339 (UpdatedAt s) \<and>
    (\<forall>t. civil t \<longrightarrow>
       rfc3339_shape (Format_RFC3339 t) \<and>
       read_rfc3339 (Format_RFC3339 t)
         = (year t, month t, day t, hour t, minute t, second t, go_quot (zone_offset t) 60)))
   \<and>
   (map ((!) (gs_submissionToRow s f)) [17, 18, 19, 22, 25, 27, 29, 31, 34] =
      map (\<lambda>b. if b then ''true'' else ''false'')
        [Healthy (PlantConditions s), Unhealthy (PlantConditions s),
         SignsOfPestInfestation (PlantConditions s),
         SignsOfNutrientDeficiency (PlantConditions s),
         WaterStress (PlantConditions s), Lodging (PlantConditions s),
         WeedInfestation (PlantConditions s), DiseaseSymptoms (PlantConditions s),
         Other (PlantConditions s)])
   \<and>
   (gs_submissionToRow s f ! 15 = fmt_d (PaniclesPerHill (TraitMeasurements s)) \<and>
    gs_submissionToRow s f ! 16 = fmt_d (HillsObserved (TraitMeasurements s)) \<and>
    atoi (gs_submissionToRow s f ! 15) = sint (PaniclesPerHill (TraitMeasurements s)) \<and>
    atoi (gs_submissionToRow s f ! 16) = sint (HillsObserved (TraitMeasurements s)) \<and>
    (\<forall>x. \<exists>ds. decimal ds \<and> undec ds = nat \<bar>sint x\<bar> \<and>
            fmt_d x = (if sint x < 0 then CHR ''-'' # ds else ds)))
   \<and>
   (gs_submissionToRow s f ! 11 = fmt_f (Latitude (Coordinates s)) \<and>
    gs_submissionToRow s f ! 12 = fmt_f (Longitude (Coordinates s)) \<and>
    gs_submissionToRow s f ! 13 = fmt_f (CulmLength (TraitMeasurements s)) \<and>
    gs_submissionToRow s f ! 14 = fmt_f (PanicleLength (TraitMeasurements s)) \<and>
    (\<forall>sg m e. \<exists>ip fp.
        fmt_f (Finite sg m e) = (if sg then ''-'' else []) @ ip @ ''.'' @ fp \<and>
        ip \<noteq> [] \<and> list_all is_digit ip \<and> list_all is_digit fp \<and> length fp = 6 \<and>
        undec ip * 1000000 + undec fp = micros m e) \<and>
    (\<forall>m e. 0 \<le> e \<longrightarrow> micros m e = m * 2 ^ nat e * 1000000) \<and>
    (\<forall>m e. e < 0 \<longrightarrow>
        2 * \<bar>int (m * 1000000) - int (micros m e) * 2 ^ nat (- e)\<bar> \<le> 2 ^ nat (- e)) \<and>
    fmt_f (Infinity False) = ''+Inf'' \<and> fmt_f (Infinity True) = ''-Inf'' \<and>
    fmt_f NaN = ''NaN'')
   \<and>
   (gs_submissionToRow s f ! 20 =
      Join (map fst (filter snd (entries (PestDetails (PlantConditions s))))) '', '' \<and>
    gs_submissionToRow s f ! 23 =
      Join (map fst (filter snd (entries (NutrientDeficiencyDetails (PlantConditions s))))) '', '' \<and>
    gs_submissionToRow s f ! 32 =
      Join (map fst (filter snd (entries (DiseaseDetails (PlantConditions s))))) '', '')
   \<and>
   (gs_submissionToRow s f ! 36 = Join (Images s) '','' \<and>
    gs_submissionToRow s f ! 37 = Join (Videos s) '','' \<and>
    gs_submissionToRow s f ! 38 = Join (Audio s) '','' \<and>
    (\<forall>x xs sep. Join (x # xs) sep = x @ concat (map (\<lambda>y. sep @ y) xs)))"
proof -
  have dates: "\<forall>t. civil t \<longrightarrow>
       rfc3339_shape (Format_RFC3339 t) \<and>
       read_rfc3339 (Format_RFC3339 t)
         = (year t, month t, day t, hour t, minute t, second t, go_quot (zone_offset t) 60)"
    using Format_RFC3339_shape read_Format_RFC3339 by blast
  have flags: "fmt_t = (\<lambda>b. if b then ''true'' else ''false'')"
    by (rule ext) (simp add: fmt_t_def)
  have ints: "\<forall>x. \<exists>ds. decimal ds \<and> undec ds = nat \<bar>sint x\<bar> \<and>
            fmt_d x = (if sint x < 0 then CHR ''-'' # ds else ds)"
    using fmt_d_decimal by blast
  have floats: "\<forall>sg m e. \<exists>ip fp.
        fmt_f (Finite sg m e) = (if sg then ''-'' else []) @ ip @ ''.'' @ fp \<and>
        ip \<noteq> [] \<and> list_all is_digit ip \<and> list_all is_digit fp \<and> length fp = 6 \<and>
        undec ip * 1000000 + undec fp = micros m e"
    using fmt_f_shape by blast
  have exact: "\<forall>m e. 0 \<le> e \<longrightarrow> micros m e = m * 2 ^ nat e * 1000000"
    using micros_exact by blast
  have near: "\<forall>m e. e < 0 \<longrightarrow>
        2 * \<bar>int (m * 1000000) - int (micros m e) * 2 ^ nat (- e)\<bar> \<le> 2 ^ nat (- e)"
    using micros_nearest by blast
  have special: "fmt_f (Infinity False) = ''+Inf''" "fmt_f (Infinity True) = ''-Inf''"
    "fmt_f NaN = ''NaN''"
    by simp_all
  have joins: "\<forall>x xs sep. Join (x # xs) sep = x @ concat (map (\<lambda>y. sep @ y) xs)"
    using Join_concat by blast
  have cells: "atoi (fmt_d (PaniclesPerHill (TraitMeasurements s)))
                 = sint (PaniclesPerHill (TraitMeasurements s))"
    "atoi (fmt_d (HillsObserved (TraitMeasurements s))) = sint (HillsObserved (TraitMeasurements s))"
    by (rule atoi_fmt_d)+
  show ?thesis
    unfolding row_cells mapToString_selected row_bool_cells flags
    apply (intro conjI)
                        apply (rule refl dates ints floats exact near special joins cells)+
    done
qed

text \<open>
  The theorem at the test submission, whose date cell has the fixed shape and reads
  back as 1 March 2024, 00:00:00 UTC, and at the values \<open>1 * 2^3\<close>, which is rendered
  exactly, and \<open>3 * 2^-1\<close>, where the rounding bound holds.
\<close>

theorem row_formatting_witness:
  "civil march_first \<and>
   rfc3339_shape (gs_submissionToRow bare_submission ''Plot A'' ! 4) \<and>
   read_rfc3339 (gs_submissionToRow bare_submission ''Plot A'' ! 4) = (2024, 3, 1, 0, 0, 0, 0) \<and>
   (0::int) \<le> 3 \<and> micros 1 3 = 1 * 2 ^ nat 3 * 1000000 \<and>
   (- 1 :: int) < 0 \<and>
   2 * \<bar>int (3 * 1000000) - int (micros 3 (- 1)) * 2 ^ nat (- (- 1))\<bar> \<le> (2::int) ^ nat (- (- 1))"
proof -
  note rf = row_formatting [of bare_submission "''Plot A''"]
  have c: "civil march_first"
    by (simp add: civil_def march_first_def zone_offset_def)
  have d: "Date bare_submission = march_first"
    by (simp add: bare_submission_def)
  from rf have cell: "gs_submissionToRow bare_submission ''Plot A'' ! 4
                        = Format_RFC3339 (Date bare_submission)"
    by (elim conjE)
  from rf have "\<forall>t. civil t \<longrightarrow>
       rfc3339_shape (Format_RFC3339 t) \<and>
       read_rfc3339 (Format_RFC3339 t)
         = (year t, month t, day t, hour t, minute t, second t, go_quot (zone_offset t) 60)"
    by (elim conjE)
  with c have shape: "rfc3339_shape (Format_RFC3339 march_first)"
    and rd: "read_rfc3339 (Format_RFC3339 march_first)
               = (year march_first, month march_first, day march_first, hour march_first,
                  minute march_first, second march_first, go_quot (zone_offset march_first) 60)"
    by blast+
  have rd': "read_rfc3339 (Format_RFC3339 march_first) = (2024, 3, 1, 0, 0, 0, 0)"
    unfolding rd by (simp add: march_first_def zone_offset_def go_quot_def)
  from rf have "\<forall>m e. 0 \<le> e \<longrightarrow> micros m e = m * 2 ^ nat e * 1000000"
    by (elim conjE)
  then have ex: "micros 1 3 = 1 * 2 ^ nat 3 * 1000000" by (elim allE [of _ 1] allE [of _ 3]) simp
  from rf have "\<forall>m e. e < 0 \<longrightarrow>
        2 * \<bar>int (m * 1000000) - int (micros m e) * 2 ^ nat (- e)\<bar> \<le> 2 ^ nat (- e)"
    by (elim conjE)
  then have "(- 1 :: int) < 0 \<longrightarrow>
        2 * \<bar>int (3 * 1000000) - int (micros 3 (- 1)) * 2 ^ nat (- (- 1))\<bar> \<le> 2 ^ nat (- (- 1))"
    by blast
  then have near: "2 * \<bar>int (3 * 1000000) - int (micros 3 (- 1)) * 2 ^ nat (- (- 1))\<bar>
                    \<le> (2::int) ^ nat (- (- 1))"
    by (elim impE) simp
  show ?thesis
    using c cell d shape rd' ex near by (intro conjI) simp_all
qed

text \<open>
  C8 (as stated) fails. On the numeric fields: a latitude of \<open>2^-30\<close> and a latitude of
  zero are both rendered as \<^verbatim>\<open>0.000000\<close>, and a latitude that is not a number is
  rendered as \<^verbatim>\<open>NaN\<close>. On the dates: a date in the year 10000 is rendered with a
  year of five digits, and a date in a zone 100 hours east of UTC with a zone hour of
  three digits; neither cell has the fixed shape.
\<close>

theorem row_rounding_and_width:
  "Latitude (Coordinates tiny_latitude_submission) = Finite False 1 (- 30) \<and>
   Latitude (Coordinates bare_submission) = Finite False 0 0 \<and>
   gs_submissionToRow tiny_latitude_submission ''Plot A'' ! 11 = ''0.000000'' \<and>
   gs_submissionToRow bare_submission ''Plot A'' ! 11 = ''0.000000'' \<and>
   gs_submissionToRow nan_latitude_submission ''Plot A'' ! 11 = ''NaN'' \<and>
   gs_submissionToRow year_10000_submission ''Plot A'' ! 4 = ''10000-03-01T00:00:00Z'' \<and>
   \<not> rfc3339_shape (gs_submissionToRow year_10000_submission ''Plot A'' ! 4) \<and>
   gs_submissionToRow wide_zone_submission ''Plot A'' ! 4 = ''2024-03-01T00:00:00+100:00'' \<and>
   \<not> rfc3339_shape (gs_submissionToRow wide_zone_submission ''Plot A'' ! 4)"
proof -
  have a: "gs_submissionToRow tiny_latitude_submission ''Plot A'' ! 11 = ''0.000000''"
    "gs_submissionToRow bare_submission ''Plot A'' ! 11 = ''0.000000''"
    "gs_submissionToRow nan_latitude_submission ''Plot A'' ! 11 = ''NaN''"
    by (simp_all add: row_cells tiny_latitude_submission_def bare_submission_def
        nan_latitude_submission_def micros_def round_half_even_def dec_eval pad_def)
  have y: "gs_submissionToRow year_10000_submission ''Plot A'' ! 4 = ''10000-03-01T00:00:00Z''"
    by (simp add: row_cells year_10000_submission_def bare_submission_def march_first_def
        Format_RFC3339_def appendInt_def format_zone_def zone_offset_def dec_eval pad_def)
  have z: "gs_submissionToRow wide_zone_submission ''Plot A'' ! 4 = ''2024-03-01T00:00:00+100:00''"
    by (simp add: row_cells wide_zone_submission_def bare_submission_def march_first_def
        Format_RFC3339_def appendInt_def format_zone_def zone_offset_def go_quot_def dec_eval
        pad_def)
  have ny: "\<not> rfc3339_shape ''10000-03-01T00:00:00Z''"
    by (simp add: rfc3339_shape_def is_digit_def)
  have nz: "\<not> rfc3339_shape ''2024-03-01T00:00:00+100:00''"
    by (simp add: rfc3339_shape_def is_digit_def)
  show ?thesis
    unfolding a y z using ny nz
    by (simp add: tiny_latitude_submission_def bare_submission_def)
qed

section \<open>Media upload: the prefix check\<close>

text \<open>
  C9. \<^verbatim>\<open>UploadMedia\<close> panics exactly on the requests whose \<^verbatim>\<open>submission_id\<close> is
  non-empty and shorter than five characters and that reach the prefix check: the file
  type is given, a file of an allowed extension is uploaded, and the copy to the object
  store and the closing of the writer succeed. So with an empty \<^verbatim>\<open>submission_id\<close> or
  one of at least five characters the handler always returns a response, and for every
  shorter non-empty \<^verbatim>\<open>submission_id\<close> there is a request on which it panics.
\<close>

theorem UploadMedia_panics_on_short_id:
  "(mh_UploadMedia up st = Panic \<longleftrightarrow>
      form_submission_id up \<noteq> [] \<and> length (form_submission_id up) < 5 \<and>
      form_file_type up \<noteq> [] \<and>
      (\<exists>name contentType. form_file up = Some (name, contentType) \<and>
         ValidateMediaType name (form_file_type up)) \<and>
      copy_ok up \<and> close_ok up) \<and>
   (form_submission_id up = [] \<or> 5 \<le> length (form_submission_id up) \<longrightarrow>
      (\<exists>r st'. mh_UploadMedia up st = Returned (r, st'))) \<and>
   (sid \<noteq> [] \<and> length sid < 5 \<longrightarrow> mh_UploadMedia (leaf_upload sid) st = Panic)"
proof (intro conjI)
  show iff: "mh_UploadMedia up st = Panic \<longleftrightarrow>
      form_submission_id up \<noteq> [] \<and> length (form_submission_id up) < 5 \<and>
      form_file_type up \<noteq> [] \<and>
      (\<exists>name contentType. form_file up = Some (name, contentType) \<and>
         ValidateMediaType name (form_file_type up)) \<and>
      copy_ok up \<and> close_ok up"
    unfolding mh_UploadMedia_def Let_def slice_to_def
    by (auto split: option.splits prod.splits bool.splits)
  show "form_submission_id up = [] \<or> 5 \<le> length (form_submission_id up) \<longrightarrow>
      (\<exists>r st'. mh_UploadMedia up st = Returned (r, st'))"
  proof
    assume "form_submission_id up = [] \<or> 5 \<le> length (form_submission_id up)"
    then have "mh_UploadMedia up st \<noteq> Panic" using iff by auto
    then show "\<exists>r st'. mh_UploadMedia up st = Returned (r, st')"
      by (cases "mh_UploadMedia up st") auto
  qed
  show "sid \<noteq> [] \<and> length sid < 5 \<longrightarrow> mh_UploadMedia (leaf_upload sid) st = Panic"
    unfolding mh_UploadMedia_def Let_def slice_to_def
    by (simp add: leaf_upload_def leaf_valid)
qed

text \<open>
  The theorem on the upload of \<^verbatim>\<open>leaf.jpg\<close> for the identifier \<^verbatim>\<open>abc\<close>, which
  panics, and for \<^verbatim>\<open>temp_1\<close>, which returns.
\<close>

theorem UploadMedia_panics_on_short_id_witness:
  "''abc'' \<noteq> [] \<and> length ''abc'' < 5 \<and> mh_UploadMedia (leaf_upload ''abc'') empty_store = Panic \<and>
   5 \<le> length ''temp_1'' \<and>
   (\<exists>r st'. mh_UploadMedia (leaf_upload ''temp_1'') empty_store = Returned (r, st'))"
proof -
  note t1 = UploadMedia_panics_on_short_id[of "leaf_upload ''abc''" empty_store "''abc''"]
  note t2 = UploadMedia_panics_on_short_id[of "leaf_upload ''temp_1''" empty_store "''abc''"]
  have a: "''abc'' \<noteq> [] \<and> length ''abc'' < 5" by simp
  have b: "5 \<le> length (form_submission_id (leaf_upload ''temp_1''))"
    by (simp add: leaf_upload_def)
  from t1 a have p: "mh_UploadMedia (leaf_upload ''abc'') empty_store = Panic" by blast
  from t2 b have "\<exists>r st'. mh_UploadMedia (leaf_upload ''temp_1'') empty_store = Returned (r, st')"
    by blast
  with p a show ?thesis by simp
qed

section \<open>Update of a submission: the field sentinel\<close>

text \<open>
  C10. In an authorized update of an existing submission, with a payload that binds,
  whose read of the document and whose write succeed: when the payload holds
  \<^verbatim>\<open>other_field_name\<close>, the stored \<^verbatim>\<open>field_id\<close> is the literal \<^verbatim>\<open>others\<close> whatever
  \<^verbatim>\<open>field_id\<close> the payload holds, and the stored \<^verbatim>\<open>other_field_name\<close> is that of the
  payload; the \<^verbatim>\<open>field_id\<close> of the payload is stored only when \<^verbatim>\<open>other_field_name\<close> is
  absent, and with both absent the stored \<^verbatim>\<open>field_id\<close> stays. When the read that
  follows the write succeeds too, the answer is 200 and its body has the stored
  \<^verbatim>\<open>field_id\<close> and \<^verbatim>\<open>other_field_name\<close>. For every payload, the list of updates sent
  to the store sets \<^verbatim>\<open>field_id\<close> at most once: to \<^verbatim>\<open>others\<close> when \<^verbatim>\<open>other_field_name\<close>
  is present, to the \<^verbatim>\<open>field_id\<close> of the payload otherwise.
\<close>

theorem UpdateSubmission_other_field_name:
  assumes "Submissions st sid = Some s"
    and "User_Role user = ''admin'' \<or> UserID s = User_ID user"
    and "succeed 2 st"
  shows "(\<exists>s'.
     Submissions (fst (snd (sh_UpdateSubmission sid user (Parsed req) now st))) sid = Some s' \<and>
     (case upd_OtherFieldName req of
        Some name \<Rightarrow> FieldID s' = ''others'' \<and> OtherFieldName s' = name
      | None \<Rightarrow>
          OtherFieldName s' = OtherFieldName s \<and>
          (case upd_FieldID req of Some fid \<Rightarrow> FieldID s' = fid | None \<Rightarrow> FieldID s' = FieldID s)) \<and>
     (succeed 3 st \<longrightarrow>
        (\<exists>b st' t.
           sh_UpdateSubmission sid user (Parsed req) now st
             = (\<lparr>status = 200,
                 body = SuccessResponse (SubmissionData b) ''Submission updated successfully''\<rparr>,
                st', t) \<and>
           FieldID b = FieldID s' \<and> OtherFieldName b = OtherFieldName s')))
   \<and>
   filter (\<lambda>u. fst u = ''field_id'') (build_updates req now)
     = (case upd_OtherFieldName req of
          Some name \<Rightarrow> [(''field_id'', VString ''others'')]
        | None \<Rightarrow> (case upd_FieldID req of None \<Rightarrow> [] | Some v \<Rightarrow> [(''field_id'', VString v)]))"
proof (rule conjI)
  define s' where "s' = updated s req now"
  have store: "Submissions (fst (snd (sh_UpdateSubmission sid user (Parsed req) now st))) sid = Some s'"
    using UpdateSubmission_store[OF assms, of req now] by (simp add: s'_def)
  have flds: "case upd_OtherFieldName req of
        Some name \<Rightarrow> FieldID s' = ''others'' \<and> OtherFieldName s' = name
      | None \<Rightarrow>
          OtherFieldName s' = OtherFieldName s \<and>
          (case upd_FieldID req of Some fid \<Rightarrow> FieldID s' = fid | None \<Rightarrow> FieldID s' = FieldID s)"
    by (simp add: s'_def updated_def split: option.splits)
  have body: "succeed 3 st \<longrightarrow>
        (\<exists>b st' t.
           sh_UpdateSubmission sid user (Parsed req) now st
             = (\<lparr>status = 200,
                 body = SuccessResponse (SubmissionData b) ''Submission updated successfully''\<rparr>,
                st', t) \<and>
           FieldID b = FieldID s' \<and> OtherFieldName b = OtherFieldName s')"
  proof
    assume three: "succeed 3 st"
    from UpdateSubmission_ok[OF assms(1,2) three, of req now, folded s'_def]
    obtain st' fn where "sh_UpdateSubmission sid user (Parsed req) now st
       = (\<lparr>status = 200,
           body = SuccessResponse (SubmissionData (DataTo s' (stored s)))
                    ''Submission updated successfully''\<rparr>,
          st', Some (UpdateTask (DataTo s' (stored s)) fn))"
      by blast
    moreover have "FieldID (DataTo s' (stored s)) = FieldID s'"
      "OtherFieldName (DataTo s' (stored s)) = OtherFieldName s'"
      by (simp_all add: DataTo_fields)
    ultimately show "\<exists>b st' t.
           sh_UpdateSubmission sid user (Parsed req) now st
             = (\<lparr>status = 200,
                 body = SuccessResponse (SubmissionData b) ''Submission updated successfully''\<rparr>,
                st', t) \<and>
           FieldID b = FieldID s' \<and> OtherFieldName b = OtherFieldName s'"
      by blast
  qed
  show "\<exists>s'.
     Submissions (fst (snd (sh_UpdateSubmission sid user (Parsed req) now st))) sid = Some s' \<and>
     (case upd_OtherFieldName req of
        Some name \<Rightarrow> FieldID s' = ''others'' \<and> OtherFieldName s' = name
      | None \<Rightarrow>
          OtherFieldName s' = OtherFieldName s \<and>
          (case upd_FieldID req of Some fid \<Rightarrow> FieldID s' = fid | None \<Rightarrow> FieldID s' = FieldID s)) \<and>
     (succeed 3 st \<longrightarrow>
        (\<exists>b st' t.
           sh_UpdateSubmission sid user (Parsed req) now st
             = (\<lparr>status = 200,
                 body = SuccessResponse (SubmissionData b) ''Submission updated successfully''\<rparr>,
                st', t) \<and>
           FieldID b = FieldID s' \<and> OtherFieldName b = OtherFieldName s'))"
    using store flds body by blast
  show "filter (\<lambda>u. fst u = ''field_id'') (build_updates req now)
     = (case upd_OtherFieldName req of
          Some name \<Rightarrow> [(''field_id'', VString ''others'')]
        | None \<Rightarrow> (case upd_FieldID req of None \<Rightarrow> [] | Some v \<Rightarrow> [(''field_id'', VString v)]))"
    by (rule field_id_updates)
qed

text \<open>The theorem on a payload that holds both \<^verbatim>\<open>other_field_name\<close> and \<^verbatim>\<open>field_id\<close>.\<close>

theorem UpdateSubmission_other_field_name_witness:
  "Submissions sample_store ''s-1'' = Some field_submission \<and>
   (User_Role (observer ''u-1'') = ''admin'' \<or> UserID field_submission = User_ID (observer ''u-1'')) \<and>
   succeed 2 sample_store \<and> succeed 3 sample_store \<and>
   upd_FieldID both_names_payload = Some ''field-9'' \<and>
   (\<exists>s' b st' t.
      sh_UpdateSubmission ''s-1'' (observer ''u-1'') (Parsed both_names_payload) march_first sample_store
        = (\<lparr>status = 200,
            body = SuccessResponse (SubmissionData b) ''Submission updated successfully''\<rparr>,
           st', t) \<and>
      Submissions st' ''s-1'' = Some s' \<and>
      FieldID s' = ''others'' \<and> OtherFieldName s' = ''North plot'' \<and>
      FieldID b = ''others'' \<and> OtherFieldName b = ''North plot'')"
proof -
  have own: "User_Role (observer ''u-1'') = ''admin'' \<or> UserID field_submission = User_ID (observer ''u-1'')"
    by (simp add: sample_store_facts)
  have ok: "succeed 2 sample_store" "succeed 3 sample_store"
    by (simp_all add: succeed_def sample_store_def)
  have p: "upd_OtherFieldName both_names_payload = Some ''North plot''"
    "upd_FieldID both_names_payload = Some ''field-9''"
    by (simp_all add: both_names_payload_def empty_payload_def)
  from UpdateSubmission_other_field_name
         [OF sample_store_facts(2) own ok(1), of both_names_payload march_first, THEN conjunct1]
  obtain s' where s':
    "Submissions (fst (snd (sh_UpdateSubmission ''s-1'' (observer ''u-1'') (Parsed both_names_payload)
                              march_first sample_store))) ''s-1'' = Some s'"
    "FieldID s' = ''others''" "OtherFieldName s' = ''North plot''"
    "succeed 3 sample_store \<longrightarrow>
        (\<exists>b st' t.
           sh_UpdateSubmission ''s-1'' (observer ''u-1'') (Parsed both_names_payload) march_first
               sample_store
             = (\<lparr>status = 200,
                 body = SuccessResponse (SubmissionData b) ''Submission updated successfully''\<rparr>,
                st', t) \<and>
           FieldID b = FieldID s' \<and> OtherFieldName b = OtherFieldName s')"
    unfolding p by auto
  from s'(4) ok(2) obtain b st' t where b:
    "sh_UpdateSubmission ''s-1'' (observer ''u-1'') (Parsed both_names_payload) march_first
               sample_store
             = (\<lparr>status = 200,
                 body = SuccessResponse (SubmissionData b) ''Submission updated successfully''\<rparr>,
                st', t)"
    "FieldID b = FieldID s'" "OtherFieldName b = OtherFieldName s'"
    by blast
  have "Submissions st' ''s-1'' = Some s'" using s'(1) unfolding b(1) by simp
  then have "\<exists>s' b st' t.
      sh_UpdateSubmission ''s-1'' (observer ''u-1'') (Parsed both_names_payload) march_first sample_store
        = (\<lparr>status = 200,
            body = SuccessResponse (SubmissionData b) ''Submission updated successfully''\<rparr>,
           st', t) \<and>
      Submissions st' ''s-1'' = Some s' \<and>
      FieldID s' = ''others'' \<and> OtherFieldName s' = ''North plot'' \<and>
      FieldID b = ''others'' \<and> OtherFieldName b = ''North plot''"
    using b s'(2,3) by auto
  then show ?thesis using own sample_store_facts(2) ok p(2) by blast
qed

end
